theory Spec2Isabelle
  imports Complex_Main
begin

section \<open>Tokens (types/token.ts)\<close>

datatype TokenType =
    BANAO | SADA | AGAR | WARNA | DOHRANA | JAB_TAK | SYSTEM | KA_SYSTEM | RETURN | LIKHO
  | PUCHHO | RANGE | IN | SACH | JHOOTH | AUR | YA | NAHI
  | IDENTIFIER | NUMBER | STRING
  | PLUS | MINUS | MULTIPLY | DIVIDE | MODULO | POWER
  | EQUAL | NOT_EQUAL | LESS_THAN | GREATER_THAN | LESS_EQUAL | GREATER_EQUAL
  | ASSIGN
  | LEFT_PAREN | RIGHT_PAREN | LEFT_BRACE | RIGHT_BRACE | COMMA | COLON
  | NEWLINE | EOF | INDENT | DEDENT
  | PROTOTYPE_MEMBER

text \<open>
  \<open>PROTOTYPE_MEMBER\<close> is no member of the enum.  It stands for the value a token's
  \<^verbatim>\<open>type\<close> field holds when the lexer's keyword lookup finds a member that every object
  inherits (see \<open>keywords_table\<close>): a function or an object, equal to no token type.

  A token: \<^verbatim>\<open>{ type, value, position: { line, column } }\<close>.  The column is
  \<^verbatim>\<open>this.column - value.length\<close>, which is negative for a string literal that spans
  a line break, hence an integer.
\<close>

record Token =
  tok_type :: TokenType
  tok_value :: string
  tok_line :: nat
  tok_column :: int

text \<open>\<^verbatim>\<open>class EasyLangError extends Error\<close>: message, line, column, type.\<close>

datatype EasyLangError = EasyLangError string nat int string

section \<open>The lexer (interpreter/lexer.ts)\<close>

text \<open>
  Source text is a list of 8-bit characters; a JavaScript one-character string
  (the result of \<^verbatim>\<open>charAt\<close>) is a list of length one, and \<^verbatim>\<open>charAt\<close> out of range is
  the empty string.
\<close>

definition charAt :: "string \<Rightarrow> nat \<Rightarrow> string" where
  "charAt s i = (if i < length s then [s ! i] else [])"

definition substring :: "string \<Rightarrow> nat \<Rightarrow> nat \<Rightarrow> string" where
  "substring s a b = take (b - a) (drop a s)"

definition LF :: string where "LF = [CHR 0x0A]"
definition CR :: string where "CR = [CHR 0x0D]"
definition TAB :: string where "TAB = [CHR 0x09]"
definition NUL :: string where "NUL = [CHR 0x00]"
definition DQUOTE :: string where "DQUOTE = [CHR 0x22]"

record Lexer =
  source :: string
  tokens :: "Token list"
  current :: nat
  line :: nat
  column :: int
  indentStack :: "nat list"

definition new_Lexer :: "string \<Rightarrow> Lexer" where
  "new_Lexer src =
     \<lparr>source = src, tokens = [], current = 0, line = 1, column = 1, indentStack = [0]\<rparr>"

text \<open>
  The keyword table \<^verbatim>\<open>keywords\<close>; a miss is \<^verbatim>\<open>IDENTIFIER\<close>.  The table is a plain
  object and the lookup is \<^verbatim>\<open>this.keywords[text] || TokenType.IDENTIFIER\<close>, so for the name
  of a member of \<^verbatim>\<open>Object.prototype\<close> the lookup finds that inherited member, which is
  truthy, and the token gets it as its type.
\<close>

definition keywords_table :: "string \<Rightarrow> TokenType option" where
  "keywords_table text =
    (if text = ''banao'' then Some BANAO
     else if text = ''sada'' then Some SADA
     else if text = ''agar'' then Some AGAR
     else if text = ''warna'' then Some WARNA
     else if text = ''dohrana'' then Some DOHRANA
     else if text = ''jab'' then Some JAB_TAK
     else if text = ''tak'' then Some JAB_TAK
     else if text = ''system'' then Some SYSTEM
     else if text = ''ka'' then Some KA_SYSTEM
     else if text = ''return'' then Some RETURN
     else if text = ''likho'' then Some LIKHO
     else if text = ''puchho'' then Some PUCHHO
     else if text = ''range'' then Some RANGE
     else if text = ''in'' then Some IN
     else if text = ''sach'' then Some SACH
     else if text = ''jhooth'' then Some JHOOTH
     else if text = ''aur'' then Some AUR
     else if text = ''ya'' then Some YA
     else if text = ''nahi'' then Some NAHI
     else if text \<in> set [''constructor'', ''hasOwnProperty'', ''isPrototypeOf'',
                          ''propertyIsEnumerable'', ''toLocaleString'', ''toString'', ''valueOf'',
                          ''__proto__'', ''__defineGetter__'', ''__defineSetter__'',
                          ''__lookupGetter__'', ''__lookupSetter__'']
     then Some PROTOTYPE_MEMBER
     else None)"

definition isDigit :: "string \<Rightarrow> bool" where
  "isDigit c = (case c of [x] \<Rightarrow> (48::nat) \<le> of_char x \<and> (of_char x :: nat) \<le> 57 | _ \<Rightarrow> False)"

definition isAlpha :: "string \<Rightarrow> bool" where
  "isAlpha c = (case c of
      [x] \<Rightarrow> ((97::nat) \<le> of_char x \<and> (of_char x :: nat) \<le> 122)
           \<or> ((65::nat) \<le> of_char x \<and> (of_char x :: nat) \<le> 90)
           \<or> x = CHR ''_''
    | _ \<Rightarrow> False)"

definition isAlphaNumeric :: "string \<Rightarrow> bool" where
  "isAlphaNumeric c = (isAlpha c \<or> isDigit c)"

definition isAtEnd :: "Lexer \<Rightarrow> bool" where
  "isAtEnd lx = (current lx \<ge> length (source lx))"

text \<open>
  \<^verbatim>\<open>advance\<close> increments the column, returns \<^verbatim>\<open>source.charAt(current)\<close> and
  increments the cursor: the returned character is \<open>advanced_char\<close>, the new state
  \<open>advance\<close>.
\<close>

definition advanced_char :: "Lexer \<Rightarrow> string" where
  "advanced_char lx = charAt (source lx) (current lx)"

definition advance :: "Lexer \<Rightarrow> Lexer" where
  "advance lx = lx\<lparr>column := column lx + 1, current := current lx + 1\<rparr>"

definition peek :: "Lexer \<Rightarrow> string" where
  "peek lx = (if isAtEnd lx then NUL else charAt (source lx) (current lx))"

definition peekNext :: "Lexer \<Rightarrow> string" where
  "peekNext lx =
     (if current lx + 1 \<ge> length (source lx) then NUL else charAt (source lx) (current lx + 1))"

text \<open>\<^verbatim>\<open>match(expected)\<close>: the boolean is \<open>matches\<close>, the state after a hit \<open>matched\<close>.\<close>

definition matches :: "Lexer \<Rightarrow> string \<Rightarrow> bool" where
  "matches lx expected =
     (if isAtEnd lx then False
      else if charAt (source lx) (current lx) \<noteq> expected then False
      else True)"

definition matched :: "Lexer \<Rightarrow> Lexer" where
  "matched lx = lx\<lparr>current := current lx + 1, column := column lx + 1\<rparr>"

definition addToken :: "TokenType \<Rightarrow> string \<Rightarrow> Lexer \<Rightarrow> Lexer" where
  "addToken ty val lx =
     lx\<lparr>tokens := tokens lx @
        [\<lparr>tok_type = ty, tok_value = val, tok_line = line lx,
          tok_column = column lx - int (length val)\<rparr>]\<rparr>"

subsection \<open>handleIndentation\<close>

text \<open>The counting loop: a space is one unit, a tab four.\<close>

function indent_loop :: "nat \<Rightarrow> Lexer \<Rightarrow> nat \<times> Lexer" where
  "indent_loop indent lx =
     (if \<not> isAtEnd lx \<and> (peek lx = '' '' \<or> peek lx = TAB)
      then indent_loop (if peek lx = '' '' then indent + 1 else indent + 4) (advance lx)
      else (indent, lx))"
  by pat_completeness auto
termination
  by (relation "measure (\<lambda>(i, lx). length (source lx) - current lx)")
     (auto simp: isAtEnd_def advance_def)

declare indent_loop.simps [simp del]

text \<open>The pop loop: one \<^verbatim>\<open>DEDENT\<close> per popped width, never popping the bottom entry.\<close>

function dedent_loop :: "nat \<Rightarrow> Lexer \<Rightarrow> Lexer" where
  "dedent_loop indent lx =
     (if length (indentStack lx) > 1 \<and> last (indentStack lx) > indent
      then dedent_loop indent (addToken DEDENT [] (lx\<lparr>indentStack := butlast (indentStack lx)\<rparr>))
      else lx)"
  by pat_completeness auto
termination
  by (relation "measure (\<lambda>(i, lx). length (indentStack lx))") (auto simp: addToken_def)

declare dedent_loop.simps [simp del]

text \<open>
  The top of the stack, \<^verbatim>\<open>indentStack[indentStack.length - 1]\<close>, is \<^verbatim>\<open>undefined\<close>
  on an empty stack (\<open>None\<close>); every comparison with \<^verbatim>\<open>undefined\<close> is false.
\<close>

definition stack_top :: "Lexer \<Rightarrow> nat option" where
  "stack_top lx = (if indentStack lx = [] then None else Some (last (indentStack lx)))"

definition handleIndentation :: "Lexer \<Rightarrow> EasyLangError + Lexer" where
  "handleIndentation lx0 =
     (let lx1 = lx0\<lparr>current := current lx0 - 1\<rparr>;
          startColumn = column lx1;
          (indent, lx2) = indent_loop 0 lx1
      in case stack_top lx2 of
           None \<Rightarrow> Inr lx2
         | Some currentIndent \<Rightarrow>
             if indent > currentIndent
             then Inr (addToken INDENT (replicate indent CHR '' '')
                         (lx2\<lparr>indentStack := indentStack lx2 @ [indent]\<rparr>))
             else if indent < currentIndent
             then (let lx3 = dedent_loop indent lx2
                   in if stack_top lx3 \<noteq> Some indent
                      then Inl (EasyLangError ''Indentation error'' (line lx3) startColumn
                                  ''SyntaxError'')
                      else Inr lx3)
             else Inr lx2)"

subsection \<open>string, number, identifier\<close>

function string_loop :: "Lexer \<Rightarrow> Lexer" where
  "string_loop lx =
     (if peek lx \<noteq> DQUOTE \<and> \<not> isAtEnd lx
      then string_loop
             (advance (if peek lx = LF then lx\<lparr>line := line lx + 1, column := 1\<rparr> else lx))
      else lx)"
  by pat_completeness auto
termination
  by (relation "measure (\<lambda>lx. length (source lx) - current lx)")
     (auto simp: isAtEnd_def advance_def)

declare string_loop.simps [simp del]

definition string_lit :: "Lexer \<Rightarrow> EasyLangError + Lexer" where
  "string_lit lx0 =
     (let start = current lx0 - 1;
          lx1 = string_loop lx0
      in if isAtEnd lx1
         then Inl (EasyLangError ''Unterminated string'' (line lx1) (column lx1) ''SyntaxError'')
         else (let lx2 = advance lx1;
                   val = substring (source lx2) (start + 1) (current lx2 - 1)
               in Inr (addToken STRING val lx2)))"

function digits_loop :: "Lexer \<Rightarrow> Lexer" where
  "digits_loop lx = (if isDigit (peek lx) then digits_loop (advance lx) else lx)"
  by pat_completeness auto
termination
  by (relation "measure (\<lambda>lx. length (source lx) - current lx)")
     (auto simp: isAtEnd_def advance_def peek_def isDigit_def NUL_def split: if_splits)

declare digits_loop.simps [simp del]

definition number_lit :: "Lexer \<Rightarrow> Lexer" where
  "number_lit lx0 =
     (let start = current lx0 - 1;
          lx1 = digits_loop lx0;
          lx2 = (if peek lx1 = ''.'' \<and> isDigit (peekNext lx1)
                 then digits_loop (advance lx1) else lx1);
          val = substring (source lx2) start (current lx2)
      in addToken NUMBER val lx2)"

function alnum_loop :: "Lexer \<Rightarrow> Lexer" where
  "alnum_loop lx = (if isAlphaNumeric (peek lx) then alnum_loop (advance lx) else lx)"
  by pat_completeness auto
termination
  by (relation "measure (\<lambda>lx. length (source lx) - current lx)")
     (auto simp: isAtEnd_def advance_def peek_def isAlphaNumeric_def isAlpha_def isDigit_def
                 NUL_def split: if_splits)

declare alnum_loop.simps [simp del]

text \<open>
  The compound keywords: after \<^verbatim>\<open>jab\<close> (or \<^verbatim>\<open>ka\<close>) and one space, the exact second
  word makes one token; otherwise the cursor steps back over the space.
\<close>

definition compound :: "string \<Rightarrow> string \<Rightarrow> TokenType \<Rightarrow> string \<Rightarrow> Lexer \<Rightarrow> Lexer + Lexer" where
  "compound text second ty whole lx =
     (let nextStart = current lx + 1;
          lx1 = advance lx
      in if substring (source lx1) nextStart (nextStart + length second) = second
         then Inl (addToken ty whole
                     (lx1\<lparr>current := current lx1 + length second,
                          column := column lx1 + int (length second)\<rparr>))
         else Inr (lx1\<lparr>current := current lx1 - 1, column := column lx1 - 1\<rparr>))"

definition identifier_lit :: "Lexer \<Rightarrow> Lexer" where
  "identifier_lit lx0 =
     (let start = current lx0 - 1;
          lx1 = alnum_loop lx0;
          text = substring (source lx1) start (current lx1)
      in case (if text = ''jab'' \<and> peek lx1 = '' ''
               then compound text ''tak'' JAB_TAK ''jab tak'' lx1 else Inr lx1) of
           Inl done \<Rightarrow> done
         | Inr lx2 \<Rightarrow>
            (case (if text = ''ka'' \<and> peek lx2 = '' ''
                   then compound text ''system'' KA_SYSTEM ''ka system'' lx2 else Inr lx2) of
               Inl done \<Rightarrow> done
             | Inr lx3 \<Rightarrow>
                 addToken (case keywords_table text of Some ty \<Rightarrow> ty | None \<Rightarrow> IDENTIFIER) text lx3))"

subsection \<open>scanToken and tokenize\<close>

function comment_loop :: "Lexer \<Rightarrow> Lexer" where
  "comment_loop lx =
     (if peek lx \<noteq> LF \<and> \<not> isAtEnd lx then comment_loop (advance lx) else lx)"
  by pat_completeness auto
termination
  by (relation "measure (\<lambda>lx. length (source lx) - current lx)")
     (auto simp: isAtEnd_def advance_def)

declare comment_loop.simps [simp del]

definition scanToken :: "Lexer \<Rightarrow> EasyLangError + Lexer" where
  "scanToken lx0 =
     (let c = advanced_char lx0; lx = advance lx0
      in if c = '' '' \<or> c = CR \<or> c = TAB
           then (if column lx = 2 then handleIndentation lx else Inr lx)
         else if c = LF
           then Inr ((addToken NEWLINE LF lx)\<lparr>line := line lx + 1, column := 1\<rparr>)
         else if c = ''+'' then Inr (addToken PLUS ''+'' lx)
         else if c = ''-'' then Inr (addToken MINUS ''-'' lx)
         else if c = ''/'' then Inr (addToken DIVIDE ''/'' lx)
         else if c = ''%'' then Inr (addToken MODULO ''%'' lx)
         else if c = ''('' then Inr (addToken LEFT_PAREN ''('' lx)
         else if c = '')'' then Inr (addToken RIGHT_PAREN '')'' lx)
         else if c = ''{'' then Inr (addToken LEFT_BRACE ''{'' lx)
         else if c = ''}'' then Inr (addToken RIGHT_BRACE ''}'' lx)
         else if c = '','' then Inr (addToken COMMA '','' lx)
         else if c = '':'' then Inr (addToken COLON '':'' lx)
         else if c = ''*''
           then (if matches lx ''*'' then Inr (addToken POWER ''**'' (matched lx))
                 else Inr (addToken MULTIPLY ''*'' lx))
         else if c = ''=''
           then (if matches lx ''='' then Inr (addToken EQUAL ''=='' (matched lx))
                 else Inr (addToken ASSIGN ''='' lx))
         else if c = ''!''
           then (if matches lx ''='' then Inr (addToken NOT_EQUAL ''!='' (matched lx))
                 else Inl (EasyLangError ''Unexpected character'' (line lx) (column lx)
                             ''SyntaxError''))
         else if c = ''<''
           then (if matches lx ''='' then Inr (addToken LESS_EQUAL ''<='' (matched lx))
                 else Inr (addToken LESS_THAN ''<'' lx))
         else if c = ''>''
           then (if matches lx ''='' then Inr (addToken GREATER_EQUAL ''>='' (matched lx))
                 else Inr (addToken GREATER_THAN ''>'' lx))
         else if c = DQUOTE then string_lit lx
         else if c = ''#'' then Inr (comment_loop lx)
         else if isDigit c then Inr (number_lit lx)
         else if isAlpha c then Inr (identifier_lit lx)
         else Inl (EasyLangError (''Unexpected character: '' @ c) (line lx) (column lx)
                     ''SyntaxError''))"

subsection \<open>Progress of scanToken\<close>

text \<open>
  Every call of \<^verbatim>\<open>scanToken\<close> away from the end of input consumes a character, with one
  exception: a carriage return first on its line is examined twice (the first time
  \<^verbatim>\<open>handleIndentation\<close> steps back over it and the column stays at 2).  The measure
  below decreases in both cases, so the loop of \<^verbatim>\<open>tokenize\<close> terminates.
\<close>

definition lex_measure :: "Lexer \<Rightarrow> nat" where
  "lex_measure lx = 2 * (length (source lx) - current lx) + (if column lx = 1 then 1 else 0)"

lemma indent_loop_facts:
  "indent_loop i lx = (j, lx') \<Longrightarrow>
     source lx' = source lx \<and> current lx \<le> current lx' \<and> column lx \<le> column lx'"
proof (induction i lx arbitrary: j lx' rule: indent_loop.induct)
  case (1 indent lx)
  show ?case
  proof (cases "\<not> isAtEnd lx \<and> (peek lx = '' '' \<or> peek lx = TAB)")
    case True
    then have "indent_loop (if peek lx = '' '' then indent + 1 else indent + 4) (advance lx) = (j, lx')"
      using "1.prems" by (subst (asm) indent_loop.simps) simp
    from "1.IH"[OF True this] show ?thesis by (simp add: advance_def)
  next
    case False
    then show ?thesis using "1.prems" by (subst (asm) indent_loop.simps) auto
  qed
qed

lemma indent_loop_step:
  assumes "\<not> isAtEnd lx" "peek lx = '' '' \<or> peek lx = TAB" "indent_loop i lx = (j, lx')"
  shows "current lx < current lx'"
proof -
  have "indent_loop (if peek lx = '' '' then i + 1 else i + 4) (advance lx) = (j, lx')"
    using assms by (subst (asm) indent_loop.simps) simp
  from indent_loop_facts[OF this] show ?thesis by (simp add: advance_def)
qed

lemma dedent_loop_facts:
  "source (dedent_loop i lx) = source lx \<and> current (dedent_loop i lx) = current lx
   \<and> column (dedent_loop i lx) = column lx"
proof (induction i lx rule: dedent_loop.induct)
  case (1 indent lx)
  show ?case
    by (subst (1 2 3) dedent_loop.simps) (use 1 in \<open>auto simp: addToken_def\<close>)
qed

lemma string_loop_facts:
  "source (string_loop lx) = source lx \<and> current lx \<le> current (string_loop lx)"
proof (induction lx rule: string_loop.induct)
  case (1 lx)
  show ?case
    by (subst (1 2) string_loop.simps) (use 1 in \<open>auto simp: advance_def\<close>)
qed

lemma digits_loop_facts:
  "source (digits_loop lx) = source lx \<and> current lx \<le> current (digits_loop lx)"
proof (induction lx rule: digits_loop.induct)
  case (1 lx)
  show ?case
    by (subst (1 2) digits_loop.simps) (use 1 in \<open>auto simp: advance_def\<close>)
qed

lemma alnum_loop_facts:
  "source (alnum_loop lx) = source lx \<and> current lx \<le> current (alnum_loop lx)"
proof (induction lx rule: alnum_loop.induct)
  case (1 lx)
  show ?case
    by (subst (1 2) alnum_loop.simps) (use 1 in \<open>auto simp: advance_def\<close>)
qed

lemma comment_loop_facts:
  "source (comment_loop lx) = source lx \<and> current lx \<le> current (comment_loop lx)"
proof (induction lx rule: comment_loop.induct)
  case (1 lx)
  show ?case
    by (subst (1 2) comment_loop.simps) (use 1 in \<open>auto simp: advance_def\<close>)
qed

definition consumed :: "Lexer \<Rightarrow> Lexer \<Rightarrow> bool" where
  "consumed lx0 lx' = (source lx' = source lx0 \<and> current lx0 < current lx')"

lemma consumed_measure:
  "consumed lx0 lx' \<Longrightarrow> \<not> isAtEnd lx0 \<Longrightarrow> lex_measure lx' < lex_measure lx0"
  by (auto simp: consumed_def lex_measure_def isAtEnd_def)

lemma consumed_addToken [simp]: "consumed lx0 (addToken ty v lx) = consumed lx0 lx"
  by (simp add: consumed_def addToken_def)

lemma consumed_upd [simp]:
  "consumed lx0 (lx\<lparr>line := l, column := c\<rparr>) = consumed lx0 lx"
  by (simp add: consumed_def)

lemma consumed_advance [simp]: "consumed lx0 (advance lx0)"
  by (simp add: consumed_def advance_def)

lemma consumed_matched [simp]: "consumed lx0 (matched (advance lx0))"
  by (simp add: consumed_def advance_def matched_def)

lemma string_lit_consumed: "string_lit (advance lx0) = Inr lx' \<Longrightarrow> consumed lx0 lx'"
  using string_loop_facts[of "advance lx0"]
  by (auto simp: string_lit_def Let_def consumed_def advance_def addToken_def split: if_splits)

lemma number_lit_consumed: "consumed lx0 (number_lit (advance lx0))"
  using digits_loop_facts[of "advance lx0"]
        digits_loop_facts[of "advance (digits_loop (advance lx0))"]
  by (auto simp: number_lit_def Let_def consumed_def advance_def addToken_def)

lemma compound_consumed:
  "consumed lx0 lx \<Longrightarrow> compound t s ty w lx = r \<Longrightarrow>
     (case r of Inl a \<Rightarrow> consumed lx0 a | Inr b \<Rightarrow> consumed lx0 b)"
  by (auto simp: compound_def Let_def consumed_def advance_def addToken_def split: if_splits)

lemma compound_Inl: "consumed lx0 lx \<Longrightarrow> compound t s ty w lx = Inl a \<Longrightarrow> consumed lx0 a"
  using compound_consumed[of lx0 lx t s ty w "Inl a"] by simp

lemma compound_Inr: "consumed lx0 lx \<Longrightarrow> compound t s ty w lx = Inr a \<Longrightarrow> consumed lx0 a"
  using compound_consumed[of lx0 lx t s ty w "Inr a"] by simp

lemma identifier_lit_consumed: "consumed lx0 (identifier_lit (advance lx0))"
proof -
  define lx1 where "lx1 = alnum_loop (advance lx0)"
  define word where "word = substring (source lx1) (current (advance lx0) - 1) (current lx1)"
  define r1 where "r1 = (if word = ''jab'' \<and> peek lx1 = '' ''
               then compound word ''tak'' JAB_TAK ''jab tak'' lx1 else Inr lx1)"
  define r2 where "r2 = (\<lambda>lx2. if word = ''ka'' \<and> peek lx2 = '' ''
                   then compound word ''system'' KA_SYSTEM ''ka system'' lx2 else Inr lx2)"
  have a: "consumed lx0 lx1"
    using alnum_loop_facts[of "advance lx0"] by (auto simp: consumed_def advance_def lx1_def)
  have r1: "case r1 of Inl x \<Rightarrow> consumed lx0 x | Inr y \<Rightarrow> consumed lx0 y"
    using a compound_consumed[OF a refl] by (simp add: r1_def)
  have r2: "consumed lx0 l \<Longrightarrow> (case r2 l of Inl x \<Rightarrow> consumed lx0 x | Inr y \<Rightarrow> consumed lx0 y)" for l
    using compound_consumed[of lx0 l, OF _ refl] by (simp add: r2_def)
  have eq: "identifier_lit (advance lx0) =
     (case r1 of Inl done \<Rightarrow> done
      | Inr lx2 \<Rightarrow>
            (case r2 lx2 of
               Inl done \<Rightarrow> done
             | Inr lx3 \<Rightarrow>
                 addToken (case keywords_table word of Some ty \<Rightarrow> ty | None \<Rightarrow> IDENTIFIER) word lx3))"
    unfolding identifier_lit_def Let_def r1_def r2_def word_def lx1_def ..
  show ?thesis
  proof (cases r1)
    case (Inl x)
    then show ?thesis using r1 eq by simp
  next
    case (Inr lx2)
    then have c2: "consumed lx0 lx2" using r1 by simp
    show ?thesis
    proof (cases "r2 lx2")
      case (Inl x)
      then show ?thesis using r2[OF c2] eq Inr by simp
    next
      case inr: (Inr y)
      then show ?thesis using r2[OF c2] eq Inr by simp
    qed
  qed
qed

definition okc :: "Lexer \<Rightarrow> EasyLangError + Lexer \<Rightarrow> bool" where
  "okc lx0 r = (case r of Inl e \<Rightarrow> True | Inr lx' \<Rightarrow> consumed lx0 lx')"

lemma okc_simps [simp]: "okc lx0 (Inl e)" "okc lx0 (Inr lx') = consumed lx0 lx'"
  by (simp_all add: okc_def)

lemma okc_string_lit [simp]: "okc lx0 (string_lit (advance lx0))"
  using string_lit_consumed[of lx0] by (cases "string_lit (advance lx0)") auto

lemma consumed_comment [simp]: "consumed lx0 (comment_loop (advance lx0))"
  using comment_loop_facts[of "advance lx0"] by (auto simp: consumed_def advance_def)

lemma scanToken_other:
  assumes "\<not> (advanced_char lx0 = '' '' \<or> advanced_char lx0 = CR \<or> advanced_char lx0 = TAB)"
  shows "okc lx0 (scanToken lx0)"
  using assms unfolding scanToken_def Let_def
  by (simp add: number_lit_consumed identifier_lit_consumed LF_def DQUOTE_def)


lemma handleIndentation_measure:
  assumes "\<not> isAtEnd lx0" "column lx0 = 1"
    and c: "advanced_char lx0 = '' '' \<or> advanced_char lx0 = CR \<or> advanced_char lx0 = TAB"
    and h: "handleIndentation (advance lx0) = Inr lx'"
  shows "lex_measure lx' < lex_measure lx0"
proof -
  define lx1 where "lx1 = (advance lx0)\<lparr>current := current (advance lx0) - 1\<rparr>"
  obtain indent lx2 where il: "indent_loop 0 lx1 = (indent, lx2)" by (cases "indent_loop 0 lx1")
  have lx1: "source lx1 = source lx0" "current lx1 = current lx0" "column lx1 = 2"
    using assms(2) by (simp_all add: lx1_def advance_def)
  from indent_loop_facts[OF il] lx1
  have f2: "source lx2 = source lx0" "current lx0 \<le> current lx2" "2 \<le> column lx2" by simp_all
  define P where "P = (\<lambda>l::Lexer. source l = source lx0 \<and> current l = current lx2 \<and> column l = column lx2)"
  have P2: "P lx2" using f2 by (simp add: P_def)
  have P3: "P (dedent_loop indent lx2)" using dedent_loop_facts[of indent lx2] f2 by (simp add: P_def)
  have P4: "P (addToken INDENT (replicate indent CHR '' '') (lx2\<lparr>indentStack := indentStack lx2 @ [indent]\<rparr>))"
    using f2 by (simp add: P_def addToken_def)
  have "case handleIndentation (advance lx0) of Inl e \<Rightarrow> True | Inr l \<Rightarrow> P l"
    unfolding handleIndentation_def Let_def lx1_def[symmetric] il
    using P2 P3 P4 by (simp split: option.split)
  then have shape: "P lx'" using h by simp
  show ?thesis
  proof (cases "advanced_char lx0 = CR")
    case True
    then show ?thesis using shape f2 assms(2) by (auto simp: lex_measure_def P_def)
  next
    case False
    then have "peek lx1 = '' '' \<or> peek lx1 = TAB"
      using c assms(1) lx1 by (auto simp: peek_def advanced_char_def isAtEnd_def)
    moreover have "\<not> isAtEnd lx1" using assms(1) lx1 by (simp add: isAtEnd_def)
    ultimately have "current lx1 < current lx2" using indent_loop_step il by blast
    then show ?thesis using shape f2 lx1 assms(1) by (auto simp: lex_measure_def isAtEnd_def P_def)
  qed
qed

lemma scanToken_measure:
  assumes ne: "\<not> isAtEnd lx0" and s: "scanToken lx0 = Inr lx'"
  shows "lex_measure lx' < lex_measure lx0"
proof (cases "advanced_char lx0 = '' '' \<or> advanced_char lx0 = CR \<or> advanced_char lx0 = TAB")
  case True
  show ?thesis
  proof (cases "column (advance lx0) = 2")
    case c2: True
    then have "column lx0 = 1" by (simp add: advance_def)
    moreover have "handleIndentation (advance lx0) = Inr lx'"
      using s True c2 by (simp add: scanToken_def Let_def)
    ultimately show ?thesis
      using handleIndentation_measure ne True by blast
  next
    case False
    then have "lx' = advance lx0"
      using s True by (simp add: scanToken_def Let_def)
    then show ?thesis using consumed_measure[OF _ ne] by simp
  qed
next
  case False
  from scanToken_other[OF False] s have "consumed lx0 lx'" by simp
  then show ?thesis using consumed_measure ne by blast
qed

text \<open>\<^verbatim>\<open>while (!this.isAtEnd()) this.scanToken()\<close>; an error thrown by a call ends the loop.\<close>

function scan_loop :: "Lexer \<Rightarrow> EasyLangError + Lexer" where
  "scan_loop lx =
     (if isAtEnd lx then Inr lx
      else case scanToken lx of Inl e \<Rightarrow> Inl e | Inr lx' \<Rightarrow> scan_loop lx')"
  by pat_completeness auto
termination
  by (relation "measure lex_measure") (auto simp: scanToken_measure)

declare scan_loop.simps [simp del]

text \<open>The final dedents: one \<^verbatim>\<open>DEDENT\<close> for every level still open.\<close>

function final_dedents :: "Lexer \<Rightarrow> Lexer" where
  "final_dedents lx =
     (if length (indentStack lx) > 1
      then final_dedents (addToken DEDENT [] (lx\<lparr>indentStack := butlast (indentStack lx)\<rparr>))
      else lx)"
  by pat_completeness auto
termination
  by (relation "measure (\<lambda>lx. length (indentStack lx))") (auto simp: addToken_def)

declare final_dedents.simps [simp del]

definition Lexer_tokenize :: "Lexer \<Rightarrow> EasyLangError + Token list" where
  "Lexer_tokenize lx0 =
     (case scan_loop lx0 of
        Inl e \<Rightarrow> Inl e
      | Inr lx1 \<Rightarrow> Inr (tokens (addToken EOF [] (final_dedents lx1))))"

text \<open>\<^verbatim>\<open>new Lexer(source).tokenize()\<close>.\<close>

definition tokenize :: "string \<Rightarrow> EasyLangError + Token list" where
  "tokenize src = Lexer_tokenize (new_Lexer src)"

section \<open>Host numbers\<close>

text \<open>
  A JavaScript number is an IEEE-754 double.  The model keeps the special values and
  takes a finite value as an exact real: rounding, underflow and the sign of zero are not
  modelled, overflow only where a literal is read (\<open>parseFloat\<close>).  On integers below
  \<open>2^53\<close> in magnitude, the values every worked example of the language reference uses, the
  two agree.
\<close>

datatype number = Num real | NaN | PosInfinity | NegInfinity

definition isNaN :: "number \<Rightarrow> bool" where
  "isNaN x = (x = NaN)"

definition isFinite :: "number \<Rightarrow> bool" where
  "isFinite x = (case x of Num r \<Rightarrow> True | _ \<Rightarrow> False)"

definition num_neg :: "number \<Rightarrow> number" where
  "num_neg x = (case x of Num r \<Rightarrow> Num (- r) | NaN \<Rightarrow> NaN
                | PosInfinity \<Rightarrow> NegInfinity | NegInfinity \<Rightarrow> PosInfinity)"

definition num_add :: "number \<Rightarrow> number \<Rightarrow> number" where
  "num_add x y =
     (case (x, y) of
        (NaN, _) \<Rightarrow> NaN | (_, NaN) \<Rightarrow> NaN
      | (Num a, Num b) \<Rightarrow> Num (a + b)
      | (PosInfinity, NegInfinity) \<Rightarrow> NaN | (NegInfinity, PosInfinity) \<Rightarrow> NaN
      | (PosInfinity, _) \<Rightarrow> PosInfinity | (_, PosInfinity) \<Rightarrow> PosInfinity
      | (NegInfinity, _) \<Rightarrow> NegInfinity | (_, NegInfinity) \<Rightarrow> NegInfinity)"

definition num_sub :: "number \<Rightarrow> number \<Rightarrow> number" where
  "num_sub x y = num_add x (num_neg y)"

text \<open>The sign of a number that is not NaN: \<open>-1\<close>, \<open>0\<close> or \<open>1\<close>.\<close>

definition num_sgn :: "number \<Rightarrow> int" where
  "num_sgn x = (case x of Num r \<Rightarrow> (if r < 0 then - 1 else if r = 0 then 0 else 1)
                | PosInfinity \<Rightarrow> 1 | NegInfinity \<Rightarrow> - 1 | NaN \<Rightarrow> 0)"

definition signed_infinity :: "int \<Rightarrow> number" where
  "signed_infinity s = (if s < 0 then NegInfinity else PosInfinity)"

definition num_mul :: "number \<Rightarrow> number \<Rightarrow> number" where
  "num_mul x y =
     (case (x, y) of
        (NaN, _) \<Rightarrow> NaN | (_, NaN) \<Rightarrow> NaN
      | (Num a, Num b) \<Rightarrow> Num (a * b)
      | _ \<Rightarrow> (if num_sgn x * num_sgn y = 0 then NaN
               else signed_infinity (num_sgn x * num_sgn y)))"

definition num_div :: "number \<Rightarrow> number \<Rightarrow> number" where
  "num_div x y =
     (case (x, y) of
        (NaN, _) \<Rightarrow> NaN | (_, NaN) \<Rightarrow> NaN
      | (Num a, Num b) \<Rightarrow>
          (if b \<noteq> 0 then Num (a / b)
           else if a = 0 then NaN else signed_infinity (num_sgn x))
      | (Num a, _) \<Rightarrow> Num 0
      | (_, Num b) \<Rightarrow> signed_infinity (num_sgn x * (if b < 0 then - 1 else 1))
      | _ \<Rightarrow> NaN)"

text \<open>The remainder \<^verbatim>\<open>%\<close> truncates the quotient towards zero.\<close>

definition trunc :: "real \<Rightarrow> int" where
  "trunc r = (if r < 0 then \<lceil>r\<rceil> else \<lfloor>r\<rfloor>)"

definition num_rem :: "number \<Rightarrow> number \<Rightarrow> number" where
  "num_rem x y =
     (case (x, y) of
        (Num a, Num b) \<Rightarrow> (if b = 0 then NaN else Num (a - b * of_int (trunc (a / b))))
      | (Num a, PosInfinity) \<Rightarrow> Num a
      | (Num a, NegInfinity) \<Rightarrow> Num a
      | _ \<Rightarrow> NaN)"

definition is_integer :: "real \<Rightarrow> bool" where
  "is_integer r = (r = of_int \<lfloor>r\<rfloor>)"

text \<open>
  \<^verbatim>\<open>Math.pow\<close>.  An integer exponent is repeated multiplication, any other exponent
  of a positive base the real power; the remaining cases are the standard's table.
\<close>

definition real_pow :: "real \<Rightarrow> real \<Rightarrow> number" where
  "real_pow a b =
     (if b = 0 then Num 1
      else if is_integer b
      then (if b > 0 then Num (a ^ nat \<lfloor>b\<rfloor>)
            else if a = 0 then PosInfinity
            else Num (1 / a ^ nat (- \<lfloor>b\<rfloor>)))
      else if a < 0 then NaN
      else if a = 0 then (if b > 0 then Num 0 else PosInfinity)
      else Num (a powr b))"

definition num_pow :: "number \<Rightarrow> number \<Rightarrow> number" where
  "num_pow x y =
     (case y of
        NaN \<Rightarrow> NaN
      | Num b \<Rightarrow>
          (if b = 0 then Num 1
           else case x of
                  NaN \<Rightarrow> NaN
                | Num a \<Rightarrow> real_pow a b
                | PosInfinity \<Rightarrow> (if b > 0 then PosInfinity else Num 0)
                | NegInfinity \<Rightarrow>
                    (if b < 0 then Num 0
                     else if is_integer b \<and> odd \<lfloor>b\<rfloor> then NegInfinity else PosInfinity))
      | PosInfinity \<Rightarrow>
          (case x of
             NaN \<Rightarrow> NaN
           | Num a \<Rightarrow> (if \<bar>a\<bar> > 1 then PosInfinity else if \<bar>a\<bar> = 1 then NaN else Num 0)
           | _ \<Rightarrow> PosInfinity)
      | NegInfinity \<Rightarrow>
          (case x of
             NaN \<Rightarrow> NaN
           | Num a \<Rightarrow> (if \<bar>a\<bar> > 1 then Num 0 else if \<bar>a\<bar> = 1 then NaN else PosInfinity)
           | _ \<Rightarrow> Num 0))"

definition num_less :: "number \<Rightarrow> number \<Rightarrow> bool" where
  "num_less x y =
     (case (x, y) of
        (NaN, _) \<Rightarrow> False | (_, NaN) \<Rightarrow> False
      | (Num a, Num b) \<Rightarrow> a < b
      | (NegInfinity, NegInfinity) \<Rightarrow> False
      | (NegInfinity, _) \<Rightarrow> True
      | (_, PosInfinity) \<Rightarrow> x \<noteq> PosInfinity
      | _ \<Rightarrow> False)"

text \<open>\<^verbatim>\<open>===\<close> on numbers: NaN equals nothing, itself included.\<close>

definition num_eq :: "number \<Rightarrow> number \<Rightarrow> bool" where
  "num_eq x y = (x \<noteq> NaN \<and> x = y)"

definition num_le :: "number \<Rightarrow> number \<Rightarrow> bool" where
  "num_le x y = (num_less x y \<or> num_eq x y)"

definition Math_floor :: "number \<Rightarrow> number" where
  "Math_floor x = (case x of Num r \<Rightarrow> Num (of_int \<lfloor>r\<rfloor>) | _ \<Rightarrow> x)"

subsection \<open>Number to text\<close>

definition digit_char :: "nat \<Rightarrow> char" where
  "digit_char d =
     (if d = 0 then CHR ''0'' else if d = 1 then CHR ''1'' else if d = 2 then CHR ''2''
      else if d = 3 then CHR ''3'' else if d = 4 then CHR ''4'' else if d = 5 then CHR ''5''
      else if d = 6 then CHR ''6'' else if d = 7 then CHR ''7'' else if d = 8 then CHR ''8''
      else CHR ''9'')"

function digits_of :: "nat \<Rightarrow> string" where
  "digits_of n =
     (if n < 10 then [digit_char n] else digits_of (n div 10) @ [digit_char (n mod 10)])"
  by pat_completeness auto
termination
  by (relation "measure id") auto

declare digits_of.simps [simp del]

text \<open>
  \<^verbatim>\<open>Number.prototype.toString\<close>.  An integer of magnitude at most \<open>2^53\<close> is a double
  and prints as its decimal digits.  What the host prints for any other finite value
  depends on the double that stands for it, so it is a parameter, \<open>host_text\<close>.
\<close>

definition Number_toString :: "(real \<Rightarrow> string) \<Rightarrow> number \<Rightarrow> string" where
  "Number_toString host_text x =
     (case x of
        NaN \<Rightarrow> ''NaN''
      | PosInfinity \<Rightarrow> ''Infinity''
      | NegInfinity \<Rightarrow> ''-Infinity''
      | Num r \<Rightarrow>
          (if is_integer r \<and> \<bar>r\<bar> \<le> 2 ^ 53
           then (if r < 0 then ''-'' @ digits_of (nat (- \<lfloor>r\<rfloor>)) else digits_of (nat \<lfloor>r\<rfloor>))
           else host_text r))"

subsection \<open>parseFloat\<close>

text \<open>
  Modelled from the ECMAScript definition of \<^verbatim>\<open>parseFloat\<close> (a function of the host, not
  of the repository): skip leading white space, read the longest prefix that is a decimal
  literal (an optional sign, then \<^verbatim>\<open>Infinity\<close>, or digits with an optional fraction and an
  optional exponent), ignore whatever follows; with no such prefix the result is NaN.  A
  value too large for a double is an infinity.  A character of a string is a code unit
  below 256, so the white space is the ASCII white space and the no-break space; the finite
  value is the real number the literal denotes, the rounding to a double is not modelled.
\<close>

definition is_white :: "char \<Rightarrow> bool" where
  "is_white c = ((of_char c :: nat) \<in> {0x09, 0x0A, 0x0B, 0x0C, 0x0D, 0x20, 0xA0})"

definition is_digit_char :: "char \<Rightarrow> bool" where
  "is_digit_char c = ((48::nat) \<le> of_char c \<and> (of_char c :: nat) \<le> 57)"

definition digits_value :: "string \<Rightarrow> nat" where
  "digits_value ds = foldl (\<lambda>acc c. 10 * acc + (of_char c - 48)) 0 ds"

text \<open>
  The exponent part at the head of \<open>s\<close>, when there is one (\<^verbatim>\<open>e\<close> or \<^verbatim>\<open>E\<close>, an optional
  sign, at least one digit): its value and what follows it.  Without one the exponent is
  zero and nothing is consumed.
\<close>

definition exponent_part :: "string \<Rightarrow> int \<times> string" where
  "exponent_part s =
     (case s of
        c # r \<Rightarrow>
          (if c = CHR ''e'' \<or> c = CHR ''E''
           then (let signed = (case r of d # r' \<Rightarrow> d = CHR ''+'' \<or> d = CHR ''-'' | [] \<Rightarrow> False);
                     negative = (case r of d # r' \<Rightarrow> d = CHR ''-'' | [] \<Rightarrow> False);
                     body = (if signed then tl r else r);
                     ds = takeWhile is_digit_char body
                 in if ds = [] then (0, s)
                    else ((if negative then - int (digits_value ds) else int (digits_value ds)),
                          drop (length ds) body))
           else (0, s))
      | [] \<Rightarrow> (0, s))"

definition scale10 :: "real \<Rightarrow> int \<Rightarrow> real" where
  "scale10 m e = (if e \<ge> 0 then m * 10 ^ nat e else m / 10 ^ nat (- e))"

text \<open>The largest magnitude that still rounds to a finite double.\<close>

definition double_limit :: real where
  "double_limit = 2 ^ 1024 - 2 ^ 970"

definition to_double :: "real \<Rightarrow> number" where
  "to_double r = (if \<bar>r\<bar> < double_limit then Num r
                  else if r < 0 then NegInfinity else PosInfinity)"

text \<open>
  The longest unsigned decimal literal at the head of \<open>u\<close>: its value and the rest of
  \<open>u\<close>; \<open>None\<close> when \<open>u\<close> does not start with one.
\<close>

definition unsigned_literal :: "string \<Rightarrow> (number \<times> string) option" where
  "unsigned_literal u =
     (if take 8 u = ''Infinity'' then Some (PosInfinity, drop 8 u)
      else
        (let ip = takeWhile is_digit_char u;
             r1 = drop (length ip) u;
             fp = (case r1 of c # r \<Rightarrow> if c = CHR ''.'' then takeWhile is_digit_char r else []
                   | [] \<Rightarrow> []);
             r2 = (case r1 of c # r \<Rightarrow> if c = CHR ''.'' \<and> (ip \<noteq> [] \<or> fp \<noteq> [])
                                       then drop (length fp) r else r1
                   | [] \<Rightarrow> [])
         in if ip = [] \<and> fp = [] then None
            else (case exponent_part r2 of
                    (e, r3) \<Rightarrow>
                      Some (to_double
                              (scale10 (real (digits_value ip)
                                        + real (digits_value fp) / 10 ^ length fp) e),
                            r3))))"

definition signed_literal :: "string \<Rightarrow> (number \<times> string) option" where
  "signed_literal t =
     (case t of
        [] \<Rightarrow> None
      | c # r \<Rightarrow>
          (if c = CHR ''+'' then unsigned_literal r
           else if c = CHR ''-''
           then (case unsigned_literal r of
                   None \<Rightarrow> None
                 | Some (v, rest) \<Rightarrow> Some (num_neg v, rest))
           else unsigned_literal (c # r)))"

definition parseFloat :: "string \<Rightarrow> number" where
  "parseFloat s =
     (case signed_literal (dropWhile is_white s) of
        None \<Rightarrow> NaN
      | Some (v, rest) \<Rightarrow> v)"

section \<open>The syntax tree (types/ast.ts)\<close>

text \<open>
  Every node of the source carries a \<^verbatim>\<open>position\<close>; the evaluator never reads it, and the
  model leaves it out.  A literal's \<^verbatim>\<open>value\<close> and \<^verbatim>\<open>dataType\<close> are one tagged value.  The
  callee of a call is \<^verbatim>\<open>(callee as Identifier).name\<close>, which is \<^verbatim>\<open>undefined\<close> (\<open>None\<close>) when
  the called expression is not an identifier.  An expression used as a statement is
  wrapped in \<open>ExpressionStatement\<close>.
\<close>

datatype LiteralValue = LNumber number | LString string | LBoolean bool

datatype Expression =
    BinaryExpression Expression string Expression
  | UnaryExpression string Expression
  | CallExpression "string option" "Expression list"
  | Identifier string
  | Literal LiteralValue
  | InputStatement string

datatype FunctionStyle = SystemStyle | ArrowStyle

datatype Statement =
    VariableDeclaration string Expression bool
  | Assignment string Expression
  | IfStatement Expression "Statement list" "Statement list option"
  | WhileLoop Expression "Statement list"
  | ForLoop string Expression "Statement list"
  | FunctionDeclaration string "string list" "Statement list" FunctionStyle
  | ReturnStatement "Expression option"
  | PrintStatement Expression
  | ExpressionStatement Expression

datatype Program = Program "Statement list"

section \<open>Results of fallible, stateful code\<close>

text \<open>
  A call either completes with a value or throws; both leave a state behind.  A call that
  does not return (its fuel ran out) is \<open>None\<close>.  \<open>andThen r k\<close> continues with \<open>k\<close>
  after a normal completion and passes a throw or a non-return on.
\<close>

datatype ('e, 'a) Completion = Normal 'a | Throw 'e

definition andThen ::
  "(('e, 'a) Completion \<times> 's) option \<Rightarrow> ('a \<Rightarrow> 's \<Rightarrow> (('e, 'b) Completion \<times> 's) option)
     \<Rightarrow> (('e, 'b) Completion \<times> 's) option" where
  "andThen r k =
     (case r of
        None \<Rightarrow> None
      | Some (Throw e, s) \<Rightarrow> Some (Throw e, s)
      | Some (Normal x, s) \<Rightarrow> k x s)"

lemma andThen_simps [simp]:
  "andThen None k = None"
  "andThen (Some (Throw e, s)) k = Some (Throw e, s)"
  "andThen (Some (Normal x, s)) k = k x s"
  by (simp_all add: andThen_def)

lemma andThen_weak_cong [cong]: "r = r' \<Longrightarrow> andThen r k = andThen r' k"
  by simp

section \<open>The parser (interpreter/parser.ts)\<close>

text \<open>
  The parser's state is the cursor \<^verbatim>\<open>current\<close> into the token array.  Reading
  \<^verbatim>\<open>tokens[current]\<close> past the end gives \<^verbatim>\<open>undefined\<close>, and reading a field of it is the
  host's TypeError.
\<close>

datatype ParserThrown = SyntaxThrown EasyLangError | HostTypeError

type_synonym 'a presult = "((ParserThrown, 'a) Completion \<times> nat) option"

definition p_peek :: "Token list \<Rightarrow> nat \<Rightarrow> Token option" where
  "p_peek ts c = (if c < length ts then Some (ts ! c) else None)"

definition p_previous :: "Token list \<Rightarrow> nat \<Rightarrow> Token option" where
  "p_previous ts c = (if 0 < c \<and> c - 1 < length ts then Some (ts ! (c - 1)) else None)"

definition p_isAtEnd :: "Token list \<Rightarrow> nat \<Rightarrow> bool presult" where
  "p_isAtEnd ts c =
     (case p_peek ts c of
        None \<Rightarrow> Some (Throw HostTypeError, c)
      | Some t \<Rightarrow> Some (Normal (tok_type t = EOF), c))"

definition p_check :: "Token list \<Rightarrow> TokenType \<Rightarrow> nat \<Rightarrow> bool presult" where
  "p_check ts ty c =
     andThen (p_isAtEnd ts c) (\<lambda>atEnd c.
       if atEnd then Some (Normal False, c)
       else case p_peek ts c of
              None \<Rightarrow> Some (Throw HostTypeError, c)
            | Some t \<Rightarrow> Some (Normal (tok_type t = ty), c))"

definition p_advance :: "Token list \<Rightarrow> nat \<Rightarrow> unit presult" where
  "p_advance ts c =
     andThen (p_isAtEnd ts c) (\<lambda>atEnd c. Some (Normal (), if atEnd then c else c + 1))"

text \<open>\<^verbatim>\<open>this.previous().value\<close> and \<^verbatim>\<open>this.previous()\<close> where a field of it is read.\<close>

definition p_previous_token :: "Token list \<Rightarrow> nat \<Rightarrow> Token presult" where
  "p_previous_token ts c =
     (case p_previous ts c of
        None \<Rightarrow> Some (Throw HostTypeError, c)
      | Some t \<Rightarrow> Some (Normal t, c))"

definition p_previous_value :: "Token list \<Rightarrow> nat \<Rightarrow> string presult" where
  "p_previous_value ts c =
     andThen (p_previous_token ts c) (\<lambda>t c. Some (Normal (tok_value t), c))"

fun p_match :: "Token list \<Rightarrow> TokenType list \<Rightarrow> nat \<Rightarrow> bool presult" where
  "p_match ts [] c = Some (Normal False, c)"
| "p_match ts (ty # tys) c =
     andThen (p_check ts ty c) (\<lambda>hit c.
       if hit then andThen (p_advance ts c) (\<lambda>_ c. Some (Normal True, c))
       else p_match ts tys c)"

definition throw_at_peek :: "Token list \<Rightarrow> string \<Rightarrow> nat \<Rightarrow> 'a presult" where
  "throw_at_peek ts message c =
     (case p_peek ts c of
        None \<Rightarrow> Some (Throw HostTypeError, c)
      | Some t \<Rightarrow>
          Some (Throw (SyntaxThrown (EasyLangError message (tok_line t) (tok_column t)
                                       ''SyntaxError'')), c))"

definition p_consume :: "Token list \<Rightarrow> TokenType \<Rightarrow> string \<Rightarrow> nat \<Rightarrow> Token presult" where
  "p_consume ts ty message c =
     andThen (p_check ts ty c) (\<lambda>hit c.
       if hit then andThen (p_advance ts c) (\<lambda>_ c. p_previous_token ts c)
       else throw_at_peek ts message c)"

definition consumeNewlineAndIndent :: "Token list \<Rightarrow> nat \<Rightarrow> unit presult" where
  "consumeNewlineAndIndent ts c =
     andThen (p_consume ts NEWLINE ''Expected newline'' c) (\<lambda>_ c.
     andThen (p_match ts [INDENT] c) (\<lambda>hit c.
       if \<not> hit then throw_at_peek ts ''Expected indentation'' c
       else Some (Normal (), c)))"

text \<open>
  \<^verbatim>\<open>synchronize\<close>: skip to just after the next \<^verbatim>\<open>NEWLINE\<close> or to a token that starts a
  statement.
\<close>

definition starts_statement :: "TokenType \<Rightarrow> bool" where
  "starts_statement ty =
     (ty = BANAO \<or> ty = SADA \<or> ty = AGAR \<or> ty = DOHRANA \<or> ty = JAB_TAK \<or> ty = SYSTEM
      \<or> ty = RETURN \<or> ty = LIKHO)"

function synchronize_loop :: "Token list \<Rightarrow> nat \<Rightarrow> unit presult" where
  "synchronize_loop ts c =
     (case p_peek ts c of
        None \<Rightarrow> Some (Throw HostTypeError, c)
      | Some t \<Rightarrow>
          if tok_type t = EOF then Some (Normal (), c)
          else (case p_previous ts c of
                  None \<Rightarrow> Some (Throw HostTypeError, c)
                | Some p \<Rightarrow>
                    if tok_type p = NEWLINE then Some (Normal (), c)
                    else if starts_statement (tok_type t) then Some (Normal (), c)
                    else synchronize_loop ts (c + 1)))"
  by pat_completeness auto
termination
  by (relation "measure (\<lambda>(ts, c). length ts - c)") (auto simp: p_peek_def split: if_splits)

declare synchronize_loop.simps [simp del]

definition synchronize :: "Token list \<Rightarrow> nat \<Rightarrow> unit presult" where
  "synchronize ts c = andThen (p_advance ts c) (\<lambda>_ c. synchronize_loop ts c)"

text \<open>
  The loops of the expression grammar, each over the parser of its operand:
  \<^verbatim>\<open>while (this.match(...)) { operator; right operand; expr = binary }\<close>, and the two
  \<^verbatim>\<open>do { ... } while (this.match(COMMA))\<close> lists.
\<close>

fun binary_loop ::
  "nat \<Rightarrow> (nat \<Rightarrow> Expression presult) \<Rightarrow> Token list \<Rightarrow> TokenType list \<Rightarrow> Expression \<Rightarrow> nat
     \<Rightarrow> Expression presult" where
  "binary_loop 0 operand ts tys expr c = None"
| "binary_loop (Suc n) operand ts tys expr c =
     andThen (p_match ts tys c) (\<lambda>hit c.
       if hit
       then andThen (p_previous_value ts c) (\<lambda>operator c.
            andThen (operand c) (\<lambda>right c.
              binary_loop n operand ts tys (BinaryExpression expr operator right) c))
       else Some (Normal expr, c))"

fun arguments_loop ::
  "nat \<Rightarrow> (nat \<Rightarrow> Expression presult) \<Rightarrow> Token list \<Rightarrow> Expression list \<Rightarrow> nat
     \<Rightarrow> Expression list presult" where
  "arguments_loop 0 expression ts args c = None"
| "arguments_loop (Suc n) expression ts args c =
     andThen (expression c) (\<lambda>arg c.
     andThen (p_match ts [COMMA] c) (\<lambda>hit c.
       if hit then arguments_loop n expression ts (args @ [arg]) c
       else Some (Normal (args @ [arg]), c)))"

fun parameters_loop :: "nat \<Rightarrow> Token list \<Rightarrow> string list \<Rightarrow> nat \<Rightarrow> string list presult" where
  "parameters_loop 0 ts parameters c = None"
| "parameters_loop (Suc n) ts parameters c =
     andThen (p_consume ts IDENTIFIER ''Expected parameter name'' c) (\<lambda>t c.
     andThen (p_match ts [COMMA] c) (\<lambda>hit c.
       if hit then parameters_loop n ts (parameters @ [tok_value t]) c
       else Some (Normal (parameters @ [tok_value t]), c)))"

text \<open>
  The recursive-descent functions.  A function that calls back into the grammar takes the
  parsers it calls as arguments (\<open>this_expression\<close> for \<^verbatim>\<open>this.expression()\<close>, and so
  on); \<open>expression\<close>, \<open>statement\<close> and \<open>blockStatement\<close> below close the recursion.
  Their first argument bounds the depth of the calls still allowed and the number of
  iterations of each loop; at zero a function does not return.
\<close>

definition callee_name :: "Expression \<Rightarrow> string option" where
  "callee_name callee = (case callee of Identifier name \<Rightarrow> Some name | _ \<Rightarrow> None)"

definition primary :: "(nat \<Rightarrow> Expression presult) \<Rightarrow> Token list \<Rightarrow> nat \<Rightarrow> Expression presult" where
  "primary this_expression ts c =
     andThen (p_match ts [SACH] c) (\<lambda>hit c.
       if hit then Some (Normal (Literal (LBoolean True)), c) else
     andThen (p_match ts [JHOOTH] c) (\<lambda>hit c.
       if hit then Some (Normal (Literal (LBoolean False)), c) else
     andThen (p_match ts [NUMBER] c) (\<lambda>hit c.
       if hit
       then andThen (p_previous_value ts c) (\<lambda>text c.
              Some (Normal (Literal (LNumber (parseFloat text))), c)) else
     andThen (p_match ts [STRING] c) (\<lambda>hit c.
       if hit
       then andThen (p_previous_value ts c) (\<lambda>text c.
              Some (Normal (Literal (LString text)), c)) else
     andThen (p_match ts [PUCHHO] c) (\<lambda>hit c.
       if hit
       then andThen (p_consume ts STRING ''Expected string after puchho'' c) (\<lambda>prompt c.
              Some (Normal (InputStatement (tok_value prompt)), c)) else
     andThen (p_match ts [RANGE] c) (\<lambda>hit c.
       if hit
       then andThen (p_consume ts LEFT_PAREN ''Expected \"(\" after range'' c) (\<lambda>_ c.
            andThen (this_expression c) (\<lambda>arg c.
            andThen (p_consume ts RIGHT_PAREN ''Expected \")\" after range argument'' c)
              (\<lambda>_ c.
              Some (Normal (CallExpression (Some ''range'') [arg]), c)))) else
     andThen (p_match ts [IDENTIFIER] c) (\<lambda>hit c.
       if hit
       then andThen (p_previous_value ts c) (\<lambda>name c. Some (Normal (Identifier name), c))
       else
     andThen (p_match ts [LEFT_PAREN] c) (\<lambda>hit c.
       if hit
       then andThen (this_expression c) (\<lambda>expr c.
            andThen (p_consume ts RIGHT_PAREN ''Expected \")\" after expression'' c) (\<lambda>_ c.
              Some (Normal expr, c)))
       else throw_at_peek ts ''Expected expression'' c))))))))"

definition finishCall ::
  "nat \<Rightarrow> (nat \<Rightarrow> Expression presult) \<Rightarrow> Token list \<Rightarrow> Expression \<Rightarrow> nat \<Rightarrow> Expression presult"
  where
  "finishCall n this_expression ts callee c =
     andThen (p_check ts RIGHT_PAREN c) (\<lambda>closing c.
     andThen (if \<not> closing then arguments_loop n this_expression ts [] c
              else Some (Normal [], c)) (\<lambda>args c.
     andThen (p_consume ts RIGHT_PAREN ''Expected \")\" after arguments'' c) (\<lambda>_ c.
       Some (Normal (CallExpression (callee_name callee) args), c))))"

fun call_loop ::
  "nat \<Rightarrow> (Expression \<Rightarrow> nat \<Rightarrow> Expression presult) \<Rightarrow> Token list \<Rightarrow> Expression \<Rightarrow> nat
     \<Rightarrow> Expression presult" where
  "call_loop 0 this_finishCall ts expr c = None"
| "call_loop (Suc n) this_finishCall ts expr c =
     andThen (p_match ts [LEFT_PAREN] c) (\<lambda>hit c.
       if hit
       then andThen (this_finishCall expr c) (\<lambda>expr c. call_loop n this_finishCall ts expr c)
       else Some (Normal expr, c))"

definition call ::
  "nat \<Rightarrow> (nat \<Rightarrow> Expression presult) \<Rightarrow> Token list \<Rightarrow> nat \<Rightarrow> Expression presult" where
  "call n this_expression ts c =
     andThen (primary this_expression ts c) (\<lambda>expr c.
       call_loop n (finishCall n this_expression ts) ts expr c)"

fun unary ::
  "nat \<Rightarrow> (nat \<Rightarrow> Expression presult) \<Rightarrow> Token list \<Rightarrow> nat \<Rightarrow> Expression presult" where
  "unary 0 this_call ts c = None"
| "unary (Suc n) this_call ts c =
     andThen (p_match ts [NAHI, MINUS] c) (\<lambda>hit c.
       if hit
       then andThen (p_previous_value ts c) (\<lambda>operator c.
            andThen (unary n this_call ts c) (\<lambda>right c.
              Some (Normal (UnaryExpression operator right), c)))
       else this_call c)"

fun power_expr ::
  "nat \<Rightarrow> (nat \<Rightarrow> Expression presult) \<Rightarrow> Token list \<Rightarrow> nat \<Rightarrow> Expression presult" where
  "power_expr 0 this_unary ts c = None"
| "power_expr (Suc n) this_unary ts c =
     andThen (this_unary c) (\<lambda>expr c.
     andThen (p_match ts [POWER] c) (\<lambda>hit c.
       if hit
       then andThen (p_previous_value ts c) (\<lambda>operator c.
            andThen (power_expr n this_unary ts c) (\<lambda>right c.
              Some (Normal (BinaryExpression expr operator right), c)))
       else Some (Normal expr, c)))"

definition factor ::
  "nat \<Rightarrow> (nat \<Rightarrow> Expression presult) \<Rightarrow> Token list \<Rightarrow> nat \<Rightarrow> Expression presult" where
  "factor n this_power ts c =
     andThen (this_power c) (\<lambda>expr c.
       binary_loop n this_power ts [DIVIDE, MULTIPLY, MODULO] expr c)"

definition term_expr ::
  "nat \<Rightarrow> (nat \<Rightarrow> Expression presult) \<Rightarrow> Token list \<Rightarrow> nat \<Rightarrow> Expression presult" where
  "term_expr n this_factor ts c =
     andThen (this_factor c) (\<lambda>expr c. binary_loop n this_factor ts [MINUS, PLUS] expr c)"

definition comparison ::
  "nat \<Rightarrow> (nat \<Rightarrow> Expression presult) \<Rightarrow> Token list \<Rightarrow> nat \<Rightarrow> Expression presult" where
  "comparison n this_term ts c =
     andThen (this_term c) (\<lambda>expr c.
       binary_loop n this_term ts [GREATER_THAN, GREATER_EQUAL, LESS_THAN, LESS_EQUAL] expr c)"

definition equality ::
  "nat \<Rightarrow> (nat \<Rightarrow> Expression presult) \<Rightarrow> Token list \<Rightarrow> nat \<Rightarrow> Expression presult" where
  "equality n this_comparison ts c =
     andThen (this_comparison c) (\<lambda>expr c.
       binary_loop n this_comparison ts [EQUAL, NOT_EQUAL] expr c)"

definition logicalAnd ::
  "nat \<Rightarrow> (nat \<Rightarrow> Expression presult) \<Rightarrow> Token list \<Rightarrow> nat \<Rightarrow> Expression presult" where
  "logicalAnd n this_equality ts c =
     andThen (this_equality c) (\<lambda>expr c. binary_loop n this_equality ts [AUR] expr c)"

definition logicalOr ::
  "nat \<Rightarrow> (nat \<Rightarrow> Expression presult) \<Rightarrow> Token list \<Rightarrow> nat \<Rightarrow> Expression presult" where
  "logicalOr n this_logicalAnd ts c =
     andThen (this_logicalAnd c) (\<lambda>expr c. binary_loop n this_logicalAnd ts [YA] expr c)"

text \<open>
  \<^verbatim>\<open>expression\<close> is \<^verbatim>\<open>logicalOr\<close>, and each level parses its operands with the next one,
  down to \<^verbatim>\<open>primary\<close>, which calls \<^verbatim>\<open>expression\<close> again.
\<close>

fun expression :: "nat \<Rightarrow> Token list \<Rightarrow> nat \<Rightarrow> Expression presult" where
  "expression 0 ts c = None"
| "expression (Suc n) ts c =
     logicalOr n (logicalAnd n (equality n (comparison n (term_expr n (factor n
       (power_expr n (unary n (call n (expression n ts) ts) ts) ts) ts) ts) ts) ts) ts) ts c"

subsection \<open>Statements\<close>

definition variableDeclaration ::
  "(nat \<Rightarrow> Expression presult) \<Rightarrow> Token list \<Rightarrow> bool \<Rightarrow> nat \<Rightarrow> Statement presult" where
  "variableDeclaration this_expression ts isConstant c =
     andThen (p_consume ts IDENTIFIER
                (''Expected variable name after '' @ (if isConstant then ''sada'' else ''banao''))
                c) (\<lambda>name c.
     andThen (p_consume ts ASSIGN ''Expected \"=\" after variable name'' c) (\<lambda>_ c.
     andThen (this_expression c) (\<lambda>val c.
       Some (Normal (VariableDeclaration (tok_value name) val isConstant), c))))"

definition ifStatement ::
  "(nat \<Rightarrow> Expression presult) \<Rightarrow> (bool \<Rightarrow> nat \<Rightarrow> Statement list presult) \<Rightarrow> Token list \<Rightarrow> nat
     \<Rightarrow> Statement presult" where
  "ifStatement this_expression this_blockStatement ts c =
     andThen (this_expression c) (\<lambda>condition c.
     andThen (p_consume ts COLON ''Expected \":\" after if condition'' c) (\<lambda>_ c.
     andThen (consumeNewlineAndIndent ts c) (\<lambda>_ c.
     andThen (this_blockStatement False c) (\<lambda>thenBranch c.
     andThen (p_match ts [WARNA] c) (\<lambda>hit c.
       if hit
       then andThen (p_consume ts COLON ''Expected \":\" after warna'' c) (\<lambda>_ c.
            andThen (consumeNewlineAndIndent ts c) (\<lambda>_ c.
            andThen (this_blockStatement False c) (\<lambda>elseBranch c.
              Some (Normal (IfStatement condition thenBranch (Some elseBranch)), c))))
       else Some (Normal (IfStatement condition thenBranch None), c))))))"

definition forLoop ::
  "(nat \<Rightarrow> Expression presult) \<Rightarrow> (bool \<Rightarrow> nat \<Rightarrow> Statement list presult) \<Rightarrow> Token list \<Rightarrow> nat
     \<Rightarrow> Statement presult" where
  "forLoop this_expression this_blockStatement ts c =
     andThen (p_consume ts IDENTIFIER ''Expected variable name in for loop'' c) (\<lambda>variable c.
     andThen (p_consume ts IN ''Expected \"in\" after for loop variable'' c) (\<lambda>_ c.
     andThen (this_expression c) (\<lambda>iterable c.
     andThen (p_consume ts COLON ''Expected \":\" after for loop expression'' c) (\<lambda>_ c.
     andThen (consumeNewlineAndIndent ts c) (\<lambda>_ c.
     andThen (this_blockStatement False c) (\<lambda>body c.
       Some (Normal (ForLoop (tok_value variable) iterable body), c)))))))"

definition whileLoop ::
  "(nat \<Rightarrow> Expression presult) \<Rightarrow> (bool \<Rightarrow> nat \<Rightarrow> Statement list presult) \<Rightarrow> Token list \<Rightarrow> nat
     \<Rightarrow> Statement presult" where
  "whileLoop this_expression this_blockStatement ts c =
     andThen (this_expression c) (\<lambda>condition c.
     andThen (p_consume ts COLON ''Expected \":\" after while condition'' c) (\<lambda>_ c.
     andThen (consumeNewlineAndIndent ts c) (\<lambda>_ c.
     andThen (this_blockStatement False c) (\<lambda>body c.
       Some (Normal (WhileLoop condition body), c)))))"

definition functionDeclaration ::
  "nat \<Rightarrow> (bool \<Rightarrow> nat \<Rightarrow> Statement list presult) \<Rightarrow> Token list \<Rightarrow> FunctionStyle
     \<Rightarrow> string option \<Rightarrow> nat \<Rightarrow> Statement presult" where
  "functionDeclaration n this_blockStatement ts style name c =
     andThen (if style = SystemStyle
              then andThen (p_consume ts IDENTIFIER ''Expected function name'' c)
                     (\<lambda>t c. Some (Normal (tok_value t), c))
              else (case name of
                      Some nm \<Rightarrow> Some (Normal nm, c)
                    | None \<Rightarrow> Some (Throw HostTypeError, c))) (\<lambda>functionName c.
     andThen (p_consume ts LEFT_PAREN ''Expected \"(\" after function name'' c) (\<lambda>_ c.
     andThen (p_check ts RIGHT_PAREN c) (\<lambda>closing c.
     andThen (if \<not> closing then parameters_loop n ts [] c else Some (Normal [], c))
       (\<lambda>parameters c.
     andThen (p_consume ts RIGHT_PAREN ''Expected \")\" after parameters'' c) (\<lambda>_ c.
     andThen (if style = SystemStyle
              then andThen (p_consume ts COLON ''Expected \":\" after function signature'' c)
                     (\<lambda>_ c. consumeNewlineAndIndent ts c)
              else andThen (p_consume ts LEFT_BRACE
                              ''Expected \"{\" after arrow function signature'' c)
                     (\<lambda>_ c. andThen (p_match ts [NEWLINE] c) (\<lambda>_ c. Some (Normal (), c))))
       (\<lambda>_ c.
     andThen (this_blockStatement (style = ArrowStyle) c) (\<lambda>body c.
     andThen (if style = ArrowStyle
              then andThen (p_consume ts RIGHT_BRACE
                              ''Expected \"}\" after arrow function body'' c)
                     (\<lambda>_ c. Some (Normal (), c))
              else Some (Normal (), c)) (\<lambda>_ c.
       Some (Normal (FunctionDeclaration functionName parameters body style), c)))))))))"

definition returnStatement ::
  "(nat \<Rightarrow> Expression presult) \<Rightarrow> Token list \<Rightarrow> nat \<Rightarrow> Statement presult" where
  "returnStatement this_expression ts c =
     andThen (p_check ts NEWLINE c) (\<lambda>newline c.
     andThen (if newline then Some (Normal True, c) else p_isAtEnd ts c) (\<lambda>stop c.
       if \<not> stop
       then andThen (this_expression c) (\<lambda>val c.
              Some (Normal (ReturnStatement (Some val)), c))
       else Some (Normal (ReturnStatement None), c)))"

definition printStatement ::
  "(nat \<Rightarrow> Expression presult) \<Rightarrow> Token list \<Rightarrow> nat \<Rightarrow> Statement presult" where
  "printStatement this_expression ts c =
     andThen (this_expression c) (\<lambda>val c. Some (Normal (PrintStatement val), c))"

definition assignmentOrExpression ::
  "(nat \<Rightarrow> Expression presult) \<Rightarrow> Token list \<Rightarrow> nat \<Rightarrow> Statement presult" where
  "assignmentOrExpression this_expression ts c =
     andThen (this_expression c) (\<lambda>expr c.
       case expr of
         Identifier name \<Rightarrow>
           andThen (p_match ts [ASSIGN] c) (\<lambda>hit c.
             if hit
             then andThen (this_expression c) (\<lambda>val c.
                    Some (Normal (Assignment name val), c))
             else Some (Normal (ExpressionStatement expr), c))
       | _ \<Rightarrow> Some (Normal (ExpressionStatement expr), c))"

text \<open>The body of the \<^verbatim>\<open>try\<close> in \<^verbatim>\<open>statement\<close>.\<close>

definition statement_try ::
  "nat \<Rightarrow> (nat \<Rightarrow> Expression presult) \<Rightarrow> (bool \<Rightarrow> nat \<Rightarrow> Statement list presult) \<Rightarrow> Token list
     \<Rightarrow> nat \<Rightarrow> Statement presult" where
  "statement_try n this_expression this_blockStatement ts c =
     andThen (p_match ts [BANAO] c) (\<lambda>hit c.
       if hit then variableDeclaration this_expression ts False c else
     andThen (p_match ts [SADA] c) (\<lambda>hit c.
       if hit then variableDeclaration this_expression ts True c else
     andThen (p_match ts [AGAR] c) (\<lambda>hit c.
       if hit then ifStatement this_expression this_blockStatement ts c else
     andThen (p_match ts [DOHRANA] c) (\<lambda>hit c.
       if hit then forLoop this_expression this_blockStatement ts c else
     andThen (p_match ts [JAB_TAK] c) (\<lambda>hit c.
       if hit then whileLoop this_expression this_blockStatement ts c else
     andThen (p_match ts [SYSTEM] c) (\<lambda>hit c.
       if hit then functionDeclaration n this_blockStatement ts SystemStyle None c else
     andThen (p_match ts [RETURN] c) (\<lambda>hit c.
       if hit then returnStatement this_expression ts c else
     andThen (p_match ts [LIKHO] c) (\<lambda>hit c.
       if hit then printStatement this_expression ts c else
     andThen (p_check ts IDENTIFIER c) (\<lambda>isIdent checkpoint.
       if isIdent
       then andThen (p_advance ts checkpoint) (\<lambda>_ c.
            andThen (p_previous_value ts c) (\<lambda>name c.
            andThen (p_match ts [KA_SYSTEM] c) (\<lambda>hit c.
              if hit then functionDeclaration n this_blockStatement ts ArrowStyle (Some name) c
              else assignmentOrExpression this_expression ts checkpoint)))
       else assignmentOrExpression this_expression ts checkpoint)))))))))"

text \<open>The \<^verbatim>\<open>catch\<close>: skip to the next statement, then throw the error again.\<close>

definition statement_catch :: "Token list \<Rightarrow> Statement presult \<Rightarrow> Statement presult" where
  "statement_catch ts r =
     (case r of
        Some (Throw error, c) \<Rightarrow> andThen (synchronize ts c) (\<lambda>_ c. Some (Throw error, c))
      | _ \<Rightarrow> r)"

fun block_loop ::
  "nat \<Rightarrow> (nat \<Rightarrow> Statement presult) \<Rightarrow> Token list \<Rightarrow> bool \<Rightarrow> Statement list \<Rightarrow> nat
     \<Rightarrow> Statement list presult" where
  "block_loop 0 this_statement ts isArrowFunction statements c = None"
| "block_loop (Suc n) this_statement ts isArrowFunction statements c =
     andThen (p_check ts DEDENT c) (\<lambda>dedent c.
     andThen (if dedent then Some (Normal True, c) else p_check ts EOF c) (\<lambda>stop1 c.
     andThen (if stop1 then Some (Normal True, c)
              else if \<not> isArrowFunction then Some (Normal False, c)
              else p_check ts RIGHT_BRACE c) (\<lambda>stop c.
       if stop then Some (Normal statements, c)
       else andThen (p_match ts [NEWLINE] c) (\<lambda>hit c.
              if hit then block_loop n this_statement ts isArrowFunction statements c
              else andThen (this_statement c) (\<lambda>stmt c.
                     block_loop n this_statement ts isArrowFunction (statements @ [stmt]) c)))))"

fun statement :: "nat \<Rightarrow> Token list \<Rightarrow> nat \<Rightarrow> Statement presult"
and blockStatement :: "nat \<Rightarrow> Token list \<Rightarrow> bool \<Rightarrow> nat \<Rightarrow> Statement list presult"
where
  "statement 0 ts c = None"
| "statement (Suc n) ts c =
     statement_catch ts (statement_try n (expression n ts) (blockStatement n ts) ts c)"
| "blockStatement 0 ts isArrowFunction c = None"
| "blockStatement (Suc n) ts isArrowFunction c =
     andThen (block_loop n (statement n ts) ts isArrowFunction [] c) (\<lambda>statements c.
       if \<not> isArrowFunction
       then andThen (p_match ts [DEDENT] c) (\<lambda>_ c. Some (Normal statements, c))
       else Some (Normal statements, c))"

text \<open>\<^verbatim>\<open>parse\<close>: skip \<^verbatim>\<open>NEWLINE\<close> tokens and parse statements up to \<^verbatim>\<open>EOF\<close>.\<close>

fun parse_loop :: "nat \<Rightarrow> Token list \<Rightarrow> Statement list \<Rightarrow> nat \<Rightarrow> Statement list presult" where
  "parse_loop 0 ts statements c = None"
| "parse_loop (Suc n) ts statements c =
     andThen (p_isAtEnd ts c) (\<lambda>atEnd c.
       if atEnd then Some (Normal statements, c)
       else andThen (p_check ts NEWLINE c) (\<lambda>newline c.
              if newline
              then andThen (p_advance ts c) (\<lambda>_ c. parse_loop n ts statements c)
              else andThen (statement n ts c) (\<lambda>stmt c.
                     parse_loop n ts (statements @ [stmt]) c)))"

definition parse :: "nat \<Rightarrow> Token list \<Rightarrow> (ParserThrown + Program) option" where
  "parse n ts =
     (case parse_loop n ts [] 0 of
        None \<Rightarrow> None
      | Some (Throw e, c) \<Rightarrow> Some (Inl e)
      | Some (Normal statements, c) \<Rightarrow> Some (Inr (Program statements)))"

section \<open>The evaluator (interpreter/interpreter.ts)\<close>

subsection \<open>Runtime values and environments\<close>

text \<open>
  An \<^verbatim>\<open>Environment\<close> is an object with identity: closures and child environments
  hold references to it.  The model keeps all environments in a store, \<open>heap\<close>, indexed
  by address; \<^verbatim>\<open>new Environment(parent)\<close> takes the next free address.  A function value
  holds the address of its closure.
\<close>

record EasyLangFunction =
  fn_name :: string
  fn_parameters :: "string list"
  fn_body :: "Statement list"
  fn_closure :: nat

datatype RuntimeValue =
    NumberV number
  | StringV string
  | BooleanV bool
  | FunctionV EasyLangFunction
  | RangeV number

record Environment =
  env_values :: "string \<rightharpoonup> RuntimeValue"
  env_constants :: "string set"
  env_parent :: "nat option"

text \<open>
  What can be thrown while a program runs: a plain \<^verbatim>\<open>Error\<close> with its message, the
  \<^verbatim>\<open>ReturnException\<close> of a return statement, and (never raised by the evaluator itself,
  but told apart by \<^verbatim>\<open>interpret\<close>) an \<^verbatim>\<open>EasyLangError\<close>.
\<close>

datatype Thrown = Error string | ReturnException RuntimeValue | EasyLangThrown EasyLangError

text \<open>
  The interpreter object.  \<open>host_text\<close> is not a field of the class: it is the host's
  rendering of the numbers \<open>Number_toString\<close> leaves open.
\<close>

record Interpreter =
  heap :: "nat \<Rightarrow> Environment"
  allocated :: nat
  globals :: nat
  environment :: nat
  "output" :: "string list"
  inputCallback :: "(string \<Rightarrow> string) option"
  host_text :: "real \<Rightarrow> string"

type_synonym 'a result = "((Thrown, 'a) Completion \<times> Interpreter) option"

definition new_Environment :: "nat option \<Rightarrow> Interpreter \<Rightarrow> nat \<times> Interpreter" where
  "new_Environment parent s =
     (allocated s,
      s\<lparr>heap := (heap s)(allocated s :=
             \<lparr>env_values = Map.empty, env_constants = {}, env_parent = parent\<rparr>),
        allocated := allocated s + 1\<rparr>)"

definition Environment_define ::
  "nat \<Rightarrow> string \<Rightarrow> RuntimeValue \<Rightarrow> bool \<Rightarrow> Interpreter \<Rightarrow> unit result" where
  "Environment_define a name val isConstant s =
     (let env = heap s a in
      if name \<in> dom (env_values env)
      then Some (Throw (Error (''Variable '' @ [CHR 0x27] @ name @ [CHR 0x27] @ '' already defined'')), s)
      else Some (Normal (),
             s\<lparr>heap := (heap s)(a :=
                  env\<lparr>env_values := (env_values env)(name \<mapsto> val),
                      env_constants := (if isConstant then insert name (env_constants env)
                                        else env_constants env)\<rparr>)\<rparr>))"

definition undefined_variable :: "string \<Rightarrow> Thrown" where
  "undefined_variable name = Error (''Undefined variable '' @ [CHR 0x27] @ name @ [CHR 0x27])"

text \<open>\<^verbatim>\<open>get\<close> and \<^verbatim>\<open>assign\<close> walk the parent chain, one call per environment.\<close>

fun Environment_get :: "nat \<Rightarrow> nat \<Rightarrow> string \<Rightarrow> Interpreter \<Rightarrow> RuntimeValue result" where
  "Environment_get 0 a name s = None"
| "Environment_get (Suc n) a name s =
     (case env_values (heap s a) name of
        Some v \<Rightarrow> Some (Normal v, s)
      | None \<Rightarrow>
          (case env_parent (heap s a) of
             Some p \<Rightarrow> Environment_get n p name s
           | None \<Rightarrow> Some (Throw (undefined_variable name), s)))"

fun Environment_assign :: "nat \<Rightarrow> nat \<Rightarrow> string \<Rightarrow> RuntimeValue \<Rightarrow> Interpreter \<Rightarrow> unit result" where
  "Environment_assign 0 a name val s = None"
| "Environment_assign (Suc n) a name val s =
     (let env = heap s a in
      if name \<in> env_constants env
      then Some (Throw (Error (''Cannot reassign constant '' @ [CHR 0x27] @ name @ [CHR 0x27])), s)
      else if name \<in> dom (env_values env)
      then Some (Normal (),
             s\<lparr>heap := (heap s)(a := env\<lparr>env_values := (env_values env)(name \<mapsto> val)\<rparr>)\<rparr>)
      else (case env_parent env of
              Some p \<Rightarrow> Environment_assign n p name val s
            | None \<Rightarrow> Some (Throw (undefined_variable name), s)))"

subsection \<open>Truthiness, equality, text\<close>

definition isTruthy :: "RuntimeValue \<Rightarrow> bool" where
  "isTruthy v =
     (case v of
        BooleanV b \<Rightarrow> b
      | NumberV x \<Rightarrow> \<not> num_eq x (Num 0)
      | StringV t \<Rightarrow> length t > 0
      | _ \<Rightarrow> True)"

text \<open>
  \<^verbatim>\<open>isEqual\<close>: equal tags and \<^verbatim>\<open>===\<close> on the values.  Two function values are the same
  object exactly when they were made by the same declaration in the same environment,
  which their fields determine.
\<close>

definition isEqual :: "RuntimeValue \<Rightarrow> RuntimeValue \<Rightarrow> bool" where
  "isEqual l r =
     (case (l, r) of
        (NumberV x, NumberV y) \<Rightarrow> num_eq x y
      | (StringV x, StringV y) \<Rightarrow> x = y
      | (BooleanV x, BooleanV y) \<Rightarrow> x = y
      | (FunctionV x, FunctionV y) \<Rightarrow> x = y
      | (RangeV x, RangeV y) \<Rightarrow> num_eq x y
      | _ \<Rightarrow> False)"

definition stringify :: "(real \<Rightarrow> string) \<Rightarrow> RuntimeValue \<Rightarrow> string" where
  "stringify ht v =
     (case v of
        BooleanV b \<Rightarrow> (if b then ''sach'' else ''jhooth'')
      | NumberV x \<Rightarrow> Number_toString ht x
      | StringV t \<Rightarrow> t
      | _ \<Rightarrow> ''[object]'')"

text \<open>The \<^verbatim>\<open>type\<close> tag of a value, as the error messages print it.\<close>

definition type_tag :: "RuntimeValue \<Rightarrow> string" where
  "type_tag v =
     (case v of NumberV _ \<Rightarrow> ''number'' | StringV _ \<Rightarrow> ''string'' | BooleanV _ \<Rightarrow> ''boolean''
      | FunctionV _ \<Rightarrow> ''function'' | RangeV _ \<Rightarrow> ''range'')"

subsection \<open>Expressions\<close>

text \<open>
  As in the parser, a visit function that evaluates sub-terms takes \<open>this_visitExpression\<close>
  and \<open>this_visitStatement\<close> as arguments; \<open>visitExpression\<close> and \<open>visitStatement\<close>
  below close the recursion.
\<close>

definition binary_operation ::
  "(real \<Rightarrow> string) \<Rightarrow> string \<Rightarrow> RuntimeValue \<Rightarrow> RuntimeValue \<Rightarrow> Thrown + RuntimeValue" where
  "binary_operation ht operator left right =
     (let invalid = Inl (Error (''Invalid binary operation: '' @ type_tag left @ '' '' @ operator
                                  @ '' '' @ type_tag right));
          numeric = (\<lambda>f. case (left, right) of
                            (NumberV x, NumberV y) \<Rightarrow> Inr (f x y) | _ \<Rightarrow> invalid)
      in if operator = ''+''
         then (case (left, right) of
                 (StringV _, _) \<Rightarrow> Inr (StringV (stringify ht left @ stringify ht right))
               | (_, StringV _) \<Rightarrow> Inr (StringV (stringify ht left @ stringify ht right))
               | (NumberV x, NumberV y) \<Rightarrow> Inr (NumberV (num_add x y))
               | _ \<Rightarrow> invalid)
         else if operator = ''-'' then numeric (\<lambda>x y. NumberV (num_sub x y))
         else if operator = ''*'' then numeric (\<lambda>x y. NumberV (num_mul x y))
         else if operator = ''/''
         then (case (left, right) of
                 (NumberV x, NumberV y) \<Rightarrow>
                   if num_eq y (Num 0) then Inl (Error ''Division by zero'')
                   else Inr (NumberV (num_div x y))
               | _ \<Rightarrow> invalid)
         else if operator = ''%'' then numeric (\<lambda>x y. NumberV (num_rem x y))
         else if operator = ''**'' then numeric (\<lambda>x y. NumberV (num_pow x y))
         else if operator = ''=='' then Inr (BooleanV (isEqual left right))
         else if operator = ''!='' then Inr (BooleanV (\<not> isEqual left right))
         else if operator = ''<'' then numeric (\<lambda>x y. BooleanV (num_less x y))
         else if operator = ''>'' then numeric (\<lambda>x y. BooleanV (num_less y x))
         else if operator = ''<='' then numeric (\<lambda>x y. BooleanV (num_le x y))
         else if operator = ''>='' then numeric (\<lambda>x y. BooleanV (num_le y x))
         else if operator = ''aur'' then Inr (BooleanV (isTruthy left \<and> isTruthy right))
         else if operator = ''ya'' then Inr (BooleanV (isTruthy left \<or> isTruthy right))
         else invalid)"

definition completed :: "Thrown + 'a \<Rightarrow> Interpreter \<Rightarrow> 'a result" where
  "completed r s = (case r of Inl e \<Rightarrow> Some (Throw e, s) | Inr v \<Rightarrow> Some (Normal v, s))"

definition visitBinaryExpression ::
  "(Expression \<Rightarrow> Interpreter \<Rightarrow> RuntimeValue result) \<Rightarrow> Expression \<Rightarrow> string \<Rightarrow> Expression
     \<Rightarrow> Interpreter \<Rightarrow> RuntimeValue result" where
  "visitBinaryExpression this_visitExpression left operator right s =
     andThen (this_visitExpression left s) (\<lambda>l s.
     andThen (this_visitExpression right s) (\<lambda>r s.
       completed (binary_operation (host_text s) operator l r) s))"

definition visitUnaryExpression ::
  "(Expression \<Rightarrow> Interpreter \<Rightarrow> RuntimeValue result) \<Rightarrow> string \<Rightarrow> Expression
     \<Rightarrow> Interpreter \<Rightarrow> RuntimeValue result" where
  "visitUnaryExpression this_visitExpression operator operand_expr s =
     andThen (this_visitExpression operand_expr s) (\<lambda>operand s.
       if operator = ''nahi'' then Some (Normal (BooleanV (\<not> isTruthy operand)), s)
       else (case (operator = ''-'', operand) of
               (True, NumberV x) \<Rightarrow> Some (Normal (NumberV (num_neg x)), s)
             | _ \<Rightarrow> Some (Throw (Error (''Invalid unary operation: '' @ operator @ '' ''
                                          @ type_tag operand)), s)))"

definition visitIdentifier :: "nat \<Rightarrow> string \<Rightarrow> Interpreter \<Rightarrow> RuntimeValue result" where
  "visitIdentifier n name s = Environment_get n (environment s) name s"

definition visitLiteral :: "LiteralValue \<Rightarrow> Interpreter \<Rightarrow> RuntimeValue result" where
  "visitLiteral lit s =
     Some (Normal (case lit of LNumber x \<Rightarrow> NumberV x | LString t \<Rightarrow> StringV t
                    | LBoolean b \<Rightarrow> BooleanV b), s)"

definition visitInputStatement :: "string \<Rightarrow> Interpreter \<Rightarrow> RuntimeValue result" where
  "visitInputStatement prompt s =
     (case inputCallback s of
        Some callback \<Rightarrow>
          (let input = callback prompt;
               num = parseFloat input
           in if \<not> isNaN num \<and> isFinite num then Some (Normal (NumberV num), s)
              else Some (Normal (StringV input), s))
      | None \<Rightarrow> Some (Throw (Error ''Input not available in this context''), s))"

subsection \<open>Loops over statements and arguments\<close>

text \<open>\<^verbatim>\<open>for (const statement of body) this.visitStatement(statement)\<close>.\<close>

primrec forEach ::
  "('a \<Rightarrow> Interpreter \<Rightarrow> unit result) \<Rightarrow> 'a list \<Rightarrow> Interpreter \<Rightarrow> unit result" where
  "forEach f [] s = Some (Normal (), s)"
| "forEach f (x # xs) s = andThen (f x s) (\<lambda>_ s. forEach f xs s)"

text \<open>\<^verbatim>\<open>node.arguments.map(arg => this.visitExpression(arg))\<close>.\<close>

primrec mapEach ::
  "('a \<Rightarrow> Interpreter \<Rightarrow> 'b result) \<Rightarrow> 'a list \<Rightarrow> Interpreter \<Rightarrow> 'b list result" where
  "mapEach f [] s = Some (Normal [], s)"
| "mapEach f (x # xs) s =
     andThen (f x s) (\<lambda>v s. andThen (mapEach f xs s) (\<lambda>vs s. Some (Normal (v # vs), s)))"

text \<open>\<^verbatim>\<open>finally { this.environment = previous }\<close>.\<close>

definition finally_restore :: "nat \<Rightarrow> 'a result \<Rightarrow> 'a result" where
  "finally_restore previous r =
     (case r of None \<Rightarrow> None | Some (c, s) \<Rightarrow> Some (c, s\<lparr>environment := previous\<rparr>))"

subsection \<open>Calls\<close>

text \<open>Binding the parameters: \<^verbatim>\<open>define(func.parameters[i], args[i])\<close> for each index.\<close>

fun bind_parameters :: "string list \<Rightarrow> RuntimeValue list \<Rightarrow> Interpreter \<Rightarrow> unit result" where
  "bind_parameters (p # ps) (a # as) s =
     andThen (Environment_define (environment s) p a False s) (\<lambda>_ s. bind_parameters ps as s)"
| "bind_parameters _ _ s = Some (Normal (), s)"

definition visitCallExpression ::
  "nat \<Rightarrow> (Expression \<Rightarrow> Interpreter \<Rightarrow> RuntimeValue result)
     \<Rightarrow> (Statement \<Rightarrow> Interpreter \<Rightarrow> unit result)
     \<Rightarrow> string option \<Rightarrow> Expression list \<Rightarrow> Interpreter \<Rightarrow> RuntimeValue result" where
  "visitCallExpression n this_visitExpression this_visitStatement callee arguments s =
     (if callee = Some ''range''
      then (case arguments of
              [argument] \<Rightarrow>
                andThen (this_visitExpression argument s) (\<lambda>arg s.
                  case arg of
                    NumberV x \<Rightarrow> Some (Normal (RangeV (Math_floor x)), s)
                  | _ \<Rightarrow> Some (Throw (Error ''range() argument must be a number''), s))
            | _ \<Rightarrow> Some (Throw (Error ''range() expects exactly one argument''), s))
      else
        andThen (case callee of
                   Some name \<Rightarrow> Environment_get n (environment s) name s
                 | None \<Rightarrow> Some (Throw (undefined_variable ''undefined''), s)) (\<lambda>calleeV s.
          case calleeV of
            FunctionV func \<Rightarrow>
              andThen (mapEach this_visitExpression arguments s) (\<lambda>args s.
                if length args \<noteq> length (fn_parameters func)
                then Some (Throw (Error (''Function '' @ [CHR 0x27] @ fn_name func @ [CHR 0x27]
                                    @ '' expects '' @ digits_of (length (fn_parameters func))
                                    @ '' arguments, got '' @ digits_of (length args))), s)
                else
                  (let previous = environment s;
                       (fresh, s1) = new_Environment (Some (fn_closure func)) s;
                       s2 = s1\<lparr>environment := fresh\<rparr>
                   in andThen (bind_parameters (fn_parameters func) args s2) (\<lambda>_ s3.
                        finally_restore previous
                          (case forEach this_visitStatement (fn_body func) s3 of
                             None \<Rightarrow> None
                           | Some (Normal _, s4) \<Rightarrow> Some (Normal (BooleanV False), s4)
                           | Some (Throw (ReturnException v), s4) \<Rightarrow> Some (Normal v, s4)
                           | Some (Throw error, s4) \<Rightarrow> Some (Throw error, s4)))))
          | _ \<Rightarrow> Some (Throw (Error ([CHR 0x27] @ (case callee of Some name \<Rightarrow> name
                                                     | None \<Rightarrow> ''undefined'')
                                       @ [CHR 0x27] @ '' is not a function'')), s)))"

subsection \<open>Statements\<close>

definition visitVariableDeclaration ::
  "(Expression \<Rightarrow> Interpreter \<Rightarrow> RuntimeValue result) \<Rightarrow> string \<Rightarrow> Expression \<Rightarrow> bool
     \<Rightarrow> Interpreter \<Rightarrow> unit result" where
  "visitVariableDeclaration this_visitExpression identifier value_expr isConstant s =
     andThen (this_visitExpression value_expr s) (\<lambda>val s.
       Environment_define (environment s) identifier val isConstant s)"

definition visitAssignment ::
  "nat \<Rightarrow> (Expression \<Rightarrow> Interpreter \<Rightarrow> RuntimeValue result) \<Rightarrow> string \<Rightarrow> Expression
     \<Rightarrow> Interpreter \<Rightarrow> unit result" where
  "visitAssignment n this_visitExpression identifier value_expr s =
     andThen (this_visitExpression value_expr s) (\<lambda>val s.
       Environment_assign n (environment s) identifier val s)"

definition visitIfStatement ::
  "(Expression \<Rightarrow> Interpreter \<Rightarrow> RuntimeValue result) \<Rightarrow> (Statement \<Rightarrow> Interpreter \<Rightarrow> unit result)
     \<Rightarrow> Expression \<Rightarrow> Statement list \<Rightarrow> Statement list option \<Rightarrow> Interpreter \<Rightarrow> unit result"
  where
  "visitIfStatement this_visitExpression this_visitStatement condition thenBranch elseBranch s =
     andThen (this_visitExpression condition s) (\<lambda>cond s.
       if isTruthy cond then forEach this_visitStatement thenBranch s
       else (case elseBranch of
               Some branch \<Rightarrow> forEach this_visitStatement branch s
             | None \<Rightarrow> Some (Normal (), s)))"

text \<open>
  The while loop.  The condition is evaluated outside the \<^verbatim>\<open>try\<close>; a
  \<^verbatim>\<open>ReturnException\<close> from the body is thrown again, any other error ends the loop.
\<close>

fun visitWhileLoop ::
  "nat \<Rightarrow> (Expression \<Rightarrow> Interpreter \<Rightarrow> RuntimeValue result)
     \<Rightarrow> (Statement \<Rightarrow> Interpreter \<Rightarrow> unit result)
     \<Rightarrow> Expression \<Rightarrow> Statement list \<Rightarrow> Interpreter \<Rightarrow> unit result" where
  "visitWhileLoop 0 this_visitExpression this_visitStatement condition body s = None"
| "visitWhileLoop (Suc n) this_visitExpression this_visitStatement condition body s =
     andThen (this_visitExpression condition s) (\<lambda>cond s.
       if isTruthy cond
       then (case forEach this_visitStatement body s of
               None \<Rightarrow> None
             | Some (Normal _, s') \<Rightarrow>
                 visitWhileLoop n this_visitExpression this_visitStatement condition body s'
             | Some (Throw (ReturnException v), s') \<Rightarrow> Some (Throw (ReturnException v), s')
             | Some (Throw _, s') \<Rightarrow> Some (Normal (), s'))
       else Some (Normal (), s))"

text \<open>The for loop: \<^verbatim>\<open>for (let i = 0; i < iterable.value; i++) { define; body }\<close>.\<close>

fun for_iterations ::
  "nat \<Rightarrow> (Statement \<Rightarrow> Interpreter \<Rightarrow> unit result) \<Rightarrow> string \<Rightarrow> Statement list \<Rightarrow> number
     \<Rightarrow> nat \<Rightarrow> Interpreter \<Rightarrow> unit result" where
  "for_iterations 0 this_visitStatement variable body bound i s = None"
| "for_iterations (Suc n) this_visitStatement variable body bound i s =
     (if num_less (Num (real i)) bound
      then andThen (Environment_define (environment s) variable (NumberV (Num (real i)))
                      False s) (\<lambda>_ s.
           andThen (forEach this_visitStatement body s) (\<lambda>_ s.
             for_iterations n this_visitStatement variable body bound (i + 1) s))
      else Some (Normal (), s))"

definition visitForLoop ::
  "nat \<Rightarrow> (Expression \<Rightarrow> Interpreter \<Rightarrow> RuntimeValue result)
     \<Rightarrow> (Statement \<Rightarrow> Interpreter \<Rightarrow> unit result)
     \<Rightarrow> string \<Rightarrow> Expression \<Rightarrow> Statement list \<Rightarrow> Interpreter \<Rightarrow> unit result" where
  "visitForLoop n this_visitExpression this_visitStatement variable iterable_expr body s =
     andThen (this_visitExpression iterable_expr s) (\<lambda>iterable s.
       case iterable of
         RangeV bound \<Rightarrow>
           (let previous = environment s;
                (fresh, s1) = new_Environment (Some previous) s;
                s2 = s1\<lparr>environment := fresh\<rparr>
            in finally_restore previous
                 (for_iterations n this_visitStatement variable body bound 0 s2))
       | _ \<Rightarrow> Some (Throw (Error ''For loop requires a range''), s))"

definition visitFunctionDeclaration ::
  "string \<Rightarrow> string list \<Rightarrow> Statement list \<Rightarrow> Interpreter \<Rightarrow> unit result" where
  "visitFunctionDeclaration name parameters body s =
     Environment_define (environment s) name
       (FunctionV \<lparr>fn_name = name, fn_parameters = parameters, fn_body = body,
                   fn_closure = environment s\<rparr>) False s"

definition visitReturnStatement ::
  "(Expression \<Rightarrow> Interpreter \<Rightarrow> RuntimeValue result) \<Rightarrow> Expression option
     \<Rightarrow> Interpreter \<Rightarrow> unit result" where
  "visitReturnStatement this_visitExpression value_expr s =
     andThen (case value_expr of
                Some e \<Rightarrow> this_visitExpression e s
              | None \<Rightarrow> Some (Normal (BooleanV False), s)) (\<lambda>val s.
       Some (Throw (ReturnException val), s))"

definition visitPrintStatement ::
  "(Expression \<Rightarrow> Interpreter \<Rightarrow> RuntimeValue result) \<Rightarrow> Expression
     \<Rightarrow> Interpreter \<Rightarrow> unit result" where
  "visitPrintStatement this_visitExpression value_expr s =
     andThen (this_visitExpression value_expr s) (\<lambda>val s.
       Some (Normal (), s\<lparr>output := output s @ [stringify (host_text s) val]\<rparr>))"

subsection \<open>The two dispatchers\<close>

fun visitStatement :: "nat \<Rightarrow> Statement \<Rightarrow> Interpreter \<Rightarrow> unit result"
and visitExpression :: "nat \<Rightarrow> Expression \<Rightarrow> Interpreter \<Rightarrow> RuntimeValue result"
where
  "visitStatement 0 node s = None"
| "visitStatement (Suc n) node s =
     (case node of
        VariableDeclaration identifier val isConstant \<Rightarrow>
          visitVariableDeclaration (visitExpression n) identifier val isConstant s
      | Assignment identifier val \<Rightarrow>
          visitAssignment n (visitExpression n) identifier val s
      | IfStatement condition thenBranch elseBranch \<Rightarrow>
          visitIfStatement (visitExpression n) (visitStatement n) condition thenBranch
            elseBranch s
      | WhileLoop condition body \<Rightarrow>
          visitWhileLoop n (visitExpression n) (visitStatement n) condition body s
      | ForLoop variable iterable body \<Rightarrow>
          visitForLoop n (visitExpression n) (visitStatement n) variable iterable body s
      | FunctionDeclaration name parameters body style \<Rightarrow>
          visitFunctionDeclaration name parameters body s
      | ReturnStatement val \<Rightarrow> visitReturnStatement (visitExpression n) val s
      | PrintStatement val \<Rightarrow> visitPrintStatement (visitExpression n) val s
      | ExpressionStatement expr \<Rightarrow>
          andThen (visitExpression n expr s) (\<lambda>_ s. Some (Normal (), s)))"
| "visitExpression 0 node s = None"
| "visitExpression (Suc n) node s =
     (case node of
        BinaryExpression left operator right \<Rightarrow>
          visitBinaryExpression (visitExpression n) left operator right s
      | UnaryExpression operator operand \<Rightarrow>
          visitUnaryExpression (visitExpression n) operator operand s
      | CallExpression callee arguments \<Rightarrow>
          visitCallExpression n (visitExpression n) (visitStatement n) callee arguments s
      | Identifier name \<Rightarrow> visitIdentifier n name s
      | Literal lit \<Rightarrow> visitLiteral lit s
      | InputStatement prompt \<Rightarrow> visitInputStatement prompt s)"

definition visitProgram :: "nat \<Rightarrow> Program \<Rightarrow> Interpreter \<Rightarrow> unit result" where
  "visitProgram n node s = (case node of Program body \<Rightarrow> forEach (visitStatement n) body s)"

subsection \<open>interpret\<close>

record InterpretResult =
  res_output :: "string list"
  res_error :: "string option"

definition int_text :: "int \<Rightarrow> string" where
  "int_text i = (if i < 0 then ''-'' @ digits_of (nat (- i)) else digits_of (nat i))"

text \<open>The \<^verbatim>\<open>catch\<close> of \<^verbatim>\<open>interpret\<close>: the text of the \<^verbatim>\<open>error\<close> field.\<close>

definition error_text :: "Thrown \<Rightarrow> string" where
  "error_text e =
     (case e of
        EasyLangThrown (EasyLangError message line_no column_no ty) \<Rightarrow>
          ty @ '' at line '' @ digits_of line_no @ '':'' @ int_text column_no @ '': ''
             @ message
      | Error message \<Rightarrow> message
      | ReturnException v \<Rightarrow> [])"

definition Interpreter_interpret ::
  "nat \<Rightarrow> Program \<Rightarrow> Interpreter \<Rightarrow> (InterpretResult \<times> Interpreter) option" where
  "Interpreter_interpret n program s0 =
     (case visitProgram n program (s0\<lparr>output := []\<rparr>) of
        None \<Rightarrow> None
      | Some (Normal _, s) \<Rightarrow> Some (\<lparr>res_output = output s, res_error = None\<rparr>, s)
      | Some (Throw error, s) \<Rightarrow>
          Some (\<lparr>res_output = output s, res_error = Some (error_text error)\<rparr>, s))"

text \<open>
  \<^verbatim>\<open>new Interpreter(inputCallback)\<close>: the global environment, with the built-in
  \<^verbatim>\<open>range\<close> defined in it.
\<close>

definition setupBuiltins :: "Interpreter \<Rightarrow> Interpreter" where
  "setupBuiltins s =
     (case Environment_define (globals s) ''range''
             (FunctionV \<lparr>fn_name = ''range'', fn_parameters = [''n''], fn_body = [],
                         fn_closure = globals s\<rparr>) False s of
        Some (_, s') \<Rightarrow> s' | None \<Rightarrow> s)"

definition new_Interpreter :: "(real \<Rightarrow> string) \<Rightarrow> (string \<Rightarrow> string) option \<Rightarrow> Interpreter" where
  "new_Interpreter ht callback =
     setupBuiltins
       \<lparr>heap = (\<lambda>a. \<lparr>env_values = Map.empty, env_constants = {}, env_parent = None\<rparr>),
        allocated = 1, globals = 0, environment = 0, output = [],
        inputCallback = callback, host_text = ht\<rparr>"

section \<open>Running a source text\<close>

text \<open>
  \<^verbatim>\<open>executeCode\<close> of App.tsx: tokenize, parse, then interpret on a new interpreter.  An
  error of the first two stages ends the run with that error.
\<close>

datatype RunOutcome =
    TokenizeFailed EasyLangError
  | ParseFailed ParserThrown
  | Interpreted InterpretResult

definition run_source ::
  "nat \<Rightarrow> (real \<Rightarrow> string) \<Rightarrow> (string \<Rightarrow> string) option \<Rightarrow> string \<Rightarrow> RunOutcome option" where
  "run_source n ht callback src =
     (case tokenize src of
        Inl e \<Rightarrow> Some (TokenizeFailed e)
      | Inr ts \<Rightarrow>
          (case parse n ts of
             None \<Rightarrow> None
           | Some (Inl e) \<Rightarrow> Some (ParseFailed e)
           | Some (Inr program) \<Rightarrow>
               (case Interpreter_interpret n program (new_Interpreter ht callback) of
                  None \<Rightarrow> None
                | Some (r, s) \<Rightarrow> Some (Interpreted r))))"

text \<open>The rules that evaluate the parser and the evaluator on concrete input.\<close>

text \<open>A depth bound written as a numeral: one step of the function at that bound.\<close>

lemmas fuel_numeral =
  binary_loop.simps(2) [of "pred_numeral k", folded numeral_eq_Suc]
  arguments_loop.simps(2) [of "pred_numeral k", folded numeral_eq_Suc]
  parameters_loop.simps(2) [of "pred_numeral k", folded numeral_eq_Suc]
  call_loop.simps(2) [of "pred_numeral k", folded numeral_eq_Suc]
  unary.simps(2) [of "pred_numeral k", folded numeral_eq_Suc]
  power_expr.simps(2) [of "pred_numeral k", folded numeral_eq_Suc]
  expression.simps(2) [of "pred_numeral k", folded numeral_eq_Suc]
  block_loop.simps(2) [of "pred_numeral k", folded numeral_eq_Suc]
  statement.simps(2) [of "pred_numeral k", folded numeral_eq_Suc]
  blockStatement.simps(2) [of "pred_numeral k", folded numeral_eq_Suc]
  parse_loop.simps(2) [of "pred_numeral k", folded numeral_eq_Suc]
  Environment_get.simps(2) [of "pred_numeral k", folded numeral_eq_Suc]
  Environment_assign.simps(2) [of "pred_numeral k", folded numeral_eq_Suc]
  visitWhileLoop.simps(2) [of "pred_numeral k", folded numeral_eq_Suc]
  for_iterations.simps(2) [of "pred_numeral k", folded numeral_eq_Suc]
  visitStatement.simps(2) [of "pred_numeral k", folded numeral_eq_Suc]
  visitExpression.simps(2) [of "pred_numeral k", folded numeral_eq_Suc]
  for k

lemmas parser_eval =
  p_peek_def p_previous_def p_isAtEnd_def p_check_def p_advance_def
  p_previous_token_def p_previous_value_def throw_at_peek_def p_consume_def
  consumeNewlineAndIndent_def synchronize_def starts_statement_def synchronize_loop.simps
  callee_name_def primary_def finishCall_def call_def factor_def term_expr_def comparison_def
  equality_def logicalAnd_def logicalOr_def variableDeclaration_def ifStatement_def forLoop_def
  whileLoop_def functionDeclaration_def returnStatement_def printStatement_def
  assignmentOrExpression_def statement_try_def statement_catch_def parse_def
  fuel_numeral

lemmas evaluator_eval =
  Interpreter_interpret_def visitProgram_def visitVariableDeclaration_def
  visitAssignment_def visitIfStatement_def visitForLoop_def visitFunctionDeclaration_def
  visitReturnStatement_def visitPrintStatement_def visitBinaryExpression_def
  visitUnaryExpression_def visitCallExpression_def visitIdentifier_def visitLiteral_def
  visitInputStatement_def Environment_define_def new_Environment_def finally_restore_def
  completed_def binary_operation_def isTruthy_def isEqual_def stringify_def type_tag_def
  error_text_def new_Interpreter_def setupBuiltins_def undefined_variable_def
  num_eq_def num_less_def num_le_def num_add_def num_sub_def num_neg_def Math_floor_def
  Number_toString_def is_integer_def digits_of.simps digit_char_def Let_def
  fuel_numeral

lemmas parseFloat_eval =
  parseFloat_def signed_literal_def unsigned_literal_def is_white_def is_digit_char_def
  digits_value_def exponent_part_def scale10_def to_double_def double_limit_def Let_def

lemma parseFloat_small [simp]:
  "parseFloat ''0'' = Num 0" "parseFloat ''1'' = Num 1" "parseFloat ''2'' = Num 2"
  "parseFloat ''3'' = Num 3" "parseFloat ''5'' = Num 5" "parseFloat ''10'' = Num 10"
  by (simp_all add: parseFloat_eval)

section \<open>Indentation: a line that starts in column one\<close>

definition dedent_source :: string where
  "dedent_source = ''agar sach:'' @ LF @ ''    likho 1'' @ LF @ ''likho 2''"

text \<open>
  C3 (the code at the failing input).  The third line has indent width zero, below the
  stack top 4, yet \<^verbatim>\<open>scanToken\<close> calls \<^verbatim>\<open>handleIndentation\<close> only on a white-space
  character: no \<^verbatim>\<open>DEDENT\<close> stands before the second \<^verbatim>\<open>LIKHO\<close>.  The level is closed
  only by the final dedents at the end of input.
\<close>

theorem C3_zero_indent_line_emits_no_dedent:
  "map_sum id (map tok_type) (tokenize dedent_source) =
     Inr [AGAR, SACH, COLON, NEWLINE, INDENT, LIKHO, NUMBER, NEWLINE,
          LIKHO, NUMBER, DEDENT, EOF]"
  by code_simp

section \<open>Scenario C: if and else\<close>

definition scenario_C_source :: string where
  "scenario_C_source =
     ''agar 5 > 10:'' @ LF @ ''    likho \"a\"'' @ LF @ ''warna:'' @ LF @ ''    likho \"b\"''"

definition scenario_C_tokens :: "Token list" where
  "scenario_C_tokens =
    [\<lparr>tok_type = AGAR, tok_value = ''agar'', tok_line = 1, tok_column = 1\<rparr>,
     \<lparr>tok_type = NUMBER, tok_value = ''5'', tok_line = 1, tok_column = 6\<rparr>,
     \<lparr>tok_type = GREATER_THAN, tok_value = ''>'', tok_line = 1, tok_column = 8\<rparr>,
     \<lparr>tok_type = NUMBER, tok_value = ''10'', tok_line = 1, tok_column = 10\<rparr>,
     \<lparr>tok_type = COLON, tok_value = '':'', tok_line = 1, tok_column = 12\<rparr>,
     \<lparr>tok_type = NEWLINE, tok_value = LF, tok_line = 1, tok_column = 13\<rparr>,
     \<lparr>tok_type = INDENT, tok_value = ''    '', tok_line = 2, tok_column = 2\<rparr>,
     \<lparr>tok_type = LIKHO, tok_value = ''likho'', tok_line = 2, tok_column = 6\<rparr>,
     \<lparr>tok_type = STRING, tok_value = ''a'', tok_line = 2, tok_column = 14\<rparr>,
     \<lparr>tok_type = NEWLINE, tok_value = LF, tok_line = 2, tok_column = 15\<rparr>,
     \<lparr>tok_type = WARNA, tok_value = ''warna'', tok_line = 3, tok_column = 1\<rparr>,
     \<lparr>tok_type = COLON, tok_value = '':'', tok_line = 3, tok_column = 6\<rparr>,
     \<lparr>tok_type = NEWLINE, tok_value = LF, tok_line = 3, tok_column = 7\<rparr>,
     \<lparr>tok_type = LIKHO, tok_value = ''likho'', tok_line = 4, tok_column = 6\<rparr>,
     \<lparr>tok_type = STRING, tok_value = ''b'', tok_line = 4, tok_column = 14\<rparr>,
     \<lparr>tok_type = DEDENT, tok_value = [], tok_line = 4, tok_column = 15\<rparr>,
     \<lparr>tok_type = EOF, tok_value = [], tok_line = 4, tok_column = 15\<rparr>]"

lemma scenario_C_tokenize: "tokenize scenario_C_source = Inr scenario_C_tokens"
  by code_simp

text \<open>
  C4 (the code at the failing input).  No \<^verbatim>\<open>DEDENT\<close> stands before \<^verbatim>\<open>warna\<close>, so the
  block of the then-branch runs on into it, and the run ends in the parser with
  \<^verbatim>\<open>Expected expression\<close> at line 3, column 1; nothing is interpreted.
\<close>

theorem C4_scenario_C_fails_to_parse:
  "run_source 20 ht callback scenario_C_source =
     Some (ParseFailed (SyntaxThrown
       (EasyLangError ''Expected expression'' 3 1 ''SyntaxError'')))"
  by (simp add: run_source_def scenario_C_tokenize scenario_C_tokens_def parser_eval)

section \<open>The while loop\<close>

lemma while_only_return_or_condition:
  "visitWhileLoop n ve vs condition body s = Some (Throw e, s') \<Longrightarrow>
     (\<exists>v. e = ReturnException v) \<or> (\<exists>s0. ve condition s0 = Some (Throw e, s'))"
proof (induction n arbitrary: s)
  case 0
  then show ?case by simp
next
  case (Suc n)
  show ?case
  proof (cases "ve condition s")
    case None
    then show ?thesis using Suc.prems by simp
  next
    case (Some a)
    obtain c s1 where a: "a = (c, s1)" by (cases a)
    show ?thesis
    proof (cases c)
      case (Throw x)
      then show ?thesis using Suc.prems Some a by auto
    next
      case (Normal cv)
      show ?thesis
      proof (cases "isTruthy cv")
        case False
        then show ?thesis using Suc.prems Some a Normal by simp
      next
        case True
        then show ?thesis
          using Suc.prems Some a Normal Suc.IH
          by (auto split: option.splits prod.splits Completion.splits Thrown.splits)
      qed
    qed
  qed
qed

text \<open>
  C6.  A while statement is \<^verbatim>\<open>visitWhileLoop\<close>.  In each iteration the condition is
  evaluated first, in the state the loop has reached (the loop makes no environment of its
  own): a falsy condition ends the loop; after a body that completes, the loop goes on
  from the body's final state and evaluates the condition again; a return signal from
  the body leaves the loop as it is; any other error from the body ends the loop normally,
  at the state of the throw, and is reported nowhere.  Hence nothing but a return signal,
  or an error of the condition itself, ever leaves a while loop.
\<close>

theorem C6_while_loop:
  "visitStatement (Suc m) (WhileLoop condition body) s
     = visitWhileLoop m (visitExpression m) (visitStatement m) condition body s
   \<and> (\<forall>c s1. ve condition s = Some (Normal c, s1) \<longrightarrow>
        (\<not> isTruthy c \<longrightarrow>
           visitWhileLoop (Suc n) ve vs condition body s = Some (Normal (), s1)) \<and>
        (isTruthy c \<longrightarrow>
           (\<forall>s2. forEach vs body s1 = Some (Normal (), s2) \<longrightarrow>
              visitWhileLoop (Suc n) ve vs condition body s
                = visitWhileLoop n ve vs condition body s2) \<and>
           (\<forall>v s2. forEach vs body s1 = Some (Throw (ReturnException v), s2) \<longrightarrow>
              visitWhileLoop (Suc n) ve vs condition body s
                = Some (Throw (ReturnException v), s2)) \<and>
           (\<forall>e s2. forEach vs body s1 = Some (Throw e, s2) \<longrightarrow> (\<forall>v. e \<noteq> ReturnException v) \<longrightarrow>
              visitWhileLoop (Suc n) ve vs condition body s = Some (Normal (), s2))))
   \<and> (\<forall>k e s'. visitWhileLoop k ve vs condition body s = Some (Throw e, s') \<longrightarrow>
        (\<exists>v. e = ReturnException v) \<or> (\<exists>s0. ve condition s0 = Some (Throw e, s')))"
proof (intro conjI allI impI)
  show "visitStatement (Suc m) (WhileLoop condition body) s
     = visitWhileLoop m (visitExpression m) (visitStatement m) condition body s"
    by simp
next
  fix c s1 assume "ve condition s = Some (Normal c, s1)" "\<not> isTruthy c"
  then show "visitWhileLoop (Suc n) ve vs condition body s = Some (Normal (), s1)" by simp
next
  fix c s1 s2
  assume "ve condition s = Some (Normal c, s1)" "isTruthy c"
    "forEach vs body s1 = Some (Normal (), s2)"
  then show "visitWhileLoop (Suc n) ve vs condition body s
                = visitWhileLoop n ve vs condition body s2" by simp
next
  fix c s1 v s2
  assume "ve condition s = Some (Normal c, s1)" "isTruthy c"
    "forEach vs body s1 = Some (Throw (ReturnException v), s2)"
  then show "visitWhileLoop (Suc n) ve vs condition body s
                = Some (Throw (ReturnException v), s2)" by simp
next
  fix c s1 e s2
  assume "ve condition s = Some (Normal c, s1)" "isTruthy c"
    "forEach vs body s1 = Some (Throw e, s2)" "\<forall>v. e \<noteq> ReturnException v"
  then show "visitWhileLoop (Suc n) ve vs condition body s = Some (Normal (), s2)"
    by (cases e) simp_all
next
  fix k e s'
  assume "visitWhileLoop k ve vs condition body s = Some (Throw e, s')"
  then show "(\<exists>v. e = ReturnException v) \<or> (\<exists>s0. ve condition s0 = Some (Throw e, s'))"
    by (rule while_only_return_or_condition)
qed

text \<open>A new interpreter without an input provider, on a host that prints nothing for the
  numbers \<open>Number_toString\<close> leaves open.\<close>

definition fresh_interpreter :: Interpreter where
  "fresh_interpreter = new_Interpreter (\<lambda>r. []) None"

lemma fresh_true:
  "visitExpression 5 (Literal (LBoolean True)) fresh_interpreter
     = Some (Normal (BooleanV True), fresh_interpreter)"
  by (simp add: evaluator_eval)

lemma fresh_print_undefined:
  "forEach (visitStatement 5) [PrintStatement (Identifier ''y'')] fresh_interpreter
     = Some (Throw (undefined_variable ''y''), fresh_interpreter)"
  by (simp add: evaluator_eval fresh_interpreter_def)

lemma fresh_return_seven:
  "forEach (visitStatement 5) [ReturnStatement (Some (Literal (LNumber (Num 7))))]
     fresh_interpreter
     = Some (Throw (ReturnException (NumberV (Num 7))), fresh_interpreter)"
  by (simp add: evaluator_eval fresh_interpreter_def)

lemma fresh_false:
  "visitExpression 5 (Literal (LBoolean False)) fresh_interpreter
     = Some (Normal (BooleanV False), fresh_interpreter)"
  by (simp add: evaluator_eval)

theorem C6_while_loop_witness:
  "visitWhileLoop (Suc 0) (visitExpression 5) (visitStatement 5) (Literal (LBoolean True))
      [PrintStatement (Identifier ''y'')] fresh_interpreter
     = Some (Normal (), fresh_interpreter)
   \<and> visitWhileLoop (Suc 0) (visitExpression 5) (visitStatement 5) (Literal (LBoolean True))
      [ReturnStatement (Some (Literal (LNumber (Num 7))))] fresh_interpreter
     = Some (Throw (ReturnException (NumberV (Num 7))), fresh_interpreter)
   \<and> visitWhileLoop (Suc 0) (visitExpression 5) (visitStatement 5) (Literal (LBoolean False))
      [PrintStatement (Identifier ''y'')] fresh_interpreter
     = Some (Normal (), fresh_interpreter)"
proof (intro conjI)
  have t: "isTruthy (BooleanV True)" and f: "\<not> isTruthy (BooleanV False)"
    by (simp_all add: isTruthy_def)
  have e: "\<forall>v. undefined_variable ''y'' \<noteq> ReturnException v"
    by (simp add: undefined_variable_def)
  note c1 = C6_while_loop [of 0 "Literal (LBoolean True)" "[PrintStatement (Identifier ''y'')]"
      fresh_interpreter "visitExpression 5" 0 "visitStatement 5",
      THEN conjunct2, THEN conjunct1, rule_format, OF fresh_true]
  from c1 [THEN conjunct2, rule_format, OF t, THEN conjunct2, THEN conjunct2, rule_format,
           OF fresh_print_undefined e [rule_format]]
  show "visitWhileLoop (Suc 0) (visitExpression 5) (visitStatement 5) (Literal (LBoolean True))
      [PrintStatement (Identifier ''y'')] fresh_interpreter
     = Some (Normal (), fresh_interpreter)" .
  note c2 = C6_while_loop [of 0 "Literal (LBoolean True)"
      "[ReturnStatement (Some (Literal (LNumber (Num 7))))]"
      fresh_interpreter "visitExpression 5" 0 "visitStatement 5",
      THEN conjunct2, THEN conjunct1, rule_format, OF fresh_true]
  from c2 [THEN conjunct2, rule_format, OF t, THEN conjunct2, THEN conjunct1, rule_format,
           OF fresh_return_seven]
  show "visitWhileLoop (Suc 0) (visitExpression 5) (visitStatement 5) (Literal (LBoolean True))
      [ReturnStatement (Some (Literal (LNumber (Num 7))))] fresh_interpreter
     = Some (Throw (ReturnException (NumberV (Num 7))), fresh_interpreter)" .
  note c3 = C6_while_loop [of 0 "Literal (LBoolean False)" "[PrintStatement (Identifier ''y'')]"
      fresh_interpreter "visitExpression 5" 0 "visitStatement 5",
      THEN conjunct2, THEN conjunct1, rule_format, OF fresh_false]
  from c3 [THEN conjunct1, rule_format, OF f]
  show "visitWhileLoop (Suc 0) (visitExpression 5) (visitStatement 5) (Literal (LBoolean False))
      [PrintStatement (Identifier ''y'')] fresh_interpreter
     = Some (Normal (), fresh_interpreter)" .
qed

section \<open>What evaluation never undoes\<close>

text \<open>
  \<open>extends s s'\<close> relates a state to a later one: the interpreter still has the same
  global environment, input provider and host; no environment has been removed; the
  output buffer has only grown; and an environment that existed in \<open>s\<close> still has its
  parent, its constants, and the value of every constant that had one.
\<close>

definition extends :: "Interpreter \<Rightarrow> Interpreter \<Rightarrow> bool" where
  "extends s s' =
     (globals s' = globals s \<and> inputCallback s' = inputCallback s \<and> host_text s' = host_text s
      \<and> allocated s \<le> allocated s'
      \<and> (\<exists>ys. output s' = output s @ ys)
      \<and> (\<forall>a < allocated s.
            env_parent (heap s' a) = env_parent (heap s a)
            \<and> env_constants (heap s a) \<subseteq> env_constants (heap s' a)
            \<and> (\<forall>name \<in> env_constants (heap s a). \<forall>v.
                  env_values (heap s a) name = Some v \<longrightarrow> env_values (heap s' a) name = Some v)))"

lemma extends_refl [simp]: "extends s s"
  by (simp add: extends_def)

lemma extends_trans:
  assumes "extends s s1" "extends s1 s2"
  shows "extends s s2"
proof -
  have h: "env_parent (heap s2 a) = env_parent (heap s a)
         \<and> env_constants (heap s a) \<subseteq> env_constants (heap s2 a)
         \<and> (\<forall>name \<in> env_constants (heap s a). \<forall>v.
              env_values (heap s a) name = Some v \<longrightarrow> env_values (heap s2 a) name = Some v)"
    if a: "a < allocated s" for a
  proof -
    have a1: "a < allocated s1" using a assms(1) by (simp add: extends_def)
    have p1: "env_parent (heap s1 a) = env_parent (heap s a)"
      and c1: "env_constants (heap s a) \<subseteq> env_constants (heap s1 a)"
      and v1: "\<And>name v. name \<in> env_constants (heap s a) \<Longrightarrow> env_values (heap s a) name = Some v
                 \<Longrightarrow> env_values (heap s1 a) name = Some v"
      using assms(1) a unfolding extends_def by blast+
    have p2: "env_parent (heap s2 a) = env_parent (heap s1 a)"
      and c2: "env_constants (heap s1 a) \<subseteq> env_constants (heap s2 a)"
      and v2: "\<And>name v. name \<in> env_constants (heap s1 a) \<Longrightarrow> env_values (heap s1 a) name = Some v
                 \<Longrightarrow> env_values (heap s2 a) name = Some v"
      using assms(2) a1 unfolding extends_def by blast+
    show ?thesis
    proof (intro conjI ballI allI impI)
      show "env_parent (heap s2 a) = env_parent (heap s a)" by (simp add: p1 p2)
      show "env_constants (heap s a) \<subseteq> env_constants (heap s2 a)"
        using c1 c2 by (rule order_trans)
      fix name v
      assume n: "name \<in> env_constants (heap s a)" and v: "env_values (heap s a) name = Some v"
      have "name \<in> env_constants (heap s1 a)" using n c1 by (rule subsetD[rotated])
      then show "env_values (heap s2 a) name = Some v" using v1[OF n v] by (rule v2)
    qed
  qed
  have o: "\<exists>ys. output s2 = output s @ ys"
    using assms unfolding extends_def by auto
  show ?thesis
    unfolding extends_def using h o assms by (simp add: extends_def)
qed

definition ext_result :: "Interpreter \<Rightarrow> 'a result \<Rightarrow> bool" where
  "ext_result s r = (case r of None \<Rightarrow> True | Some (c, s') \<Rightarrow> extends s s')"

lemma ext_result_simps [simp]:
  "ext_result s None" "ext_result s (Some (c, s')) = extends s s'"
  by (simp_all add: ext_result_def)

lemma ext_result_trans: "extends s s1 \<Longrightarrow> ext_result s1 r \<Longrightarrow> ext_result s r"
  by (cases r) (auto intro: extends_trans)

lemma ext_andThen:
  "ext_result s r \<Longrightarrow> (\<And>x s1. ext_result s1 (k x s1)) \<Longrightarrow> ext_result s (andThen r k)"
  apply (cases r)
   apply simp
  subgoal for a
    apply (cases a)
    subgoal for c s1
      by (cases c) (auto intro: ext_result_trans)
    done
  done

lemma ext_define: "ext_result s (Environment_define a name v k s)"
  by (auto simp: Environment_define_def Let_def extends_def)

lemma ext_get: "ext_result s (Environment_get n a name s)"
  by (induction n arbitrary: a) (auto split: option.splits)

lemma ext_assign: "ext_result s (Environment_assign n a name v s)"
  by (induction n arbitrary: a) (auto simp: Let_def extends_def split: option.splits)

lemma ext_forEach: "(\<And>x s. ext_result s (f x s)) \<Longrightarrow> ext_result s (forEach f xs s)"
  by (induction xs arbitrary: s) (auto intro!: ext_andThen)

lemma ext_mapEach: "(\<And>x s. ext_result s (f x s)) \<Longrightarrow> ext_result s (mapEach f xs s)"
  by (induction xs arbitrary: s) (auto intro!: ext_andThen)

lemma ext_bind_parameters: "ext_result s (bind_parameters ps as s)"
  by (induction ps as s rule: bind_parameters.induct) (auto intro!: ext_andThen ext_define)

lemma extends_environment [simp]: "extends s (s'\<lparr>environment := e\<rparr>) = extends s s'"
  by (simp add: extends_def)

lemma extends_environment_left [simp]: "extends (s\<lparr>environment := e\<rparr>) s' = extends s s'"
  by (simp add: extends_def)

lemma ext_result_environment_left [simp]: "ext_result (s\<lparr>environment := e\<rparr>) r = ext_result s r"
  by (cases r) auto

lemma ext_finally: "ext_result s r \<Longrightarrow> ext_result s (finally_restore p r)"
  by (cases r) (auto simp: finally_restore_def)

lemma extends_new_Environment: "extends s (snd (new_Environment p s))"
  by (auto simp: new_Environment_def extends_def)


lemma ext_completed: "ext_result s (completed r s)"
  by (cases r) (simp_all add: completed_def)

lemma ext_visitBinaryExpression:
  "(\<And>e s. ext_result s (ve e s)) \<Longrightarrow> ext_result s (visitBinaryExpression ve l op r s)"
  unfolding visitBinaryExpression_def by (intro ext_andThen ext_completed)

lemma ext_visitUnaryExpression:
  "(\<And>e s. ext_result s (ve e s)) \<Longrightarrow> ext_result s (visitUnaryExpression ve op e s)"
  unfolding visitUnaryExpression_def
  by (intro ext_andThen) (auto split: RuntimeValue.splits bool.splits)

lemma ext_visitInputStatement: "ext_result s (visitInputStatement p s)"
  by (auto simp: visitInputStatement_def Let_def split: option.splits)

lemma ext_visitLiteral: "ext_result s (visitLiteral l s)"
  by (simp add: visitLiteral_def)

lemma extends_alloc_env:
  "extends s (s\<lparr>heap := (heap s)(allocated s := e), allocated := Suc (allocated s),
               environment := x\<rparr>)"
  by (auto simp: extends_def)

lemma ext_call_body:
  assumes "\<And>x s. ext_result s (vs x s)"
  shows "ext_result s3
           (case forEach vs body s3 of
              None \<Rightarrow> None
            | Some (Normal _, s4) \<Rightarrow> Some (Normal (BooleanV False), s4)
            | Some (Throw (ReturnException v), s4) \<Rightarrow> Some (Normal v, s4)
            | Some (Throw error, s4) \<Rightarrow> Some (Throw error, s4))"
  using ext_forEach[of vs s3 body, OF assms]
  by (auto split: option.splits Completion.splits Thrown.splits)

lemma ext_visitCallExpression:
  assumes ve: "\<And>e s. ext_result s (ve e s)" and vs: "\<And>x s. ext_result s (vs x s)"
  shows "ext_result s (visitCallExpression n ve vs callee args s)"
proof (cases "callee = Some ''range''")
  case True
  then show ?thesis
    unfolding visitCallExpression_def
    by (auto intro!: ext_andThen ve split: list.splits RuntimeValue.splits)
next
  case False
  have body: "ext_result s1
      (let previous = environment s1;
           (fresh, s1a) = new_Environment (Some (fn_closure func)) s1;
           s2 = s1a\<lparr>environment := fresh\<rparr>
       in andThen (bind_parameters (fn_parameters func) as s2) (\<lambda>_ s3.
            finally_restore previous
              (case forEach vs (fn_body func) s3 of
                 None \<Rightarrow> None
               | Some (Normal _, s4) \<Rightarrow> Some (Normal (BooleanV False), s4)
               | Some (Throw (ReturnException v), s4) \<Rightarrow> Some (Normal v, s4)
               | Some (Throw error, s4) \<Rightarrow> Some (Throw error, s4))))" for s1 func as
    unfolding Let_def new_Environment_def prod.case
    apply (rule ext_result_trans[OF extends_alloc_env[where s=s1 and x="allocated s1"]])
    apply (simp only: Suc_eq_plus1[symmetric])
    apply (rule ext_andThen[OF ext_bind_parameters])
    apply (rule ext_finally)
    apply (rule ext_call_body[OF vs])
    done
  show ?thesis
    unfolding visitCallExpression_def
    using False
    apply (simp only: if_False)
    apply (rule ext_andThen)
     apply (auto intro: ext_get split: option.splits)[1]
    subgoal for x s1
      apply (cases x)
          apply simp_all
      apply (rule ext_andThen[OF ext_mapEach[of ve, OF ve]])
      subgoal for func as s2
        using body[of s2 func as] by simp
      done
    done
qed

lemma ext_visitVariableDeclaration:
  "(\<And>e s. ext_result s (ve e s)) \<Longrightarrow> ext_result s (visitVariableDeclaration ve i e c s)"
  unfolding visitVariableDeclaration_def by (intro ext_andThen ext_define)

lemma ext_visitAssignment:
  "(\<And>e s. ext_result s (ve e s)) \<Longrightarrow> ext_result s (visitAssignment n ve i e s)"
  unfolding visitAssignment_def by (intro ext_andThen ext_assign)

lemma ext_visitIfStatement:
  "(\<And>e s. ext_result s (ve e s)) \<Longrightarrow> (\<And>x s. ext_result s (vs x s))
     \<Longrightarrow> ext_result s (visitIfStatement ve vs c t e s)"
  unfolding visitIfStatement_def
  by (intro ext_andThen) (auto intro: ext_forEach split: option.splits)

lemma ext_visitWhileLoop:
  assumes ve: "\<And>e s. ext_result s (ve e s)" and vs: "\<And>x s. ext_result s (vs x s)"
  shows "ext_result s (visitWhileLoop n ve vs c b s)"
proof (induction n arbitrary: s)
  case 0
  show ?case by simp
next
  case (Suc n)
  have step: "ext_result s1
      (case forEach vs b s1 of
         None \<Rightarrow> None
       | Some (Normal _, s') \<Rightarrow> visitWhileLoop n ve vs c b s'
       | Some (Throw (ReturnException v), s') \<Rightarrow> Some (Throw (ReturnException v), s')
       | Some (Throw _, s') \<Rightarrow> Some (Normal (), s'))" for s1
    using ext_forEach[of vs s1 b, OF vs] Suc.IH
    by (auto split: option.splits Completion.splits Thrown.splits intro: ext_result_trans)
  show ?case
    apply (simp only: visitWhileLoop.simps)
    apply (rule ext_andThen[OF ve])
    using step by simp
qed

lemma ext_for_iterations:
  assumes vs: "\<And>x s. ext_result s (vs x s)"
  shows "ext_result s (for_iterations n vs var b bound i s)"
proof (induction n arbitrary: s i)
  case 0
  show ?case by simp
next
  case (Suc n)
  show ?case
    apply (simp only: for_iterations.simps)
    apply (cases "num_less (Num (real i)) bound")
     apply (simp only: if_True)
     apply (rule ext_andThen[OF ext_define])
     apply (rule ext_andThen[OF ext_forEach[of vs, OF vs]])
     apply (rule Suc.IH)
    apply simp
    done
qed

lemma ext_visitForLoop:
  assumes ve: "\<And>e s. ext_result s (ve e s)" and vs: "\<And>x s. ext_result s (vs x s)"
  shows "ext_result s (visitForLoop n ve vs var it b s)"
  unfolding visitForLoop_def
  apply (rule ext_andThen[OF ve])
  subgoal for x s1
    apply (cases x)
        apply simp_all
    unfolding Let_def new_Environment_def prod.case
    apply (rule ext_finally)
    apply (rule ext_result_trans[OF extends_alloc_env[where s=s1 and x="allocated s1"]])
    apply (simp only: Suc_eq_plus1[symmetric])
    apply (rule ext_for_iterations[OF vs])
    done
  done

lemma ext_visitFunctionDeclaration: "ext_result s (visitFunctionDeclaration n ps b s)"
  unfolding visitFunctionDeclaration_def by (rule ext_define)

lemma ext_visitReturnStatement:
  "(\<And>e s. ext_result s (ve e s)) \<Longrightarrow> ext_result s (visitReturnStatement ve e s)"
  unfolding visitReturnStatement_def
  by (intro ext_andThen) (auto split: option.splits)

lemma extends_output [simp]: "extends s (s\<lparr>output := output s @ ys\<rparr>)"
  by (simp add: extends_def)

lemma ext_visitPrintStatement:
  "(\<And>e s. ext_result s (ve e s)) \<Longrightarrow> ext_result s (visitPrintStatement ve e s)"
  unfolding visitPrintStatement_def
  by (intro ext_andThen) auto

lemma ext_visit:
  "(\<forall>st s. ext_result s (visitStatement n st s)) \<and> (\<forall>e s. ext_result s (visitExpression n e s))"
proof (induction n)
  case 0
  show ?case by simp
next
  case (Suc n)
  then have vs: "\<And>st s. ext_result s (visitStatement n st s)"
    and ve: "\<And>e s. ext_result s (visitExpression n e s)" by simp_all
  have a: "ext_result s (visitStatement (Suc n) st s)" for st s
    by (cases st)
       (simp_all add: ext_visitVariableDeclaration ext_visitAssignment ext_visitIfStatement
          ext_visitWhileLoop ext_visitForLoop ext_visitFunctionDeclaration
          ext_visitReturnStatement ext_visitPrintStatement ext_andThen vs ve)
  have b: "ext_result s (visitExpression (Suc n) e s)" for e s
    by (cases e)
       (simp_all add: ext_visitBinaryExpression ext_visitUnaryExpression
          ext_visitCallExpression ext_visitInputStatement ext_visitLiteral
          visitIdentifier_def ext_get vs ve)
  show ?case using a b by simp
qed

lemma visitStatement_extends: "visitStatement n st s = Some (r, s') \<Longrightarrow> extends s s'"
  using ext_visit[of n] by (auto simp: ext_result_def split: option.splits dest!: spec[of _ st] spec[of _ s])

lemma visitExpression_extends: "visitExpression n e s = Some (r, s') \<Longrightarrow> extends s s'"
  using ext_visit[of n] by (auto simp: ext_result_def split: option.splits dest!: spec[of _ e] spec[of _ s])

lemma forEach_visitStatement_extends:
  "forEach (visitStatement n) sts s = Some (r, s') \<Longrightarrow> extends s s'"
  using ext_forEach[of "visitStatement n" s sts] ext_visit[of n] by auto

section \<open>Errors at the top of a program\<close>

lemma forEach_append_Normal:
  "forEach f xs s = Some (Normal (), s1) \<Longrightarrow> forEach f (xs @ ys) s = forEach f ys s1"
proof (induction xs arbitrary: s)
  case Nil
  then show ?case by simp
next
  case (Cons x xs)
  show ?case
  proof (cases "f x s")
    case None
    then show ?thesis using Cons.prems by simp
  next
    case (Some a)
    obtain c s' where a: "a = (c, s')" by (cases a)
    show ?thesis
    proof (cases c)
      case (Normal u)
      then show ?thesis using Cons Some a by simp
    next
      case (Throw e)
      then show ?thesis using Cons.prems Some a by simp
    qed
  qed
qed

lemma forEach_Cons_Throw:
  "f x s = Some (Throw e, s') \<Longrightarrow> forEach f (x # xs) s = Some (Throw e, s')"
  by simp

lemma interpret_top_level_throw:
  assumes pre: "forEach (visitStatement n) pre (s0\<lparr>output := []\<rparr>) = Some (Normal (), s1)"
    and st: "visitStatement n st s1 = Some (Throw e, s2)"
  shows "Interpreter_interpret n (Program (pre @ st # post)) s0
           = Some (\<lparr>res_output = output s2, res_error = Some (error_text e)\<rparr>, s2)"
  using forEach_append_Normal[OF pre, of "st # post"] st
  by (simp add: Interpreter_interpret_def visitProgram_def)

lemma interpret_prefix_normal:
  assumes pre: "forEach (visitStatement n) pre (s0\<lparr>output := []\<rparr>) = Some (Normal (), s1)"
  shows "Interpreter_interpret n (Program pre) s0
           = Some (\<lparr>res_output = output s1, res_error = None\<rparr>, s1)"
  using pre by (simp add: Interpreter_interpret_def visitProgram_def)

subsection \<open>The return signal on its way out\<close>

text \<open>
  The state in which the body of a for loop runs for the first time: the loop's own
  environment, a child of the current one, with the loop variable bound to 0.
\<close>

definition first_iteration :: "string \<Rightarrow> Interpreter \<Rightarrow> Interpreter" where
  "first_iteration variable s =
     s\<lparr>heap := (heap s)(allocated s :=
          \<lparr>env_values = [variable \<mapsto> NumberV (Num 0)], env_constants = {},
           env_parent = Some (environment s)\<rparr>),
       allocated := allocated s + 1,
       environment := allocated s\<rparr>"

lemma return_statement_throws:
  "visitStatement (Suc n) (ReturnStatement None) s
     = Some (Throw (ReturnException (BooleanV False)), s)"
  "visitExpression n e s = Some (Normal v, s') \<Longrightarrow>
     visitStatement (Suc n) (ReturnStatement (Some e)) s = Some (Throw (ReturnException v), s')"
  by (simp_all add: visitReturnStatement_def)

lemma forEach_throw_inside:
  "forEach f xs s = Some (Normal (), s1) \<Longrightarrow> f x s1 = Some (Throw t, s2) \<Longrightarrow>
     forEach f (xs @ x # ys) s = Some (Throw t, s2)"
  using forEach_append_Normal[of f xs s s1 "x # ys"] by simp

lemma if_statement_throws:
  "visitExpression n c s = Some (Normal cv, s1) \<Longrightarrow>
   forEach (visitStatement n)
      (if isTruthy cv then thenBranch else (case elseBranch of Some b \<Rightarrow> b | None \<Rightarrow> [])) s1
     = Some (Throw t, s2) \<Longrightarrow>
   visitStatement (Suc n) (IfStatement c thenBranch elseBranch) s = Some (Throw t, s2)"
  by (auto simp: visitIfStatement_def split: if_splits option.splits)

lemma while_statement_returns:
  assumes c: "visitExpression n c s = Some (Normal cv, s1)" and t: "isTruthy cv"
    and b: "forEach (visitStatement n) body s1 = Some (Throw (ReturnException v), s2)"
  shows "visitStatement (Suc n) (WhileLoop c body) s = Some (Throw (ReturnException v), s2)"
proof (cases n)
  case 0
  then show ?thesis using c by simp
next
  case (Suc k)
  then show ?thesis using c t b by simp
qed

lemma forEach_throw_fuel:
  "forEach (visitStatement n) body s = Some (Throw t, s') \<Longrightarrow> \<exists>k. n = Suc k"
  by (cases n; cases body) simp_all

lemma for_statement_throws:
  assumes it: "visitExpression n iterable s = Some (Normal (RangeV bound), s1)"
    and pos: "num_less (Num 0) bound"
    and b: "forEach (visitStatement n) body (first_iteration variable s1) = Some (Throw t, s2)"
  shows "visitStatement (Suc n) (ForLoop variable iterable body) s
           = Some (Throw t, s2\<lparr>environment := environment s1\<rparr>)"
proof -
  obtain k where k: "n = Suc k" using forEach_throw_fuel[OF b] by blast
  have d: "Environment_define (allocated s1) variable (NumberV (Num 0)) False
             (s1\<lparr>heap := (heap s1)(allocated s1 :=
                     \<lparr>env_values = Map.empty, env_constants = {},
                      env_parent = Some (environment s1)\<rparr>),
                  allocated := allocated s1 + 1, environment := allocated s1\<rparr>)
           = Some (Normal (), first_iteration variable s1)"
    by (simp add: Environment_define_def first_iteration_def)
  show ?thesis
    using it pos b d
    by (simp add: k visitForLoop_def new_Environment_def finally_restore_def Let_def)
qed

text \<open>
  C9.  The return signal carries no message, so the \<^verbatim>\<open>catch\<close> of \<^verbatim>\<open>interpret\<close> turns it
  into the empty string.  A return statement always throws the signal: without a value at
  once, with a value as soon as the value's expression has been evaluated.  So when a
  return statement is a statement of the program itself, reached after the statements
  before it have completed, \<^verbatim>\<open>interpret\<close> returns a result whose error is present and
  empty, whatever statements follow, and whose output is the buffer at the return: the
  lines of the statements before it (what the program up to there alone would return),
  followed by anything the evaluation of the return's own value printed.  The same holds
  for a return statement inside a block, an if statement, a while loop or a for loop of
  the program: the signal passes the rest of a block, the if statement, the while loop and
  the for loop (which puts the environment back); and whenever the signal leaves the
  program's statements, \<^verbatim>\<open>interpret\<close> returns the buffer and the empty error.
\<close>

theorem C9_top_level_return:
  "error_text (ReturnException v) = []
   \<and> visitStatement (Suc n) (ReturnStatement None) s1
       = Some (Throw (ReturnException (BooleanV False)), s1)
   \<and> (visitExpression n e s1 = Some (Normal v, s2) \<longrightarrow>
        visitStatement (Suc n) (ReturnStatement (Some e)) s1
          = Some (Throw (ReturnException v), s2))
   \<and> (forEach (visitStatement (Suc n)) pre (s0\<lparr>output := []\<rparr>) = Some (Normal (), s1) \<longrightarrow>
        Interpreter_interpret (Suc n) (Program pre) s0
          = Some (\<lparr>res_output = output s1, res_error = None\<rparr>, s1)
        \<and> Interpreter_interpret (Suc n) (Program (pre @ ReturnStatement None # post)) s0
          = Some (\<lparr>res_output = output s1, res_error = Some []\<rparr>, s1)
        \<and> (visitExpression n e s1 = Some (Normal v, s2) \<longrightarrow>
             Interpreter_interpret (Suc n) (Program (pre @ ReturnStatement (Some e) # post)) s0
               = Some (\<lparr>res_output = output s2, res_error = Some []\<rparr>, s2)
             \<and> (\<exists>ys. output s2 = output s1 @ ys)))
   \<and> (visitProgram m p (t0\<lparr>output := []\<rparr>) = Some (Throw (ReturnException v), t) \<longrightarrow>
        Interpreter_interpret m p t0 = Some (\<lparr>res_output = output t, res_error = Some []\<rparr>, t))
   \<and> (forEach f xs a = Some (Normal (), a1) \<longrightarrow> f x a1 = Some (Throw (ReturnException v), a2) \<longrightarrow>
        forEach f (xs @ x # ys) a = Some (Throw (ReturnException v), a2))
   \<and> (visitExpression k c a = Some (Normal cv, a1) \<longrightarrow>
        forEach (visitStatement k)
           (if isTruthy cv then thenBranch else (case elseBranch of Some b \<Rightarrow> b | None \<Rightarrow> [])) a1
          = Some (Throw (ReturnException v), a2) \<longrightarrow>
        visitStatement (Suc k) (IfStatement c thenBranch elseBranch) a
          = Some (Throw (ReturnException v), a2))
   \<and> (visitExpression k c a = Some (Normal cv, a1) \<longrightarrow> isTruthy cv \<longrightarrow>
        forEach (visitStatement k) body a1 = Some (Throw (ReturnException v), a2) \<longrightarrow>
        visitStatement (Suc k) (WhileLoop c body) a = Some (Throw (ReturnException v), a2))
   \<and> (visitExpression k iterable a = Some (Normal (RangeV bound), a1) \<longrightarrow>
        num_less (Num 0) bound \<longrightarrow>
        forEach (visitStatement k) body (first_iteration variable a1)
          = Some (Throw (ReturnException v), a2) \<longrightarrow>
        visitStatement (Suc k) (ForLoop variable iterable body) a
          = Some (Throw (ReturnException v), a2\<lparr>environment := environment a1\<rparr>))"
proof (intro conjI impI)
  show "error_text (ReturnException v) = []" by (simp add: error_text_def)
  show "visitStatement (Suc n) (ReturnStatement None) s1
       = Some (Throw (ReturnException (BooleanV False)), s1)"
    by (rule return_statement_throws)
next
  assume "visitExpression n e s1 = Some (Normal v, s2)"
  then show "visitStatement (Suc n) (ReturnStatement (Some e)) s1
          = Some (Throw (ReturnException v), s2)"
    by (rule return_statement_throws)
next
  assume pre: "forEach (visitStatement (Suc n)) pre (s0\<lparr>output := []\<rparr>) = Some (Normal (), s1)"
  show "Interpreter_interpret (Suc n) (Program pre) s0
          = Some (\<lparr>res_output = output s1, res_error = None\<rparr>, s1)"
    by (rule interpret_prefix_normal[OF pre])
  show "Interpreter_interpret (Suc n) (Program (pre @ ReturnStatement None # post)) s0
          = Some (\<lparr>res_output = output s1, res_error = Some []\<rparr>, s1)"
    using interpret_top_level_throw[OF pre return_statement_throws(1)]
    by (simp add: error_text_def)
next
  assume pre: "forEach (visitStatement (Suc n)) pre (s0\<lparr>output := []\<rparr>) = Some (Normal (), s1)"
    and e: "visitExpression n e s1 = Some (Normal v, s2)"
  show "Interpreter_interpret (Suc n) (Program (pre @ ReturnStatement (Some e) # post)) s0
               = Some (\<lparr>res_output = output s2, res_error = Some []\<rparr>, s2)"
    using interpret_top_level_throw[OF pre return_statement_throws(2)[OF e]]
    by (simp add: error_text_def)
  show "\<exists>ys. output s2 = output s1 @ ys"
    using visitExpression_extends[OF e] by (simp add: extends_def)
next
  assume "visitProgram m p (t0\<lparr>output := []\<rparr>) = Some (Throw (ReturnException v), t)"
  then show "Interpreter_interpret m p t0
               = Some (\<lparr>res_output = output t, res_error = Some []\<rparr>, t)"
    by (simp add: Interpreter_interpret_def error_text_def)
next
  assume "forEach f xs a = Some (Normal (), a1)" "f x a1 = Some (Throw (ReturnException v), a2)"
  then show "forEach f (xs @ x # ys) a = Some (Throw (ReturnException v), a2)"
    by (rule forEach_throw_inside)
next
  assume "visitExpression k c a = Some (Normal cv, a1)"
    "forEach (visitStatement k)
           (if isTruthy cv then thenBranch else (case elseBranch of Some b \<Rightarrow> b | None \<Rightarrow> [])) a1
          = Some (Throw (ReturnException v), a2)"
  then show "visitStatement (Suc k) (IfStatement c thenBranch elseBranch) a
          = Some (Throw (ReturnException v), a2)"
    by (rule if_statement_throws)
next
  assume "visitExpression k c a = Some (Normal cv, a1)" "isTruthy cv"
    "forEach (visitStatement k) body a1 = Some (Throw (ReturnException v), a2)"
  then show "visitStatement (Suc k) (WhileLoop c body) a = Some (Throw (ReturnException v), a2)"
    by (rule while_statement_returns)
next
  assume "visitExpression k iterable a = Some (Normal (RangeV bound), a1)"
    "num_less (Num 0) bound"
    "forEach (visitStatement k) body (first_iteration variable a1)
          = Some (Throw (ReturnException v), a2)"
  then show "visitStatement (Suc k) (ForLoop variable iterable body) a
          = Some (Throw (ReturnException v), a2\<lparr>environment := environment a1\<rparr>)"
    by (rule for_statement_throws)
qed

definition return_program_pre :: "Statement list" where
  "return_program_pre = [PrintStatement (Literal (LNumber (Num 1)))]"

definition return_program_post :: "Statement list" where
  "return_program_post = [PrintStatement (Literal (LNumber (Num 2)))]"

definition nested_return_program :: Program where
  "nested_return_program =
     Program [PrintStatement (Literal (LNumber (Num 1))),
              IfStatement (Literal (LBoolean True))
                [ReturnStatement None, PrintStatement (Literal (LNumber (Num 3)))] None,
              PrintStatement (Literal (LNumber (Num 4)))]"

definition printed_one :: Interpreter where
  "printed_one = fresh_interpreter\<lparr>output := [''1'']\<rparr>"

lemma return_pre_runs:
  "forEach (visitStatement (Suc 4)) return_program_pre (fresh_interpreter\<lparr>output := []\<rparr>)
     = Some (Normal (), printed_one)"
  by (simp add: return_program_pre_def printed_one_def fresh_interpreter_def evaluator_eval)

lemma five_at_printed_one:
  "visitExpression 4 (Literal (LNumber (Num 5))) printed_one
     = Some (Normal (NumberV (Num 5)), printed_one)"
  by (simp add: evaluator_eval)

lemma nested_return_leaves:
  "visitProgram 5 nested_return_program (fresh_interpreter\<lparr>output := []\<rparr>)
     = Some (Throw (ReturnException (BooleanV False)), printed_one)"
  by (simp add: nested_return_program_def printed_one_def fresh_interpreter_def evaluator_eval)

theorem C9_top_level_return_witness:
  "Interpreter_interpret (Suc 4)
      (Program (return_program_pre @ ReturnStatement (Some (Literal (LNumber (Num 5))))
                  # return_program_post))
      fresh_interpreter
     = Some (\<lparr>res_output = [''1''], res_error = Some []\<rparr>, printed_one)
   \<and> Interpreter_interpret (Suc 4)
      (Program (return_program_pre @ ReturnStatement None # return_program_post))
      fresh_interpreter
     = Some (\<lparr>res_output = [''1''], res_error = Some []\<rparr>, printed_one)
   \<and> Interpreter_interpret 5 nested_return_program fresh_interpreter
     = Some (\<lparr>res_output = [''1''], res_error = Some []\<rparr>, printed_one)"
proof -
  note t = C9_top_level_return [where n=4 and pre=return_program_pre
      and ?s0.0=fresh_interpreter and ?s1.0=printed_one and ?s2.0=printed_one
      and e="Literal (LNumber (Num 5))" and v="NumberV (Num 5)" and post=return_program_post]
  note top = t [THEN conjunct2, THEN conjunct2, THEN conjunct2, THEN conjunct1, rule_format,
      OF return_pre_runs]
  have o: "output printed_one = [''1'']" by (simp add: printed_one_def)
  have a: "Interpreter_interpret (Suc 4)
      (Program (return_program_pre @ ReturnStatement (Some (Literal (LNumber (Num 5))))
                  # return_program_post))
      fresh_interpreter
     = Some (\<lparr>res_output = [''1''], res_error = Some []\<rparr>, printed_one)"
    using top [THEN conjunct2, THEN conjunct2, rule_format, OF five_at_printed_one,
               THEN conjunct1]
    unfolding o .
  have b: "Interpreter_interpret (Suc 4)
      (Program (return_program_pre @ ReturnStatement None # return_program_post))
      fresh_interpreter
     = Some (\<lparr>res_output = [''1''], res_error = Some []\<rparr>, printed_one)"
    using top [THEN conjunct2, THEN conjunct1] unfolding o .
  have c: "Interpreter_interpret 5 nested_return_program fresh_interpreter
     = Some (\<lparr>res_output = [''1''], res_error = Some []\<rparr>, printed_one)"
    using C9_top_level_return [where m=5 and p=nested_return_program
        and ?t0.0=fresh_interpreter and v="BooleanV False" and t=printed_one,
        THEN conjunct2, THEN conjunct2, THEN conjunct2, THEN conjunct2, THEN conjunct1,
        rule_format, OF nested_return_leaves]
    unfolding o .
  show ?thesis using a b c by (intro conjI)
qed

section \<open>Calling interpret again\<close>

lemma interpret_clears_output:
  "Interpreter_interpret n p (s\<lparr>output := junk\<rparr>) = Interpreter_interpret n p s"
  by (simp add: Interpreter_interpret_def)

lemma visitProgram_extends: "visitProgram n p s = Some (r, s') \<Longrightarrow> extends s s'"
  by (cases p) (auto simp: visitProgram_def dest: forEach_visitStatement_extends)

lemma interpret_extends:
  assumes "Interpreter_interpret n p s0 = Some (r, s1)"
  shows "extends (s0\<lparr>output := []\<rparr>) s1 \<and> res_output r = output s1"
  using assms visitProgram_extends[of n p "s0\<lparr>output := []\<rparr>"]
  by (auto simp: Interpreter_interpret_def split: option.splits prod.splits Completion.splits)

text \<open>
  C10.  A call of \<^verbatim>\<open>interpret\<close> does not depend on the output buffer it finds: it runs the
  program from the given interpreter with the buffer emptied, and the output it returns is
  the buffer at the end of that run.  Nothing else is reset: the global environment in which
  the run starts is the one the interpreter holds, with the bindings the earlier calls left
  in it; and a call leaves the interpreter with the same global environment and input
  provider.
\<close>

theorem C10_output_cleared_globals_kept:
  "Interpreter_interpret m q (t\<lparr>output := junk\<rparr>) = Interpreter_interpret m q t
   \<and> Interpreter_interpret m q t
       = (case visitProgram m q (t\<lparr>output := []\<rparr>) of
            None \<Rightarrow> None
          | Some (Normal u, s') \<Rightarrow> Some (\<lparr>res_output = output s', res_error = None\<rparr>, s')
          | Some (Throw error, s') \<Rightarrow>
              Some (\<lparr>res_output = output s', res_error = Some (error_text error)\<rparr>, s'))
   \<and> heap (t\<lparr>output := []\<rparr>) (globals (t\<lparr>output := []\<rparr>)) = heap t (globals t)
   \<and> (Interpreter_interpret n p s = Some (r, t) \<longrightarrow>
        res_output r = output t \<and> globals t = globals s
        \<and> inputCallback t = inputCallback s)"
proof (intro conjI impI)
  show "Interpreter_interpret m q (t\<lparr>output := junk\<rparr>) = Interpreter_interpret m q t"
    by (rule interpret_clears_output)
  show "Interpreter_interpret m q t
       = (case visitProgram m q (t\<lparr>output := []\<rparr>) of
            None \<Rightarrow> None
          | Some (Normal u, s') \<Rightarrow> Some (\<lparr>res_output = output s', res_error = None\<rparr>, s')
          | Some (Throw error, s') \<Rightarrow>
              Some (\<lparr>res_output = output s', res_error = Some (error_text error)\<rparr>, s'))"
    by (simp add: Interpreter_interpret_def)
  show "heap (t\<lparr>output := []\<rparr>) (globals (t\<lparr>output := []\<rparr>)) = heap t (globals t)"
    by simp
next
  assume a: "Interpreter_interpret n p s = Some (r, t)"
  from interpret_extends[OF a]
  show "res_output r = output t" "globals t = globals s" "inputCallback t = inputCallback s"
    by (simp_all add: extends_def)
qed

definition repl_first :: Program where
  "repl_first = Program [VariableDeclaration ''x'' (Literal (LNumber (Num 5))) False,
                         PrintStatement (Identifier ''x'')]"

definition repl_second :: Program where
  "repl_second = Program [PrintStatement (BinaryExpression (Identifier ''x'') ''+''
                            (Literal (LNumber (Num 1))))]"

definition after_first :: Interpreter where
  "after_first =
     fresh_interpreter
       \<lparr>heap := (heap fresh_interpreter)(0 :=
           (heap fresh_interpreter 0)
             \<lparr>env_values := (env_values (heap fresh_interpreter 0))(''x'' \<mapsto> NumberV (Num 5))\<rparr>),
        output := [''5'']\<rparr>"

lemma repl_first_run:
  "Interpreter_interpret 5 repl_first fresh_interpreter
     = Some (\<lparr>res_output = [''5''], res_error = None\<rparr>, after_first)"
  by (simp add: repl_first_def after_first_def fresh_interpreter_def evaluator_eval)

lemma repl_second_run:
  "\<exists>s. Interpreter_interpret 5 repl_second (after_first\<lparr>output := []\<rparr>)
     = Some (\<lparr>res_output = [''6''], res_error = None\<rparr>, s)"
  by (simp add: repl_second_def after_first_def fresh_interpreter_def evaluator_eval)

theorem C10_output_cleared_globals_kept_witness:
  "Interpreter_interpret 5 repl_first fresh_interpreter
     = Some (\<lparr>res_output = [''5''], res_error = None\<rparr>, after_first)
   \<and> globals after_first = globals fresh_interpreter
   \<and> output after_first = [''5'']
   \<and> (\<exists>s. Interpreter_interpret 5 repl_second after_first
            = Some (\<lparr>res_output = [''6''], res_error = None\<rparr>, s))"
proof -
  note t = C10_output_cleared_globals_kept [where m=5 and q=repl_second and t=after_first
      and junk="[]" and n=5 and p=repl_first and s=fresh_interpreter
      and r="\<lparr>res_output = [''5''], res_error = None\<rparr>"]
  from t [THEN conjunct2, THEN conjunct2, THEN conjunct2, rule_format, OF repl_first_run]
  have g: "globals after_first = globals fresh_interpreter"
    and out: "output after_first = [''5'']" by simp_all
  have c: "Interpreter_interpret 5 repl_second (after_first\<lparr>output := []\<rparr>)
             = Interpreter_interpret 5 repl_second after_first"
    using t [THEN conjunct1] .
  show ?thesis using repl_first_run g out repl_second_run c by simp
qed

section \<open>A program that does not terminate\<close>

definition forever_source :: string where
  "forever_source = ''jab tak sach:'' @ LF @ ''    sach''"

definition forever_program :: Program where
  "forever_program =
     Program [WhileLoop (Literal (LBoolean True)) [ExpressionStatement (Literal (LBoolean True))]]"

definition forever_tokens :: "Token list" where
  "forever_tokens =
    [\<lparr>tok_type = JAB_TAK, tok_value = ''jab tak'', tok_line = 1, tok_column = 1\<rparr>,
     \<lparr>tok_type = SACH, tok_value = ''sach'', tok_line = 1, tok_column = 9\<rparr>,
     \<lparr>tok_type = COLON, tok_value = '':'', tok_line = 1, tok_column = 13\<rparr>,
     \<lparr>tok_type = NEWLINE, tok_value = LF, tok_line = 1, tok_column = 14\<rparr>,
     \<lparr>tok_type = INDENT, tok_value = ''    '', tok_line = 2, tok_column = 2\<rparr>,
     \<lparr>tok_type = SACH, tok_value = ''sach'', tok_line = 2, tok_column = 6\<rparr>,
     \<lparr>tok_type = DEDENT, tok_value = [], tok_line = 2, tok_column = 10\<rparr>,
     \<lparr>tok_type = EOF, tok_value = [], tok_line = 2, tok_column = 10\<rparr>]"

lemma forever_tokenize: "tokenize forever_source = Inr forever_tokens"
  by code_simp

lemma forever_parse: "parse 20 forever_tokens = Some (Inr forever_program)"
  by (simp add: forever_tokens_def forever_program_def parser_eval)

lemma true_literal_cases:
  "visitExpression m (Literal (LBoolean True)) s = None
   \<or> visitExpression m (Literal (LBoolean True)) s = Some (Normal (BooleanV True), s)"
  by (cases m) (simp_all add: visitLiteral_def)

lemma true_statement_cases:
  "forEach (visitStatement m) [ExpressionStatement (Literal (LBoolean True))] s = None
   \<or> forEach (visitStatement m) [ExpressionStatement (Literal (LBoolean True))] s
       = Some (Normal (), s)"
proof (cases m)
  case 0
  then show ?thesis by simp
next
  case (Suc k)
  then show ?thesis using true_literal_cases[of k s] by auto
qed

lemma forever_loop_never_returns:
  "visitWhileLoop n (visitExpression m) (visitStatement m) (Literal (LBoolean True))
     [ExpressionStatement (Literal (LBoolean True))] s = None"
proof (induction n)
  case 0
  show ?case by simp
next
  case (Suc n)
  show ?case
    using true_literal_cases[of m s] true_statement_cases[of m s] Suc
    by (auto simp: isTruthy_def simp del: forEach.simps)
qed

lemma forever_never_returns: "Interpreter_interpret n forever_program s = None"
proof (cases n)
  case 0
  then show ?thesis
    by (simp add: Interpreter_interpret_def visitProgram_def forever_program_def)
next
  case (Suc k)
  then show ?thesis
    by (simp add: Interpreter_interpret_def visitProgram_def forever_program_def
          forever_loop_never_returns)
qed

subsection \<open>An error inside a while loop\<close>

definition swallow_source :: string where
  "swallow_source = ''jab tak sach:'' @ LF @ ''    likho y''"

definition swallow_tokens :: "Token list" where
  "swallow_tokens =
    [\<lparr>tok_type = JAB_TAK, tok_value = ''jab tak'', tok_line = 1, tok_column = 1\<rparr>,
     \<lparr>tok_type = SACH, tok_value = ''sach'', tok_line = 1, tok_column = 9\<rparr>,
     \<lparr>tok_type = COLON, tok_value = '':'', tok_line = 1, tok_column = 13\<rparr>,
     \<lparr>tok_type = NEWLINE, tok_value = LF, tok_line = 1, tok_column = 14\<rparr>,
     \<lparr>tok_type = INDENT, tok_value = ''    '', tok_line = 2, tok_column = 2\<rparr>,
     \<lparr>tok_type = LIKHO, tok_value = ''likho'', tok_line = 2, tok_column = 6\<rparr>,
     \<lparr>tok_type = IDENTIFIER, tok_value = ''y'', tok_line = 2, tok_column = 12\<rparr>,
     \<lparr>tok_type = DEDENT, tok_value = [], tok_line = 2, tok_column = 13\<rparr>,
     \<lparr>tok_type = EOF, tok_value = [], tok_line = 2, tok_column = 13\<rparr>]"

definition swallow_program :: Program where
  "swallow_program =
     Program [WhileLoop (Literal (LBoolean True)) [PrintStatement (Identifier ''y'')]]"

definition swallow_and_go_on :: Program where
  "swallow_and_go_on =
     Program [PrintStatement (Literal (LString ''before'')),
              WhileLoop (Literal (LBoolean True))
                [PrintStatement (Literal (LString ''in'')),
                 PrintStatement (Identifier ''y''),
                 PrintStatement (Literal (LString ''unreached''))],
              PrintStatement (Literal (LString ''after''))]"

lemma swallow_tokenize: "tokenize swallow_source = Inr swallow_tokens"
  by code_simp

lemma swallow_parse: "parse 20 swallow_tokens = Some (Inr swallow_program)"
  by (simp add: swallow_tokens_def swallow_program_def parser_eval)

lemma swallow_interpret:
  "Interpreter_interpret 20 swallow_program fresh_interpreter
     = Some (\<lparr>res_output = [], res_error = None\<rparr>, fresh_interpreter)"
  by (simp add: swallow_program_def fresh_interpreter_def evaluator_eval)

lemma swallow_run:
  "run_source 20 (\<lambda>r. []) None swallow_source
     = Some (Interpreted \<lparr>res_output = [], res_error = None\<rparr>)"
  using swallow_interpret
  by (simp add: run_source_def swallow_tokenize swallow_parse fresh_interpreter_def)

lemma swallow_and_go_on_interpret:
  "Interpreter_interpret 20 swallow_and_go_on fresh_interpreter
     = Some (\<lparr>res_output = [''before'', ''in'', ''after''], res_error = None\<rparr>,
             fresh_interpreter\<lparr>output := [''before'', ''in'', ''after'']\<rparr>)"
  by (simp add: swallow_and_go_on_def fresh_interpreter_def evaluator_eval)

lemma undefined_y_throws:
  "visitStatement 3 (PrintStatement (Identifier ''y'')) fresh_interpreter
     = Some (Throw (Error (''Undefined variable '' @ [CHR 0x27] @ ''y'' @ [CHR 0x27])),
             fresh_interpreter)"
  by (simp add: fresh_interpreter_def evaluator_eval)

text \<open>
  C1, as stated, fails, in two ways.  \<^verbatim>\<open>interpret\<close> does not return a result for every
  program: the two-line source \<^verbatim>\<open>jab tak sach:\<close> / \<^verbatim>\<open>    sach\<close> parses to a loop whose
  condition is always true and whose body never fails; no depth bound lets \<^verbatim>\<open>interpret\<close>
  return on it.  And not every error raised during evaluation reaches the top of the call:
  in the source \<^verbatim>\<open>jab tak sach:\<close> / \<^verbatim>\<open>    likho y\<close> the body throws
  \<^verbatim>\<open>Undefined variable 'y'\<close>, the loop swallows it, and the result has no error; with
  statements around the loop the run goes on after the error and prints \<^verbatim>\<open>after\<close>.
\<close>

theorem C1_counterexample:
  "tokenize forever_source = Inr forever_tokens
   \<and> parse 20 forever_tokens = Some (Inr forever_program)
   \<and> \<not> (\<exists>n r s. Interpreter_interpret n forever_program fresh_interpreter = Some (r, s))
   \<and> tokenize swallow_source = Inr swallow_tokens
   \<and> parse 20 swallow_tokens
       = Some (Inr (Program [WhileLoop (Literal (LBoolean True))
                               [PrintStatement (Identifier ''y'')]]))
   \<and> visitStatement 3 (PrintStatement (Identifier ''y'')) fresh_interpreter
       = Some (Throw (Error (''Undefined variable '' @ [CHR 0x27] @ ''y'' @ [CHR 0x27])),
               fresh_interpreter)
   \<and> run_source 20 (\<lambda>r. []) None swallow_source
       = Some (Interpreted \<lparr>res_output = [], res_error = None\<rparr>)
   \<and> Interpreter_interpret 20
        (Program [PrintStatement (Literal (LString ''before'')),
                  WhileLoop (Literal (LBoolean True))
                    [PrintStatement (Literal (LString ''in'')),
                     PrintStatement (Identifier ''y''),
                     PrintStatement (Literal (LString ''unreached''))],
                  PrintStatement (Literal (LString ''after''))])
        fresh_interpreter
       = Some (\<lparr>res_output = [''before'', ''in'', ''after''], res_error = None\<rparr>,
               fresh_interpreter\<lparr>output := [''before'', ''in'', ''after'']\<rparr>)"
proof (intro conjI)
  show "tokenize forever_source = Inr forever_tokens" by (rule forever_tokenize)
  show "parse 20 forever_tokens = Some (Inr forever_program)" by (rule forever_parse)
  show "\<not> (\<exists>n r s. Interpreter_interpret n forever_program fresh_interpreter = Some (r, s))"
    by (simp add: forever_never_returns)
  show "tokenize swallow_source = Inr swallow_tokens" by (rule swallow_tokenize)
  show "parse 20 swallow_tokens
       = Some (Inr (Program [WhileLoop (Literal (LBoolean True))
                               [PrintStatement (Identifier ''y'')]]))"
    using swallow_parse by (simp add: swallow_program_def)
  show "visitStatement 3 (PrintStatement (Identifier ''y'')) fresh_interpreter
       = Some (Throw (Error (''Undefined variable '' @ [CHR 0x27] @ ''y'' @ [CHR 0x27])),
               fresh_interpreter)"
    by (rule undefined_y_throws)
  show "run_source 20 (\<lambda>r. []) None swallow_source
       = Some (Interpreted \<lparr>res_output = [], res_error = None\<rparr>)"
    by (rule swallow_run)
  show "Interpreter_interpret 20
        (Program [PrintStatement (Literal (LString ''before'')),
                  WhileLoop (Literal (LBoolean True))
                    [PrintStatement (Literal (LString ''in'')),
                     PrintStatement (Identifier ''y''),
                     PrintStatement (Literal (LString ''unreached''))],
                  PrintStatement (Literal (LString ''after''))])
        fresh_interpreter
       = Some (\<lparr>res_output = [''before'', ''in'', ''after''], res_error = None\<rparr>,
               fresh_interpreter\<lparr>output := [''before'', ''in'', ''after'']\<rparr>)"
    using swallow_and_go_on_interpret by (simp add: swallow_and_go_on_def)
qed

section \<open>Scenario D: errors are caught, output is kept\<close>

definition scenario_D_source :: string where
  "scenario_D_source = ''banao x = 5'' @ LF @ ''likho x / 0''"

definition scenario_D_tokens :: "Token list" where
  "scenario_D_tokens =
    [\<lparr>tok_type = BANAO, tok_value = ''banao'', tok_line = 1, tok_column = 1\<rparr>,
     \<lparr>tok_type = IDENTIFIER, tok_value = ''x'', tok_line = 1, tok_column = 7\<rparr>,
     \<lparr>tok_type = ASSIGN, tok_value = ''='', tok_line = 1, tok_column = 9\<rparr>,
     \<lparr>tok_type = NUMBER, tok_value = ''5'', tok_line = 1, tok_column = 11\<rparr>,
     \<lparr>tok_type = NEWLINE, tok_value = LF, tok_line = 1, tok_column = 12\<rparr>,
     \<lparr>tok_type = LIKHO, tok_value = ''likho'', tok_line = 2, tok_column = 1\<rparr>,
     \<lparr>tok_type = IDENTIFIER, tok_value = ''x'', tok_line = 2, tok_column = 7\<rparr>,
     \<lparr>tok_type = DIVIDE, tok_value = ''/'', tok_line = 2, tok_column = 9\<rparr>,
     \<lparr>tok_type = NUMBER, tok_value = ''0'', tok_line = 2, tok_column = 11\<rparr>,
     \<lparr>tok_type = EOF, tok_value = [], tok_line = 2, tok_column = 12\<rparr>]"

definition scenario_D_pre :: "Statement list" where
  "scenario_D_pre = [VariableDeclaration ''x'' (Literal (LNumber (Num 5))) False]"

definition scenario_D_failing :: Statement where
  "scenario_D_failing =
     PrintStatement (BinaryExpression (Identifier ''x'') ''/'' (Literal (LNumber (Num 0))))"

lemma scenario_D_tokenize: "tokenize scenario_D_source = Inr scenario_D_tokens"
  by code_simp

lemma scenario_D_parse:
  "parse 20 scenario_D_tokens = Some (Inr (Program (scenario_D_pre @ [scenario_D_failing])))"
  by (simp add: scenario_D_tokens_def scenario_D_pre_def scenario_D_failing_def parser_eval)

definition x_is_five :: "(real \<Rightarrow> string) \<Rightarrow> (string \<Rightarrow> string) option \<Rightarrow> Interpreter" where
  "x_is_five ht callback =
     (new_Interpreter ht callback)
       \<lparr>heap := (heap (new_Interpreter ht callback))(0 :=
           (heap (new_Interpreter ht callback) 0)
             \<lparr>env_values := (env_values (heap (new_Interpreter ht callback) 0))
                                (''x'' \<mapsto> NumberV (Num 5))\<rparr>)\<rparr>"

lemma scenario_D_pre_runs:
  "forEach (visitStatement 20) scenario_D_pre ((new_Interpreter ht callback)\<lparr>output := []\<rparr>)
     = Some (Normal (), x_is_five ht callback)"
  by (simp add: scenario_D_pre_def x_is_five_def evaluator_eval)

lemma scenario_D_fails:
  "visitStatement 20 scenario_D_failing (x_is_five ht callback)
     = Some (Throw (Error ''Division by zero''), x_is_five ht callback)"
  by (simp add: scenario_D_failing_def x_is_five_def evaluator_eval)

lemma x_is_five_output: "output (x_is_five ht callback) = []"
  by (simp add: x_is_five_def evaluator_eval)

lemma scenario_D_interpret:
  "Interpreter_interpret 20 (Program (scenario_D_pre @ [scenario_D_failing]))
      (new_Interpreter ht callback)
     = Some (\<lparr>res_output = [], res_error = Some ''Division by zero''\<rparr>, x_is_five ht callback)"
  using interpret_top_level_throw[OF scenario_D_pre_runs scenario_D_fails, of "[]"]
  by (simp add: x_is_five_output error_text_def)

lemma scenario_D_run:
  "run_source 20 ht callback scenario_D_source
     = Some (Interpreted \<lparr>res_output = [], res_error = Some ''Division by zero''\<rparr>)"
  by (simp add: run_source_def scenario_D_tokenize scenario_D_parse scenario_D_interpret)

lemma print_statement_cases:
  "visitExpression n e s = Some (Normal v, s') \<Longrightarrow>
     visitStatement (Suc n) (PrintStatement e) s
       = Some (Normal (), s'\<lparr>output := output s' @ [stringify (host_text s') v]\<rparr>)"
  "visitExpression n e s = Some (Throw t, s') \<Longrightarrow>
     visitStatement (Suc n) (PrintStatement e) s = Some (Throw t, s')"
  by (simp_all add: visitPrintStatement_def)

lemma while_swallows_error:
  assumes c: "ve c s = Some (Normal cv, s1)" and t: "isTruthy cv"
    and b: "forEach vs body s1 = Some (Throw e, s2)" and e: "\<forall>v. e \<noteq> ReturnException v"
  shows "visitWhileLoop (Suc n) ve vs c body s = Some (Normal (), s2)"
  using c t b e by (cases e) simp_all

text \<open>
  C1, amended to the programs whose evaluation terminates and to the errors that leave the
  program's statements.  Whenever the evaluation of the program ends, normally or with
  anything thrown, \<^verbatim>\<open>interpret\<close> returns a result: the output buffer as it stands, and for
  a throw the error's text, which for a plain error is its message.  When the statements before a statement of the program
  complete and that statement throws, the result holds that error, whatever statements
  follow, and its output is the buffer at the throw: the lines of the completed statements
  (the output of the program up to there) followed by the lines printed inside the failing
  statement before it failed.  A print statement adds its line when it completes, and
  nothing when the evaluation of its value throws.  An error that is not the return
  signal, thrown by the body of a while loop, does not leave the loop: the loop ends
  normally at the state of the throw.  Scenario D ends with the error
  \<^verbatim>\<open>Division by zero\<close> and no output.
\<close>

theorem C1_interpret_catches_every_error:
  "(visitProgram n p (s0\<lparr>output := []\<rparr>) = Some (c, s) \<longrightarrow>
      Interpreter_interpret n p s0
        = Some (\<lparr>res_output = output s,
                 res_error = (case c of Normal u \<Rightarrow> None | Throw e \<Rightarrow> Some (error_text e))\<rparr>, s))
   \<and> (forEach (visitStatement n) pre (s0\<lparr>output := []\<rparr>) = Some (Normal (), s1) \<longrightarrow>
      visitStatement n st s1 = Some (Throw e, s2) \<longrightarrow>
        Interpreter_interpret n (Program (pre @ st # post)) s0
          = Some (\<lparr>res_output = output s2, res_error = Some (error_text e)\<rparr>, s2)
        \<and> Interpreter_interpret n (Program pre) s0
          = Some (\<lparr>res_output = output s1, res_error = None\<rparr>, s1)
        \<and> (\<exists>ys. output s2 = output s1 @ ys))
   \<and> (visitExpression k ex a = Some (Normal v, a') \<longrightarrow>
        visitStatement (Suc k) (PrintStatement ex) a
          = Some (Normal (), a'\<lparr>output := output a' @ [stringify (host_text a') v]\<rparr>))
   \<and> (visitExpression k ex a = Some (Throw t, a') \<longrightarrow>
        visitStatement (Suc k) (PrintStatement ex) a = Some (Throw t, a'))
   \<and> (ve condition a = Some (Normal cv, a1) \<longrightarrow> isTruthy cv \<longrightarrow>
        forEach vs body a1 = Some (Throw t, a2) \<longrightarrow> (\<forall>v. t \<noteq> ReturnException v) \<longrightarrow>
        visitWhileLoop (Suc k) ve vs condition body a = Some (Normal (), a2))
   \<and> error_text (Error message) = message
   \<and> run_source 20 ht callback scenario_D_source
       = Some (Interpreted \<lparr>res_output = [], res_error = Some ''Division by zero''\<rparr>)"
proof (intro conjI impI)
  assume "visitProgram n p (s0\<lparr>output := []\<rparr>) = Some (c, s)"
  then show "Interpreter_interpret n p s0
        = Some (\<lparr>res_output = output s,
                 res_error = (case c of Normal u \<Rightarrow> None | Throw e \<Rightarrow> Some (error_text e))\<rparr>, s)"
    by (cases c) (simp_all add: Interpreter_interpret_def)
next
  assume pre: "forEach (visitStatement n) pre (s0\<lparr>output := []\<rparr>) = Some (Normal (), s1)"
    and st: "visitStatement n st s1 = Some (Throw e, s2)"
  show "Interpreter_interpret n (Program (pre @ st # post)) s0
          = Some (\<lparr>res_output = output s2, res_error = Some (error_text e)\<rparr>, s2)"
    by (rule interpret_top_level_throw[OF pre st])
  show "Interpreter_interpret n (Program pre) s0
          = Some (\<lparr>res_output = output s1, res_error = None\<rparr>, s1)"
    by (rule interpret_prefix_normal[OF pre])
  show "\<exists>ys. output s2 = output s1 @ ys"
    using visitStatement_extends[OF st] by (simp add: extends_def)
next
  assume "visitExpression k ex a = Some (Normal v, a')"
  then show "visitStatement (Suc k) (PrintStatement ex) a
          = Some (Normal (), a'\<lparr>output := output a' @ [stringify (host_text a') v]\<rparr>)"
    by (rule print_statement_cases)
next
  assume "visitExpression k ex a = Some (Throw t, a')"
  then show "visitStatement (Suc k) (PrintStatement ex) a = Some (Throw t, a')"
    by (rule print_statement_cases)
next
  assume "ve condition a = Some (Normal cv, a1)" "isTruthy cv"
    "forEach vs body a1 = Some (Throw t, a2)" "\<forall>v. t \<noteq> ReturnException v"
  then show "visitWhileLoop (Suc k) ve vs condition body a = Some (Normal (), a2)"
    by (rule while_swallows_error)
next
  show "error_text (Error message) = message" by (simp add: error_text_def)
  show "run_source 20 ht callback scenario_D_source
       = Some (Interpreted \<lparr>res_output = [], res_error = Some ''Division by zero''\<rparr>)"
    by (rule scenario_D_run)
qed

theorem C1_interpret_catches_every_error_witness:
  "Interpreter_interpret 20 (Program (scenario_D_pre @ [scenario_D_failing])) fresh_interpreter
     = Some (\<lparr>res_output = [], res_error = Some ''Division by zero''\<rparr>,
             x_is_five (\<lambda>r. []) None)
   \<and> Interpreter_interpret 20 (Program scenario_D_pre) fresh_interpreter
     = Some (\<lparr>res_output = [], res_error = None\<rparr>, x_is_five (\<lambda>r. []) None)
   \<and> visitWhileLoop (Suc 0) (visitExpression 5) (visitStatement 5) (Literal (LBoolean True))
        [PrintStatement (Identifier ''y'')] fresh_interpreter
     = Some (Normal (), fresh_interpreter)
   \<and> Interpreter_interpret 20 swallow_program fresh_interpreter
     = Some (\<lparr>res_output = [], res_error = None\<rparr>, fresh_interpreter)"
proof (intro conjI)
  note t = C1_interpret_catches_every_error [where n=20 and pre=scenario_D_pre
      and ?s0.0=fresh_interpreter and ?s1.0="x_is_five (\<lambda>r. []) None"
      and st=scenario_D_failing and e="Error ''Division by zero''"
      and ?s2.0="x_is_five (\<lambda>r. []) None" and post="[]"
      and ve="visitExpression 5" and vs="visitStatement 5"
      and condition="Literal (LBoolean True)" and a=fresh_interpreter
      and cv="BooleanV True" and ?a1.0=fresh_interpreter
      and body="[PrintStatement (Identifier ''y'')]" and t="undefined_variable ''y''"
      and ?a2.0=fresh_interpreter and k=0
      and p=swallow_program and c="Normal ()" and s=fresh_interpreter]
  note top = t [THEN conjunct2, THEN conjunct1, rule_format,
      OF scenario_D_pre_runs [of "\<lambda>r. []" None, folded fresh_interpreter_def]
         scenario_D_fails]
  show "Interpreter_interpret 20 (Program (scenario_D_pre @ [scenario_D_failing]))
          fresh_interpreter
     = Some (\<lparr>res_output = [], res_error = Some ''Division by zero''\<rparr>,
             x_is_five (\<lambda>r. []) None)"
    using top [THEN conjunct1] by (simp add: x_is_five_output error_text_def)
  show "Interpreter_interpret 20 (Program scenario_D_pre) fresh_interpreter
     = Some (\<lparr>res_output = [], res_error = None\<rparr>, x_is_five (\<lambda>r. []) None)"
    using top [THEN conjunct2, THEN conjunct1] by (simp add: x_is_five_output)
  have tr: "isTruthy (BooleanV True)" by (simp add: isTruthy_def)
  have nr: "\<forall>v. undefined_variable ''y'' \<noteq> ReturnException v"
    by (simp add: undefined_variable_def)
  from t [THEN conjunct2, THEN conjunct2, THEN conjunct2, THEN conjunct2, THEN conjunct1,
          rule_format, OF fresh_true tr fresh_print_undefined nr [rule_format]]
  show "visitWhileLoop (Suc 0) (visitExpression 5) (visitStatement 5) (Literal (LBoolean True))
        [PrintStatement (Identifier ''y'')] fresh_interpreter
     = Some (Normal (), fresh_interpreter)" .
  have vp: "visitProgram 20 swallow_program (fresh_interpreter\<lparr>output := []\<rparr>)
              = Some (Normal (), fresh_interpreter)"
    by (simp add: swallow_program_def fresh_interpreter_def evaluator_eval)
  have o: "output fresh_interpreter = []"
    by (simp add: fresh_interpreter_def evaluator_eval)
  from t [THEN conjunct1, rule_format, OF vp]
  show "Interpreter_interpret 20 swallow_program fresh_interpreter
     = Some (\<lparr>res_output = [], res_error = None\<rparr>, fresh_interpreter)"
    by (simp add: o)
qed

section \<open>Constants\<close>







subsection \<open>An assignment inside a while loop\<close>


























section \<open>Scenario B: the for loop\<close>

definition scenario_B_source :: string where
  "scenario_B_source = ''dohrana i in range(3):'' @ LF @ ''    likho i''"

definition scenario_B_tokens :: "Token list" where
  "scenario_B_tokens =
    [\<lparr>tok_type = DOHRANA, tok_value = ''dohrana'', tok_line = 1, tok_column = 1\<rparr>,
     \<lparr>tok_type = IDENTIFIER, tok_value = ''i'', tok_line = 1, tok_column = 9\<rparr>,
     \<lparr>tok_type = IN, tok_value = ''in'', tok_line = 1, tok_column = 11\<rparr>,
     \<lparr>tok_type = RANGE, tok_value = ''range'', tok_line = 1, tok_column = 14\<rparr>,
     \<lparr>tok_type = LEFT_PAREN, tok_value = ''('', tok_line = 1, tok_column = 19\<rparr>,
     \<lparr>tok_type = NUMBER, tok_value = ''3'', tok_line = 1, tok_column = 20\<rparr>,
     \<lparr>tok_type = RIGHT_PAREN, tok_value = '')'', tok_line = 1, tok_column = 21\<rparr>,
     \<lparr>tok_type = COLON, tok_value = '':'', tok_line = 1, tok_column = 22\<rparr>,
     \<lparr>tok_type = NEWLINE, tok_value = LF, tok_line = 1, tok_column = 23\<rparr>,
     \<lparr>tok_type = INDENT, tok_value = ''    '', tok_line = 2, tok_column = 2\<rparr>,
     \<lparr>tok_type = LIKHO, tok_value = ''likho'', tok_line = 2, tok_column = 6\<rparr>,
     \<lparr>tok_type = IDENTIFIER, tok_value = ''i'', tok_line = 2, tok_column = 12\<rparr>,
     \<lparr>tok_type = DEDENT, tok_value = [], tok_line = 2, tok_column = 13\<rparr>,
     \<lparr>tok_type = EOF, tok_value = [], tok_line = 2, tok_column = 13\<rparr>]"

definition scenario_B_program :: Program where
  "scenario_B_program =
     Program [ForLoop ''i'' (CallExpression (Some ''range'') [Literal (LNumber (Num 3))])
                [PrintStatement (Identifier ''i'')]]"

lemma scenario_B_tokenize: "tokenize scenario_B_source = Inr scenario_B_tokens"
  by code_simp

lemma scenario_B_parse: "parse 20 scenario_B_tokens = Some (Inr scenario_B_program)"
  by (simp add: scenario_B_tokens_def scenario_B_program_def parser_eval)

lemma scenario_B_interpret:
  "\<exists>s. Interpreter_interpret 20 scenario_B_program (new_Interpreter ht callback)
     = Some (\<lparr>res_output = [''0''],
              res_error = Some (''Variable '' @ [CHR 0x27] @ ''i'' @ [CHR 0x27]
                                @ '' already defined'')\<rparr>, s)"
  by (simp add: scenario_B_program_def evaluator_eval)

text \<open>
  C2 (the code at the failing input).  The loop variable is bound with \<^verbatim>\<open>define\<close> in
  every iteration, in the one environment the loop makes, and \<^verbatim>\<open>define\<close> refuses a name
  that environment already has.  So scenario B prints \<^verbatim>\<open>0\<close>, and the second iteration
  ends the run with \<^verbatim>\<open>Variable 'i' already defined\<close>.
\<close>

theorem C2_scenario_B_stops_at_second_iteration:
  "run_source 20 ht callback scenario_B_source
     = Some (Interpreted
         \<lparr>res_output = [''0''],
          res_error = Some (''Variable '' @ [CHR 0x27] @ ''i'' @ [CHR 0x27]
                            @ '' already defined'')\<rparr>)"
  using scenario_B_interpret[of ht callback]
  by (auto simp: run_source_def scenario_B_tokenize scenario_B_parse)

section \<open>Input\<close>

text \<open>
  The specification's condition, in its words: the entire text is a valid finite number,
  that is, a decimal literal with a finite value and nothing after it.
\<close>

definition entire_finite_number :: "string \<Rightarrow> bool" where
  "entire_finite_number t =
     (case signed_literal t of
        Some (Num r, rest) \<Rightarrow> rest = []
      | _ \<Rightarrow> False)"

definition with_input :: "string \<Rightarrow> Interpreter" where
  "with_input answer = new_Interpreter (\<lambda>r. []) (Some (\<lambda>prompt. answer))"

lemma signed_12abc: "signed_literal ''12abc'' = Some (Num 12, ''abc'')"
  by (simp add: parseFloat_eval)

lemma signed_abc: "signed_literal ''abc'' = None"
  by (simp add: parseFloat_eval)

text \<open>
  C5, as stated, fails.  The text \<^verbatim>\<open>12abc\<close> is not, as a whole, a number, yet the input
  expression evaluates to the number 12: \<^verbatim>\<open>parseFloat\<close> reads the numeric prefix and
  ignores the rest.
\<close>

theorem C5_counterexample:
  "\<not> entire_finite_number ''12abc''
   \<and> visitInputStatement ''? '' (with_input ''12abc'')
       = Some (Normal (NumberV (Num 12)), with_input ''12abc'')"
  by (simp add: entire_finite_number_def signed_12abc visitInputStatement_def parseFloat_def
        is_white_def isNaN_def isFinite_def with_input_def evaluator_eval)

text \<open>
  C5, amended.  With an input provider, the text it returns becomes a number exactly when,
  after leading white space, it starts with a decimal literal of finite value; the number
  is what \<^verbatim>\<open>parseFloat\<close> makes of the text, and whatever follows the literal is ignored.
  In every other case (no such prefix, or an infinite value) the text is kept as a string.
\<close>

theorem C5_input_number_by_prefix:
  "inputCallback s = Some callback \<Longrightarrow>
     visitInputStatement prompt s
       = Some (Normal (case signed_literal (dropWhile is_white (callback prompt)) of
                         Some (Num r, rest) \<Rightarrow> NumberV (parseFloat (callback prompt))
                       | _ \<Rightarrow> StringV (callback prompt)), s)"
  by (auto simp: visitInputStatement_def parseFloat_def isNaN_def isFinite_def Let_def
           split: option.splits prod.splits number.splits)

lemma signed_Infinity: "signed_literal ''Infinity'' = Some (PosInfinity, [])"
  by (simp add: parseFloat_eval)

lemma parseFloat_12abc: "parseFloat ''12abc'' = Num 12"
  by (simp add: parseFloat_def signed_12abc is_white_def)

theorem C5_input_number_by_prefix_witness:
  "visitInputStatement ''? '' (with_input ''12abc'')
     = Some (Normal (NumberV (Num 12)), with_input ''12abc'')
   \<and> visitInputStatement ''? '' (with_input ''abc'')
     = Some (Normal (StringV ''abc''), with_input ''abc'')
   \<and> visitInputStatement ''? '' (with_input ''Infinity'')
     = Some (Normal (StringV ''Infinity''), with_input ''Infinity'')"
proof -
  have a: "inputCallback (with_input t) = Some (\<lambda>prompt. t)" for t
    by (simp add: with_input_def evaluator_eval)
  have w: "dropWhile is_white ''12abc'' = ''12abc''" "dropWhile is_white ''abc'' = ''abc''"
    "dropWhile is_white ''Infinity'' = ''Infinity''"
    by (simp_all add: is_white_def)
  have t1: "visitInputStatement ''? '' (with_input ''12abc'')
              = Some (Normal (NumberV (Num 12)), with_input ''12abc'')"
    using C5_input_number_by_prefix[OF a, of "''? ''" "''12abc''"]
    unfolding w signed_12abc parseFloat_12abc by simp
  have t2: "visitInputStatement ''? '' (with_input ''abc'')
              = Some (Normal (StringV ''abc''), with_input ''abc'')"
    using C5_input_number_by_prefix[OF a, of "''? ''" "''abc''"]
    unfolding w signed_abc by simp
  have t3: "visitInputStatement ''? '' (with_input ''Infinity'')
              = Some (Normal (StringV ''Infinity''), with_input ''Infinity'')"
    using C5_input_number_by_prefix[OF a, of "''? ''" "''Infinity''"]
    unfolding w signed_Infinity by simp
  show ?thesis using t1 t2 t3 by (intro conjI)
qed

section \<open>Closures\<close>

text \<open>
  The state in which the parameters of a called function are bound: a new environment,
  whose parent is the function's closure, has been made the current one.
\<close>

definition call_entry :: "EasyLangFunction \<Rightarrow> Interpreter \<Rightarrow> Interpreter" where
  "call_entry func s = (snd (new_Environment (Some (fn_closure func)) s))\<lparr>environment := allocated s\<rparr>"

lemma bind_parameters_frame:
  "bind_parameters ps vals s = Some (r, s') \<Longrightarrow>
     environment s' = environment s \<and> allocated s' = allocated s
     \<and> env_parent (heap s' (environment s)) = env_parent (heap s (environment s))
     \<and> (\<forall>a. a \<noteq> environment s \<longrightarrow> heap s' a = heap s a)"
proof (induction ps vals s arbitrary: r s' rule: bind_parameters.induct)
  case (1 p ps a as s)
  show ?case
  proof (cases "p \<in> dom (env_values (heap s (environment s)))")
    case True
    then show ?thesis using "1.prems" by (auto simp: Environment_define_def Let_def)
  next
    case False
    define s1 where "s1 = s\<lparr>heap := (heap s)(environment s :=
        (heap s (environment s))\<lparr>env_values := (env_values (heap s (environment s)))(p \<mapsto> a),
           env_constants := env_constants (heap s (environment s))\<rparr>)\<rparr>"
    have d: "Environment_define (environment s) p a False s = Some (Normal (), s1)"
      using False by (simp add: Environment_define_def Let_def s1_def)
    have b: "bind_parameters ps as s1 = Some (r, s')"
      using "1.prems" d by simp
    have ih: "environment s' = environment s1 \<and> allocated s' = allocated s1
        \<and> env_parent (heap s' (environment s1)) = env_parent (heap s1 (environment s1))
        \<and> (\<forall>a. a \<noteq> environment s1 \<longrightarrow> heap s' a = heap s1 a)"
      by (rule "1.IH"[OF b])
    show ?thesis using ih by (simp add: s1_def)
  qed
qed simp_all

lemma call_entry_frame:
  assumes "bind_parameters ps vals (call_entry func s) = Some (r, s3)"
  shows "environment s3 = allocated s \<and> allocated s3 = Suc (allocated s)
     \<and> env_parent (heap s3 (allocated s)) = Some (fn_closure func)
     \<and> (\<forall>a. a \<noteq> allocated s \<longrightarrow> heap s3 a = heap s a)"
  using bind_parameters_frame[OF assms]
  by (simp add: call_entry_def new_Environment_def)

lemma call_entry_caller: "call_entry func (s\<lparr>environment := e\<rparr>) = call_entry func s"
  by (simp add: call_entry_def new_Environment_def)

lemma call_returns:
  assumes g: "g \<noteq> ''range''"
    and callee: "Environment_get m (environment s) g s = Some (Normal (FunctionV func), s)"
    and args: "mapEach (visitExpression m) arguments s = Some (Normal vals, s1)"
    and len: "length vals = length (fn_parameters func)"
    and bind: "bind_parameters (fn_parameters func) vals (call_entry func s1) = Some (Normal (), s3)"
    and body: "forEach (visitStatement m) (fn_body func) s3 = Some (Throw (ReturnException v), s4)"
  shows "visitExpression (Suc m) (CallExpression (Some g) arguments) s
           = Some (Normal v, s4\<lparr>environment := environment s1\<rparr>)"
proof -
  have e: "(snd (new_Environment (Some (fn_closure func)) s1))
             \<lparr>environment := fst (new_Environment (Some (fn_closure func)) s1)\<rparr>
           = call_entry func s1"
    by (simp add: call_entry_def new_Environment_def)
  show ?thesis
    using g callee args len bind body e
    by (simp add: visitCallExpression_def finally_restore_def Let_def split_beta)
qed

lemma call_reads_closure:
  assumes g: "g \<noteq> ''range''"
    and callee: "Environment_get (Suc (Suc (Suc (Suc k)))) (environment s) g s
                   = Some (Normal (FunctionV func), s)"
    and ps: "fn_parameters func = []"
    and body: "fn_body func = [ReturnStatement (Some (Identifier x))]"
    and c: "fn_closure func < allocated s"
    and v: "env_values (heap s (fn_closure func)) x = Some v"
  shows "visitExpression (Suc (Suc (Suc (Suc (Suc k))))) (CallExpression (Some g) []) s
           = Some (Normal v, (call_entry func s)\<lparr>environment := environment s\<rparr>)"
proof -
  have b: "bind_parameters (fn_parameters func) [] (call_entry func s)
             = Some (Normal (), call_entry func s)"
    by (simp add: ps)
  have r: "forEach (visitStatement (Suc (Suc (Suc (Suc k))))) (fn_body func) (call_entry func s)
             = Some (Throw (ReturnException v), call_entry func s)"
    using c v
    by (simp add: body visitReturnStatement_def visitIdentifier_def call_entry_def
          new_Environment_def)
  show ?thesis
    by (rule call_returns[OF g callee _ _ b r]) (simp_all add: ps)
qed

subsection \<open>Two programs\<close>

text \<open>
  In the first the caller has a variable \<open>a\<close> of its own; in the second the outer function
  assigns to its parameter after it has declared the inner function.
\<close>

definition inner_declaration :: Statement where
  "inner_declaration =
     FunctionDeclaration ''inner'' [] [ReturnStatement (Some (Identifier ''a''))] ArrowStyle"

definition closure_setup :: "Statement list" where
  "closure_setup =
     [FunctionDeclaration ''outer'' [''a'']
        [inner_declaration, ReturnStatement (Some (Identifier ''inner''))] ArrowStyle,
      VariableDeclaration ''a'' (Literal (LNumber (Num 10))) False,
      VariableDeclaration ''g'' (CallExpression (Some ''outer'') [Literal (LNumber (Num 5))])
        False]"

definition closure_program :: Program where
  "closure_program = Program (closure_setup @ [PrintStatement (CallExpression (Some ''g'') [])])"

definition reference_source :: string where
  "reference_source =
     ''outer ka system (a) {'' @ LF @ ''inner ka system () {'' @ LF @ ''return a'' @ LF
     @ ''}'' @ LF @ ''likho a'' @ LF @ ''a = a + 1'' @ LF @ ''return inner'' @ LF @ ''}'' @ LF
     @ ''banao g = outer(5)'' @ LF @ ''likho g()''"

definition reference_tokens :: "Token list" where
  "reference_tokens =
    [\<lparr>tok_type = IDENTIFIER, tok_value = ''outer'', tok_line = 1, tok_column = 1\<rparr>,
     \<lparr>tok_type = KA_SYSTEM, tok_value = ''ka system'', tok_line = 1, tok_column = 7\<rparr>,
     \<lparr>tok_type = LEFT_PAREN, tok_value = ''('', tok_line = 1, tok_column = 17\<rparr>,
     \<lparr>tok_type = IDENTIFIER, tok_value = ''a'', tok_line = 1, tok_column = 18\<rparr>,
     \<lparr>tok_type = RIGHT_PAREN, tok_value = '')'', tok_line = 1, tok_column = 19\<rparr>,
     \<lparr>tok_type = LEFT_BRACE, tok_value = ''{'', tok_line = 1, tok_column = 21\<rparr>,
     \<lparr>tok_type = NEWLINE, tok_value = LF, tok_line = 1, tok_column = 22\<rparr>,
     \<lparr>tok_type = IDENTIFIER, tok_value = ''inner'', tok_line = 2, tok_column = 1\<rparr>,
     \<lparr>tok_type = KA_SYSTEM, tok_value = ''ka system'', tok_line = 2, tok_column = 7\<rparr>,
     \<lparr>tok_type = LEFT_PAREN, tok_value = ''('', tok_line = 2, tok_column = 17\<rparr>,
     \<lparr>tok_type = RIGHT_PAREN, tok_value = '')'', tok_line = 2, tok_column = 18\<rparr>,
     \<lparr>tok_type = LEFT_BRACE, tok_value = ''{'', tok_line = 2, tok_column = 20\<rparr>,
     \<lparr>tok_type = NEWLINE, tok_value = LF, tok_line = 2, tok_column = 21\<rparr>,
     \<lparr>tok_type = RETURN, tok_value = ''return'', tok_line = 3, tok_column = 1\<rparr>,
     \<lparr>tok_type = IDENTIFIER, tok_value = ''a'', tok_line = 3, tok_column = 8\<rparr>,
     \<lparr>tok_type = NEWLINE, tok_value = LF, tok_line = 3, tok_column = 9\<rparr>,
     \<lparr>tok_type = RIGHT_BRACE, tok_value = ''}'', tok_line = 4, tok_column = 1\<rparr>,
     \<lparr>tok_type = NEWLINE, tok_value = LF, tok_line = 4, tok_column = 2\<rparr>,
     \<lparr>tok_type = LIKHO, tok_value = ''likho'', tok_line = 5, tok_column = 1\<rparr>,
     \<lparr>tok_type = IDENTIFIER, tok_value = ''a'', tok_line = 5, tok_column = 7\<rparr>,
     \<lparr>tok_type = NEWLINE, tok_value = LF, tok_line = 5, tok_column = 8\<rparr>,
     \<lparr>tok_type = IDENTIFIER, tok_value = ''a'', tok_line = 6, tok_column = 1\<rparr>,
     \<lparr>tok_type = ASSIGN, tok_value = ''='', tok_line = 6, tok_column = 3\<rparr>,
     \<lparr>tok_type = IDENTIFIER, tok_value = ''a'', tok_line = 6, tok_column = 5\<rparr>,
     \<lparr>tok_type = PLUS, tok_value = ''+'', tok_line = 6, tok_column = 7\<rparr>,
     \<lparr>tok_type = NUMBER, tok_value = ''1'', tok_line = 6, tok_column = 9\<rparr>,
     \<lparr>tok_type = NEWLINE, tok_value = LF, tok_line = 6, tok_column = 10\<rparr>,
     \<lparr>tok_type = RETURN, tok_value = ''return'', tok_line = 7, tok_column = 1\<rparr>,
     \<lparr>tok_type = IDENTIFIER, tok_value = ''inner'', tok_line = 7, tok_column = 8\<rparr>,
     \<lparr>tok_type = NEWLINE, tok_value = LF, tok_line = 7, tok_column = 13\<rparr>,
     \<lparr>tok_type = RIGHT_BRACE, tok_value = ''}'', tok_line = 8, tok_column = 1\<rparr>,
     \<lparr>tok_type = NEWLINE, tok_value = LF, tok_line = 8, tok_column = 2\<rparr>,
     \<lparr>tok_type = BANAO, tok_value = ''banao'', tok_line = 9, tok_column = 1\<rparr>,
     \<lparr>tok_type = IDENTIFIER, tok_value = ''g'', tok_line = 9, tok_column = 7\<rparr>,
     \<lparr>tok_type = ASSIGN, tok_value = ''='', tok_line = 9, tok_column = 9\<rparr>,
     \<lparr>tok_type = IDENTIFIER, tok_value = ''outer'', tok_line = 9, tok_column = 11\<rparr>,
     \<lparr>tok_type = LEFT_PAREN, tok_value = ''('', tok_line = 9, tok_column = 16\<rparr>,
     \<lparr>tok_type = NUMBER, tok_value = ''5'', tok_line = 9, tok_column = 17\<rparr>,
     \<lparr>tok_type = RIGHT_PAREN, tok_value = '')'', tok_line = 9, tok_column = 18\<rparr>,
     \<lparr>tok_type = NEWLINE, tok_value = LF, tok_line = 9, tok_column = 19\<rparr>,
     \<lparr>tok_type = LIKHO, tok_value = ''likho'', tok_line = 10, tok_column = 1\<rparr>,
     \<lparr>tok_type = IDENTIFIER, tok_value = ''g'', tok_line = 10, tok_column = 7\<rparr>,
     \<lparr>tok_type = LEFT_PAREN, tok_value = ''('', tok_line = 10, tok_column = 8\<rparr>,
     \<lparr>tok_type = RIGHT_PAREN, tok_value = '')'', tok_line = 10, tok_column = 9\<rparr>,
     \<lparr>tok_type = EOF, tok_value = [], tok_line = 10, tok_column = 10\<rparr>]"

definition reference_program :: Program where
  "reference_program =
     Program [FunctionDeclaration ''outer'' [''a'']
                [inner_declaration,
                 PrintStatement (Identifier ''a''),
                 Assignment ''a'' (BinaryExpression (Identifier ''a'') ''+''
                                     (Literal (LNumber (Num 1)))),
                 ReturnStatement (Some (Identifier ''inner''))] ArrowStyle,
              VariableDeclaration ''g''
                (CallExpression (Some ''outer'') [Literal (LNumber (Num 5))]) False,
              PrintStatement (CallExpression (Some ''g'') [])]"

lemma reference_tokenize: "tokenize reference_source = Inr reference_tokens"
  by code_simp

lemma reference_parse: "parse 30 reference_tokens = Some (Inr reference_program)"
  by (simp add: reference_tokens_def reference_program_def inner_declaration_def parser_eval)

lemma closure_interpret:
  "\<exists>s. Interpreter_interpret 30 closure_program (new_Interpreter ht callback)
     = Some (\<lparr>res_output = [''5''], res_error = None\<rparr>, s)"
  by (simp add: closure_program_def closure_setup_def inner_declaration_def evaluator_eval)

lemma reference_interpret:
  "\<exists>s. Interpreter_interpret 30 reference_program (new_Interpreter ht callback)
     = Some (\<lparr>res_output = [''5'', ''6''], res_error = None\<rparr>, s)"
  by (simp add: reference_program_def inner_declaration_def evaluator_eval)

lemma reference_run:
  "run_source 30 ht callback reference_source
     = Some (Interpreted \<lparr>res_output = [''5'', ''6''], res_error = None\<rparr>)"
  using reference_interpret[of ht callback]
  by (auto simp: run_source_def reference_tokenize reference_parse)

text \<open>
  C8, as stated, fails.  In \<open>reference_source\<close> the outer function prints its parameter
  right after it has declared the inner function (5), then adds 1 to the parameter and
  returns the inner function.  Called after the outer call has returned, the inner
  function returns 6: what the binding holds at the call, not the value bound at
  declaration time.
\<close>

theorem C8_counterexample:
  "tokenize reference_source = Inr reference_tokens
   \<and> parse 30 reference_tokens = Some (Inr reference_program)
   \<and> run_source 30 (\<lambda>r. []) None reference_source
       = Some (Interpreted \<lparr>res_output = [''5'', ''6''], res_error = None\<rparr>)"
  by (simp add: reference_tokenize reference_parse reference_run)

text \<open>The interpreter after the first three statements of \<open>closure_program\<close>.\<close>

definition inner_function :: EasyLangFunction where
  "inner_function =
     \<lparr>fn_name = ''inner'', fn_parameters = [],
      fn_body = [ReturnStatement (Some (Identifier ''a''))], fn_closure = 1\<rparr>"

definition after_outer_call :: Interpreter where
  "after_outer_call =
     fresh_interpreter
       \<lparr>heap := (heap fresh_interpreter)
          (0 := (heap fresh_interpreter 0)
             \<lparr>env_values := (env_values (heap fresh_interpreter 0))
                (''outer'' \<mapsto> FunctionV
                    \<lparr>fn_name = ''outer'', fn_parameters = [''a''],
                     fn_body = [inner_declaration, ReturnStatement (Some (Identifier ''inner''))],
                     fn_closure = 0\<rparr>,
                 ''a'' \<mapsto> NumberV (Num 10),
                 ''g'' \<mapsto> FunctionV inner_function)\<rparr>,
           1 := \<lparr>env_values = [''a'' \<mapsto> NumberV (Num 5),
                                ''inner'' \<mapsto> FunctionV inner_function],
                  env_constants = {}, env_parent = Some 0\<rparr>),
        allocated := 2\<rparr>"

lemma closure_setup_runs:
  "forEach (visitStatement 30) closure_setup (fresh_interpreter\<lparr>output := []\<rparr>)
     = Some (Normal (), after_outer_call)"
  by (simp add: closure_setup_def inner_declaration_def after_outer_call_def
        inner_function_def fresh_interpreter_def evaluator_eval fun_upd_twist)

lemma after_outer_call_facts:
  "environment after_outer_call = 0" "allocated after_outer_call = 2"
  "env_values (heap after_outer_call 0) ''a'' = Some (NumberV (Num 10))"
  "env_values (heap after_outer_call (Suc 0)) ''a'' = Some (NumberV (Num 5))"
  "Environment_get (Suc (Suc (Suc (Suc 0)))) (environment after_outer_call) ''g'' after_outer_call
     = Some (Normal (FunctionV inner_function), after_outer_call)"
  by (simp_all add: after_outer_call_def fresh_interpreter_def evaluator_eval)

text \<open>
  C8, amended.  A function declaration stores, in the function value, the environment
  that is current when it runs: the environment itself (its address), not its contents.
  A call makes a new environment whose parent is that stored environment, whatever
  environment the caller is in, binds the parameters there and leaves every other
  environment as it is; the body runs there, and the value it returns is the value of the
  call, after which the caller's environment is current again.  Hence a parameterless
  function whose body is \<^verbatim>\<open>return x\<close> returns what the stored environment holds for \<open>x\<close>
  at the time of the call.  In \<open>closure_program\<close> the inner function, called after the outer
  call has returned and from a caller whose own \<open>a\<close> is 10, prints the 5 of the outer
  call; in \<open>reference_program\<close>, where the outer function adds 1 to its parameter after
  declaring the inner one, it prints 6.
\<close>

theorem C8_closure_by_reference:
  "visitStatement (Suc n) (FunctionDeclaration name parameters body style) s
     = Environment_define (environment s) name
         (FunctionV \<lparr>fn_name = name, fn_parameters = parameters, fn_body = body,
                     fn_closure = environment s\<rparr>) False s
   \<and> call_entry func (s\<lparr>environment := e\<rparr>) = call_entry func s
   \<and> (bind_parameters ps vals (call_entry func s) = Some (r, s3) \<longrightarrow>
        environment s3 = allocated s \<and> allocated s3 = Suc (allocated s)
        \<and> env_parent (heap s3 (allocated s)) = Some (fn_closure func)
        \<and> (\<forall>a. a \<noteq> allocated s \<longrightarrow> heap s3 a = heap s a))
   \<and> (g \<noteq> ''range'' \<longrightarrow>
        Environment_get m (environment s) g s = Some (Normal (FunctionV func), s) \<longrightarrow>
        mapEach (visitExpression m) arguments s = Some (Normal vals, s1) \<longrightarrow>
        length vals = length (fn_parameters func) \<longrightarrow>
        bind_parameters (fn_parameters func) vals (call_entry func s1) = Some (Normal (), s3) \<longrightarrow>
        forEach (visitStatement m) (fn_body func) s3 = Some (Throw (ReturnException v), s4) \<longrightarrow>
          visitExpression (Suc m) (CallExpression (Some g) arguments) s
            = Some (Normal v, s4\<lparr>environment := environment s1\<rparr>))
   \<and> (g \<noteq> ''range'' \<longrightarrow>
        Environment_get (Suc (Suc (Suc (Suc k)))) (environment s) g s
          = Some (Normal (FunctionV func), s) \<longrightarrow>
        fn_parameters func = [] \<longrightarrow>
        fn_body func = [ReturnStatement (Some (Identifier x))] \<longrightarrow>
        fn_closure func < allocated s \<longrightarrow>
        env_values (heap s (fn_closure func)) x = Some v \<longrightarrow>
          visitExpression (Suc (Suc (Suc (Suc (Suc k))))) (CallExpression (Some g) []) s
            = Some (Normal v, (call_entry func s)\<lparr>environment := environment s\<rparr>))
   \<and> (\<exists>t. Interpreter_interpret 30 closure_program (new_Interpreter ht callback)
            = Some (\<lparr>res_output = [''5''], res_error = None\<rparr>, t))
   \<and> (\<exists>t. Interpreter_interpret 30 reference_program (new_Interpreter ht callback)
            = Some (\<lparr>res_output = [''5'', ''6''], res_error = None\<rparr>, t))"
proof (intro conjI impI)
  show "visitStatement (Suc n) (FunctionDeclaration name parameters body style) s
     = Environment_define (environment s) name
         (FunctionV \<lparr>fn_name = name, fn_parameters = parameters, fn_body = body,
                     fn_closure = environment s\<rparr>) False s"
    by (simp add: visitFunctionDeclaration_def)
  show "call_entry func (s\<lparr>environment := e\<rparr>) = call_entry func s"
    by (rule call_entry_caller)
next
  assume b: "bind_parameters ps vals (call_entry func s) = Some (r, s3)"
  from call_entry_frame[OF b]
  show "environment s3 = allocated s" "allocated s3 = Suc (allocated s)"
    "env_parent (heap s3 (allocated s)) = Some (fn_closure func)"
    "\<forall>a. a \<noteq> allocated s \<longrightarrow> heap s3 a = heap s a"
    by simp_all
next
  assume "g \<noteq> ''range''"
    "Environment_get m (environment s) g s = Some (Normal (FunctionV func), s)"
    "mapEach (visitExpression m) arguments s = Some (Normal vals, s1)"
    "length vals = length (fn_parameters func)"
    "bind_parameters (fn_parameters func) vals (call_entry func s1) = Some (Normal (), s3)"
    "forEach (visitStatement m) (fn_body func) s3 = Some (Throw (ReturnException v), s4)"
  then show "visitExpression (Suc m) (CallExpression (Some g) arguments) s
            = Some (Normal v, s4\<lparr>environment := environment s1\<rparr>)"
    by (rule call_returns)
next
  assume "g \<noteq> ''range''"
    "Environment_get (Suc (Suc (Suc (Suc k)))) (environment s) g s
          = Some (Normal (FunctionV func), s)"
    "fn_parameters func = []"
    "fn_body func = [ReturnStatement (Some (Identifier x))]"
    "fn_closure func < allocated s"
    "env_values (heap s (fn_closure func)) x = Some v"
  then show "visitExpression (Suc (Suc (Suc (Suc (Suc k))))) (CallExpression (Some g) []) s
            = Some (Normal v, (call_entry func s)\<lparr>environment := environment s\<rparr>)"
    by (rule call_reads_closure)
next
  show "\<exists>t. Interpreter_interpret 30 closure_program (new_Interpreter ht callback)
            = Some (\<lparr>res_output = [''5''], res_error = None\<rparr>, t)"
    by (rule closure_interpret)
  show "\<exists>t. Interpreter_interpret 30 reference_program (new_Interpreter ht callback)
            = Some (\<lparr>res_output = [''5'', ''6''], res_error = None\<rparr>, t)"
    by (rule reference_interpret)
qed

theorem C8_closure_by_reference_witness:
  "forEach (visitStatement 30) closure_setup (fresh_interpreter\<lparr>output := []\<rparr>)
     = Some (Normal (), after_outer_call)
   \<and> env_values (heap after_outer_call (environment after_outer_call)) ''a''
       = Some (NumberV (Num 10))
   \<and> visitExpression (Suc (Suc (Suc (Suc (Suc 0))))) (CallExpression (Some ''g'') [])
        after_outer_call
       = Some (Normal (NumberV (Num 5)),
               (call_entry inner_function after_outer_call)\<lparr>environment := 0\<rparr>)"
proof (intro conjI)
  show "forEach (visitStatement 30) closure_setup (fresh_interpreter\<lparr>output := []\<rparr>)
     = Some (Normal (), after_outer_call)"
    by (rule closure_setup_runs)
  show "env_values (heap after_outer_call (environment after_outer_call)) ''a''
       = Some (NumberV (Num 10))"
    by (simp add: after_outer_call_facts)
  have g: "''g'' \<noteq> ''range''" by simp
  have ps: "fn_parameters inner_function = []"
    and body: "fn_body inner_function = [ReturnStatement (Some (Identifier ''a''))]"
    and c: "fn_closure inner_function < allocated after_outer_call"
    and v: "env_values (heap after_outer_call (fn_closure inner_function)) ''a''
              = Some (NumberV (Num 5))"
    by (simp_all add: inner_function_def after_outer_call_facts)
  from C8_closure_by_reference [where g="''g''" and k=0 and s=after_outer_call
      and func=inner_function and x="''a''" and v="NumberV (Num 5)",
      THEN conjunct2, THEN conjunct2, THEN conjunct2, THEN conjunct2, THEN conjunct1,
      rule_format, OF g after_outer_call_facts(5) ps body c v]
  show "visitExpression (Suc (Suc (Suc (Suc (Suc 0))))) (CallExpression (Some ''g'') [])
        after_outer_call
       = Some (Normal (NumberV (Num 5)),
               (call_entry inner_function after_outer_call)\<lparr>environment := 0\<rparr>)"
    by (simp add: after_outer_call_facts)
qed

end
